theory Spec2Isabelle
  imports Complex_Main "HOL-Library.Word"
begin

unbundle bit_operations_syntax

section \<open>Raiders3D on the UNO R3: the data model\<close>

text \<open>
  The sketch \<^verbatim>\<open>Raiders3D.ino\<close> keeps its whole state in globals and runs
  \<^verbatim>\<open>Game_Main\<close> once per call of \<^verbatim>\<open>loop()\<close>. The embedding below follows it
  function by function.

  Conventions of the embedding.
  \<^item> \<^verbatim>\<open>int8_t\<close> is \<open>8 word\<close> read with \<open>sint\<close>, \<^verbatim>\<open>uint8_t\<close> is \<open>8 word\<close>,
    \<^verbatim>\<open>uint16_t\<close> and \<^verbatim>\<open>int16_t\<close> are \<open>16 word\<close>; \<open>+\<close> on them wraps.
  \<^item> \<^verbatim>\<open>float\<close> is \<open>rat\<close>: exact arithmetic, no rounding, no infinities. Every
    position and velocity the sketch stores is a sum of small integers, which
    single precision represents exactly; quotients appear only in the projection.
  \<^item> C \<^verbatim>\<open>int\<close> (screen coordinates) is \<open>int\<close>; the conversion from
    \<^verbatim>\<open>float\<close> truncates towards zero (\<open>float_to_int\<close>).
  \<^item> \<^verbatim>\<open>rand()\<close> is a parameter \<open>rnd\<close>: \<open>rnd n\<close> is the value (in \<open>0..RAND_MAX\<close>,
    hence a \<open>nat\<close>) returned by the \<open>n\<close>-th call; the state counts the calls.
  \<^item> \<^verbatim>\<open>digitalRead\<close> is a parameter of the frame: \<open>True\<close> is HIGH; the buttons are
    active low, as in the sketch (\<^verbatim>\<open>!digitalRead(pin)\<close>).
  \<^item> The display is an output trace of \<open>event\<close>s. A \<open>Divide\<close> event records the
    divisor of each perspective division the sketch executes.
  \<^item> Record fields carry a prefix (\<open>p_\<close>, \<open>l_\<close>, \<open>t_\<close>, \<open>v_\<close>, \<open>e_\<close>) because the
    structs of the sketch share field names.
\<close>

abbreviation (input) WINDOW_WIDTH :: int where "WINDOW_WIDTH \<equiv> 128"
abbreviation (input) WINDOW_HEIGHT :: int where "WINDOW_HEIGHT \<equiv> 160"
abbreviation (input) NUM_STARS :: nat where "NUM_STARS \<equiv> 24"
abbreviation (input) NUM_TIES :: nat where "NUM_TIES \<equiv> 2"
abbreviation (input) TIES_MISSED_END_GAME :: int where "TIES_MISSED_END_GAME \<equiv> 16"
abbreviation (input) NEAR_Z :: int where "NEAR_Z \<equiv> 10"
abbreviation (input) FAR_Z :: int where "FAR_Z \<equiv> 1000"
abbreviation (input) VIEW_DISTANCE :: int where "VIEW_DISTANCE \<equiv> 64"
abbreviation (input) CROSS_VEL :: int where "CROSS_VEL \<equiv> 6"
abbreviation (input) NUM_TIE_VERTS :: nat where "NUM_TIE_VERTS \<equiv> 10"
abbreviation (input) NUM_TIE_EDGES :: nat where "NUM_TIE_EDGES \<equiv> 8"
abbreviation (input) NUM_EXPLOSIONS :: nat where "NUM_EXPLOSIONS \<equiv> NUM_TIES"
abbreviation (input) GAME_RUNNING :: "8 word" where "GAME_RUNNING \<equiv> 1"
abbreviation (input) GAME_OVER :: "8 word" where "GAME_OVER \<equiv> 0"

datatype pin =
    BUTTON_RIGHT_PIN | BUTTON_LEFT_PIN | BUTTON_UP_PIN | BUTTON_DOWN_PIN
  | BUTTON_FIRE_PIN | BUTTON_FAST_PIN | BUTTON_SLOW_PIN

record POINT3D =
  p_color :: "16 word"
  p_x :: rat
  p_y :: rat
  p_z :: rat

record LINE3D =
  l_color :: "16 word"
  l_v1 :: nat
  l_v2 :: nat

record TIE =
  t_state :: "8 word"
  t_x :: rat
  t_y :: rat
  t_z :: rat
  t_xv :: rat
  t_yv :: rat
  t_zv :: rat

record VEC3D =
  v_x :: rat
  v_y :: rat
  v_z :: rat

record EXPL =
  e_state :: "8 word"
  e_counter :: "8 word"
  e_color :: "16 word"
  e_p1 :: "POINT3D list"
  e_p2 :: "POINT3D list"
  e_vel :: "VEC3D list"

text \<open>The globals of the sketch that change after \<^verbatim>\<open>Game_Init\<close>.\<close>

record game =
  ties :: "TIE list"
  stars :: "POINT3D list"
  explosions :: "EXPL list"
  cross_x :: rat
  cross_y :: rat
  cross_x_screen :: int
  cross_y_screen :: int
  target_x_screen :: int
  target_y_screen :: int
  player_z_vel :: "8 word"
  cannon_state :: "8 word"
  cannon_count :: "8 word"
  misses :: "8 word"
  hits :: "8 word"
  score :: "16 word"
  game_state :: "8 word"
  rand_calls :: nat

text \<open>What a frame sends to the display, and the divisions it performs.\<close>

datatype projected = StarPoint | TieVertex | ExplosionVertex

datatype event =
    FillScreen "16 word"
  | DrawPixel int int "16 word"
  | DrawLine int int int int "16 word"
  | DrawText string "16 word" nat nat
  | Divide projected rat

section \<open>The functions of the sketch\<close>

text \<open>
  \<^verbatim>\<open>RGB16Bit\<close> (line 218). The operands are promoted to the 16-bit \<^verbatim>\<open>int\<close> of
  the AVR and the sum is converted to \<^verbatim>\<open>uint16_t\<close>, so the result is the sum
  modulo \<open>2^16\<close>: arithmetic on \<open>16 word\<close>.
\<close>

definition RGB16Bit :: "8 word \<Rightarrow> 8 word \<Rightarrow> 8 word \<Rightarrow> 16 word" where
  "RGB16Bit r g b =
     ucast (drop_bit 3 b) + push_bit 5 (ucast (drop_bit 2 g)) + push_bit 11 (ucast (drop_bit 3 r))"

definition rgb_green :: "16 word" where "rgb_green = RGB16Bit 0 255 0"
definition rgb_white :: "16 word" where "rgb_white = RGB16Bit 255 255 255"
definition rgb_blue :: "16 word" where "rgb_blue = RGB16Bit 0 0 255"
definition rgb_red :: "16 word" where "rgb_red = RGB16Bit 255 0 0"
definition ST77XX_BLACK :: "16 word" where "ST77XX_BLACK = 0"

text \<open>The tie fighter model that \<^verbatim>\<open>Game_Init\<close> copies into the globals (lines 311-347).\<close>

definition vertex :: "rat \<Rightarrow> rat \<Rightarrow> rat \<Rightarrow> POINT3D" where
  "vertex a b c = \<lparr>p_color = rgb_white, p_x = a, p_y = b, p_z = c\<rparr>"

definition tie_vlist :: "POINT3D list" where
  "tie_vlist =
     [vertex (-40) 40 0, vertex (-40) 0 0, vertex (-40) (-40) 0, vertex (-10) 0 0,
      vertex 0 20 0, vertex 10 0 0, vertex 0 (-20) 0, vertex 40 40 0,
      vertex 40 0 0, vertex 40 (-40) 0]"

definition line :: "nat \<Rightarrow> nat \<Rightarrow> LINE3D" where
  "line a b = \<lparr>l_color = rgb_green, l_v1 = a, l_v2 = b\<rparr>"

definition tie_shape :: "LINE3D list" where
  "tie_shape = [line 0 2, line 1 3, line 3 4, line 4 5, line 5 6, line 6 3, line 5 8, line 7 9]"

text \<open>Conversion of a \<^verbatim>\<open>float\<close> to an integer type: the fraction is discarded.\<close>

definition float_to_int :: "rat \<Rightarrow> int" where
  "float_to_int q = (if 0 \<le> q then \<lfloor>q\<rfloor> else \<lceil>q\<rceil>)"

text \<open>
  The perspective transform, written out three times in the sketch
  (\<^verbatim>\<open>VIEW_DISTANCE*x/z\<close>, lines 459-462, 512-513, 632-643), and the screen
  coordinates computed from it (lines 465-468, 516-517, 646-649).
\<close>

definition perspective :: "rat \<Rightarrow> rat \<Rightarrow> rat" where
  "perspective c depth = of_int VIEW_DISTANCE * c / depth"

definition screen_x :: "rat \<Rightarrow> int" where
  "screen_x x_per = float_to_int (of_int (WINDOW_WIDTH div 2) + x_per)"

definition screen_y :: "rat \<Rightarrow> int" where
  "screen_y y_per = float_to_int (of_int (WINDOW_HEIGHT div 2) - y_per)"

text \<open>\<^verbatim>\<open>Init_Tie\<close> (line 537): five calls of \<^verbatim>\<open>rand()\<close>, in the order of the statements.\<close>

definition Init_Tie :: "(nat \<Rightarrow> nat) \<Rightarrow> nat \<Rightarrow> game \<Rightarrow> game" where
  "Init_Tie rnd index s =
     (let n = rand_calls s;
          t = \<lparr>t_state = 1,
               t_x = of_int (- WINDOW_WIDTH + int (rnd n) mod (2 * WINDOW_WIDTH)),
               t_y = of_int (- WINDOW_HEIGHT + int (rnd (n + 1)) mod (2 * WINDOW_HEIGHT)),
               t_z = of_int (2 * FAR_Z),
               t_xv = of_int (- 4 + int (rnd (n + 2)) mod 8),
               t_yv = of_int (- 4 + int (rnd (n + 3)) mod 8),
               t_zv = of_int (- 8 - int (rnd (n + 4)) mod 64)\<rparr>
      in s\<lparr>ties := (ties s)[index := t], rand_calls := n + 5\<rparr>)"

text \<open>
  \<^verbatim>\<open>Start_Explosion\<close> (line 361). \<open>Start_Explosion_edge\<close> is the body of the inner
  loop for explosion \<open>index\<close> (three calls of \<^verbatim>\<open>rand()\<close>), \<open>Start_Explosion_at\<close> the
  body of the \<^verbatim>\<open>if\<close>, and \<open>Start_Explosion_from\<close> the hunt over the remaining
  indices, which returns at the first free slot.
\<close>

definition Start_Explosion_edge :: "(nat \<Rightarrow> nat) \<Rightarrow> nat \<Rightarrow> nat \<Rightarrow> nat \<Rightarrow> game \<Rightarrow> game" where
  "Start_Explosion_edge rnd tie index edge s =
     (let n = rand_calls s;
          t = ties s ! tie;
          e = explosions s ! index;
          a = tie_vlist ! l_v1 (tie_shape ! edge);
          b = tie_vlist ! l_v2 (tie_shape ! edge);
          e1 = e\<lparr>e_p1 := (e_p1 e)[edge := (e_p1 e ! edge)
                      \<lparr>p_x := t_x t + p_x a, p_y := t_y t + p_y a, p_z := t_z t + p_z a\<rparr>]\<rparr>;
          e2 = e1\<lparr>e_p2 := (e_p2 e1)[edge := (e_p2 e1 ! edge)
                      \<lparr>p_x := t_x t + p_x b, p_y := t_y t + p_y b, p_z := t_z t + p_z b\<rparr>]\<rparr>;
          e3 = e2\<lparr>e_vel := (e_vel e2)[edge :=
                      \<lparr>v_x = t_xv t - 16 + of_int (int (rnd n) mod 32),
                       v_y = t_yv t - 16 + of_int (int (rnd (n + 1)) mod 32),
                       v_z = of_int (- 7 + int (rnd (n + 2)) mod 8)\<rparr>]\<rparr>
      in s\<lparr>explosions := (explosions s)[index := e3], rand_calls := n + 3\<rparr>)"

definition Start_Explosion_at :: "(nat \<Rightarrow> nat) \<Rightarrow> nat \<Rightarrow> nat \<Rightarrow> game \<Rightarrow> game" where
  "Start_Explosion_at rnd tie index s =
     fold (Start_Explosion_edge rnd tie index) [0..<NUM_TIE_EDGES]
       (s\<lparr>explosions := (explosions s)[index :=
             (explosions s ! index)\<lparr>e_state := 1, e_counter := 0, e_color := rgb_green\<rparr>]\<rparr>)"

fun Start_Explosion_from :: "(nat \<Rightarrow> nat) \<Rightarrow> nat \<Rightarrow> nat list \<Rightarrow> game \<Rightarrow> game" where
  "Start_Explosion_from rnd tie [] s = s"
| "Start_Explosion_from rnd tie (index # rest) s =
     (if e_state (explosions s ! index) = 0 then Start_Explosion_at rnd tie index s
      else Start_Explosion_from rnd tie rest s)"

definition Start_Explosion :: "(nat \<Rightarrow> nat) \<Rightarrow> nat \<Rightarrow> game \<Rightarrow> game" where
  "Start_Explosion rnd tie s = Start_Explosion_from rnd tie [0..<NUM_EXPLOSIONS] s"

text \<open>\<^verbatim>\<open>Process_Explosions\<close> (line 404).\<close>

definition advance :: "VEC3D \<Rightarrow> POINT3D \<Rightarrow> POINT3D" where
  "advance v p = p\<lparr>p_x := p_x p + v_x v, p_y := p_y p + v_y v, p_z := p_z p + v_z v\<rparr>"

definition Process_Explosion_edge :: "nat \<Rightarrow> EXPL \<Rightarrow> EXPL" where
  "Process_Explosion_edge edge e =
     (let e1 = e\<lparr>e_p1 := (e_p1 e)[edge := advance (e_vel e ! edge) (e_p1 e ! edge)]\<rparr>
      in e1\<lparr>e_p2 := (e_p2 e1)[edge := advance (e_vel e1 ! edge) (e_p2 e1 ! edge)]\<rparr>)"

definition Process_Explosion :: "EXPL \<Rightarrow> EXPL" where
  "Process_Explosion e =
     (if e_state e = 0 then e
      else let e1 = fold Process_Explosion_edge [0..<NUM_TIE_EDGES] e;
               e2 = e1\<lparr>e_counter := e_counter e1 + 1\<rparr>
           in if 100 < sint (e_counter e2) then e2\<lparr>e_counter := 0, e_state := 0\<rparr> else e2)"

definition Process_Explosions :: "game \<Rightarrow> game" where
  "Process_Explosions s =
     fold (\<lambda>index s. s\<lparr>explosions := (explosions s)[index := Process_Explosion (explosions s ! index)]\<rparr>)
       [0..<NUM_EXPLOSIONS] s"

text \<open>\<^verbatim>\<open>Draw_Explosions\<close> (line 437): no state changes, only output.\<close>

definition Draw_Explosion_edge :: "EXPL \<Rightarrow> nat \<Rightarrow> event list" where
  "Draw_Explosion_edge e edge =
     (let a = e_p1 e ! edge; b = e_p2 e ! edge in
      if p_z a < of_int NEAR_Z \<and> p_z b < of_int NEAR_Z then []
      else
        [Divide ExplosionVertex (p_z a), Divide ExplosionVertex (p_z a),
         Divide ExplosionVertex (p_z b), Divide ExplosionVertex (p_z b),
         DrawLine (screen_x (perspective (p_x a) (p_z a))) (screen_y (perspective (p_y a) (p_z a)))
                  (screen_x (perspective (p_x b) (p_z b))) (screen_y (perspective (p_y b) (p_z b)))
                  (e_color e)])"

definition Draw_Explosion :: "EXPL \<Rightarrow> event list" where
  "Draw_Explosion e =
     (if e_state e = 0 then [] else concat (map (Draw_Explosion_edge e) [0..<NUM_TIE_EDGES]))"

definition Draw_Explosions :: "game \<Rightarrow> event list" where
  "Draw_Explosions s = concat (map (\<lambda>index. Draw_Explosion (explosions s ! index)) [0..<NUM_EXPLOSIONS])"

text \<open>\<^verbatim>\<open>Move_Starfield\<close> (line 481) and \<^verbatim>\<open>Draw_Starfield\<close> (line 504).\<close>

definition Move_Star :: "8 word \<Rightarrow> POINT3D \<Rightarrow> POINT3D" where
  "Move_Star vel st =
     (let st1 = st\<lparr>p_z := p_z st - of_int (sint vel)\<rparr>
      in if p_z st1 \<le> of_int NEAR_Z then st1\<lparr>p_z := of_int FAR_Z\<rparr> else st1)"

definition Move_Starfield :: "game \<Rightarrow> game" where
  "Move_Starfield s =
     fold (\<lambda>index s. s\<lparr>stars := (stars s)[index := Move_Star (player_z_vel s) (stars s ! index)]\<rparr>)
       [0..<NUM_STARS] s"

definition Draw_Star :: "POINT3D \<Rightarrow> event list" where
  "Draw_Star st =
     (let x_per = perspective (p_x st) (p_z st);
          y_per = perspective (p_y st) (p_z st);
          x_screen = screen_x x_per;
          y_screen = screen_y y_per
      in [Divide StarPoint (p_z st), Divide StarPoint (p_z st)] @
         (if x_screen \<ge> WINDOW_WIDTH \<or> x_screen < 0 \<or> y_screen \<ge> WINDOW_HEIGHT \<or> y_screen < 0
          then [] else [DrawPixel x_screen y_screen (p_color st)]))"

definition Draw_Starfield :: "game \<Rightarrow> event list" where
  "Draw_Starfield s = concat (map (\<lambda>index. Draw_Star (stars s ! index)) [0..<NUM_STARS])"

text \<open>\<^verbatim>\<open>Process_Ties\<close> (line 559).\<close>

definition Process_Tie :: "(nat \<Rightarrow> nat) \<Rightarrow> nat \<Rightarrow> game \<Rightarrow> game" where
  "Process_Tie rnd index s =
     (if t_state (ties s ! index) = 0 then s
      else let t = ties s ! index;
               t1 = t\<lparr>t_z := t_z t + t_zv t, t_x := t_x t + t_xv t, t_y := t_y t + t_yv t\<rparr>;
               s1 = s\<lparr>ties := (ties s)[index := t1]\<rparr>
           in if t_z t1 \<le> of_int NEAR_Z
              then (let s2 = Init_Tie rnd index s1 in s2\<lparr>misses := misses s2 + 1\<rparr>)
              else s1)"

definition Process_Ties :: "(nat \<Rightarrow> nat) \<Rightarrow> game \<Rightarrow> game" where
  "Process_Ties rnd s = fold (Process_Tie rnd) [0..<NUM_TIES] s"

text \<open>
  \<^verbatim>\<open>Draw_Ties\<close> (line 591). \<open>Draw_Tie_edge\<close> is the body of the edge loop: it
  projects the two endpoints, draws the edge and widens the bounding box
  \<open>(bmin_x, bmin_y, bmax_x, bmax_y)\<close>. \<open>Draw_Tie\<close> is the body of the outer loop;
  its hit test is the only place where drawing changes the state.
  The conversion \<^verbatim>\<open>(uint8_t)\<close> of the intensity keeps the low byte of the
  truncated value; the two clamps that follow it in the sketch can never fire
  on an unsigned 16-bit value that came from a byte, and are kept as written.
  \<^verbatim>\<open>score += ties[index].z\<close> adds in \<^verbatim>\<open>float\<close> and converts back to
  \<^verbatim>\<open>int16_t\<close>; the model keeps the low 16 bits.
\<close>

type_synonym bbox = "int \<times> int \<times> int \<times> int"

definition Draw_Tie_edge :: "TIE \<Rightarrow> 16 word \<Rightarrow> nat \<Rightarrow> bbox \<times> event list \<Rightarrow> bbox \<times> event list" where
  "Draw_Tie_edge t rgb_tie_color edge acc =
     (case acc of ((bmin_x, bmin_y, bmax_x, bmax_y), out) \<Rightarrow>
      let a = tie_vlist ! l_v1 (tie_shape ! edge);
          b = tie_vlist ! l_v2 (tie_shape ! edge);
          p1_screen_x = screen_x (perspective (t_x t + p_x a) (p_z a + t_z t));
          p1_screen_y = screen_y (perspective (t_y t + p_y a) (p_z a + t_z t));
          p2_screen_x = screen_x (perspective (t_x t + p_x b) (p_z b + t_z t));
          p2_screen_y = screen_y (perspective (t_y t + p_y b) (p_z b + t_z t));
          min_x = min p1_screen_x p2_screen_x;
          max_x = max p1_screen_x p2_screen_x;
          min_y = min p1_screen_y p2_screen_y;
          max_y = max p1_screen_y p2_screen_y
      in ((min bmin_x min_x, min bmin_y min_y, max bmax_x max_x, max bmax_y max_y),
          out @ [Divide TieVertex (p_z a + t_z t), Divide TieVertex (p_z a + t_z t),
                 Divide TieVertex (p_z b + t_z t), Divide TieVertex (p_z b + t_z t),
                 DrawLine p1_screen_x p1_screen_y p2_screen_x p2_screen_y rgb_tie_color]))"

definition tieIntensity :: "TIE \<Rightarrow> 16 word" where
  "tieIntensity t =
     (let i = (ucast (word_of_int (float_to_int (255 - 255 * (t_z t / (8 * of_int FAR_Z)))) :: 8 word)
                :: 16 word)
      in if 255 < i then 255 else if i < 0 then 0 else i)"

definition Draw_Tie :: "(nat \<Rightarrow> nat) \<Rightarrow> nat \<Rightarrow> game \<times> event list \<Rightarrow> game \<times> event list" where
  "Draw_Tie rnd index acc =
     (case acc of (s, out) \<Rightarrow>
      if t_state (ties s ! index) = 0 then (s, out)
      else
        let t = ties s ! index;
            rgb_tie_color = RGB16Bit 0 (ucast (tieIntensity t)) 0
        in case fold (Draw_Tie_edge t rgb_tie_color) [0..<NUM_TIE_EDGES]
                  ((4000, 4000, - 4000, - 4000), out) of
             ((bmin_x, bmin_y, bmax_x, bmax_y), out1) \<Rightarrow>
               if cannon_state s = 1 \<and>
                  target_x_screen s > bmin_x \<and> target_x_screen s < bmax_x \<and>
                  target_y_screen s > bmin_y \<and> target_y_screen s < bmax_y
               then
                 (let s1 = Start_Explosion rnd index s;
                      s2 = s1\<lparr>score := word_of_int
                                 (float_to_int (of_int (sint (score s1)) + t_z (ties s1 ! index)))\<rparr>;
                      s3 = s2\<lparr>hits := hits s2 + 1\<rparr>
                  in (Init_Tie rnd index s3, out1))
               else (s, out1))"

definition Draw_Ties :: "(nat \<Rightarrow> nat) \<Rightarrow> game \<Rightarrow> game \<times> event list" where
  "Draw_Ties rnd s = fold (Draw_Tie rnd) [0..<NUM_TIES] (s, [])"

text \<open>
  \<^verbatim>\<open>Game_Main\<close> (line 696), block by block. \<open>move_crosshair\<close> is lines 713-747,
  \<open>speed_controls\<close> lines 750-756, \<open>fire_cannon\<close> lines 759-767; the three make
  up the body of \<^verbatim>\<open>if (game_state==GAME_RUNNING)\<close>, which is \<open>player_input\<close>.
  \<open>process_cannon\<close> is the state machine of lines 774-785; both of its tests
  run in the same frame, in this order, on the one counter.
\<close>

definition move_crosshair :: "(pin \<Rightarrow> bool) \<Rightarrow> game \<Rightarrow> game" where
  "move_crosshair digitalRead s =
     (let s1 =
        (if \<not> digitalRead BUTTON_RIGHT_PIN then
           (let c = cross_x s + of_int CROSS_VEL
            in s\<lparr>cross_x := (if c > of_int (WINDOW_WIDTH div 2) then of_int (- WINDOW_WIDTH div 2) else c)\<rparr>)
         else if \<not> digitalRead BUTTON_LEFT_PIN then
           (let c = cross_x s - of_int CROSS_VEL
            in s\<lparr>cross_x := (if c < of_int (- WINDOW_WIDTH div 2) then of_int (WINDOW_WIDTH div 2) else c)\<rparr>)
         else s)
      in
        (if \<not> digitalRead BUTTON_DOWN_PIN then
           (let c = cross_y s1 - of_int CROSS_VEL
            in s1\<lparr>cross_y := (if c < of_int (- WINDOW_HEIGHT div 2) then of_int (WINDOW_HEIGHT div 2) else c)\<rparr>)
         else if \<not> digitalRead BUTTON_UP_PIN then
           (let c = cross_y s1 + of_int CROSS_VEL
            in s1\<lparr>cross_y := (if c > of_int (WINDOW_HEIGHT div 2) then of_int (- WINDOW_HEIGHT div 2) else c)\<rparr>)
         else s1))"

definition speed_controls :: "(pin \<Rightarrow> bool) \<Rightarrow> game \<Rightarrow> game" where
  "speed_controls digitalRead s =
     (if \<not> digitalRead BUTTON_FAST_PIN then s\<lparr>player_z_vel := player_z_vel s + 1\<rparr>
      else if \<not> digitalRead BUTTON_SLOW_PIN then s\<lparr>player_z_vel := player_z_vel s - 1\<rparr>
      else s)"

definition fire_cannon :: "(pin \<Rightarrow> bool) \<Rightarrow> game \<Rightarrow> game" where
  "fire_cannon digitalRead s =
     (if \<not> digitalRead BUTTON_FIRE_PIN \<and> cannon_state s = 0
      then s\<lparr>cannon_state := 1, cannon_count := 0,
             target_x_screen := cross_x_screen s, target_y_screen := cross_y_screen s\<rparr>
      else s)"

definition process_cannon :: "game \<Rightarrow> game" where
  "process_cannon s =
     (let s1 = (if cannon_state s = 1
                then (let s' = s\<lparr>cannon_count := cannon_count s + 1\<rparr>
                      in if 10 < sint (cannon_count s') then s'\<lparr>cannon_state := 2\<rparr> else s')
                else s)
      in if cannon_state s1 = 2
         then (let s' = s1\<lparr>cannon_count := cannon_count s1 + 1\<rparr>
               in if 15 < sint (cannon_count s') then s'\<lparr>cannon_state := 0\<rparr> else s')
         else s1)"

text \<open>
  The crosshair (lines 809-816) and the laser beam (lines 819-831). The beam
  calls \<^verbatim>\<open>rand()\<close> four times; the two jitter calls are arguments of one
  call of \<^verbatim>\<open>drawLine\<close>, whose order C leaves open: the model takes them left to
  right. Only the drawn end point depends on that order. \<open>crosshair_screen\<close> is
  lines 809-810, \<open>draw_game_over\<close> lines 839-841 and \<open>game_state_switch\<close> lines
  847-849; the busy wait on \<^verbatim>\<open>millis()\<close> changes nothing and is left out.
\<close>

definition draw_crosshair :: "game \<Rightarrow> event list" where
  "draw_crosshair s =
     (let cx = cross_x_screen s; cy = cross_y_screen s in
      [DrawLine (cx - 8) cy (cx + 8) cy rgb_red,
       DrawLine cx (cy - 8) cx (cy + 8) rgb_red,
       DrawLine (cx - 8) (cy - 2) (cx - 8) (cy + 2) rgb_red,
       DrawLine (cx + 8) (cy - 2) (cx + 8) (cy + 2) rgb_red])"

definition draw_laser :: "(nat \<Rightarrow> nat) \<Rightarrow> game \<Rightarrow> game \<times> event list" where
  "draw_laser rnd s =
     (if cannon_state s = 1 then
        (let n = rand_calls s;
             beamColor = RGB16Bit 32 32 (word_of_int (128 + int (rnd n) mod 128));
             tx = - 4 + int (rnd (n + 2)) mod 8 + target_x_screen s;
             ty = - 4 + int (rnd (n + 3)) mod 8 + target_y_screen s
         in (s\<lparr>rand_calls := n + 4\<rparr>,
             [if rnd (n + 1) mod 2 = 1
              then DrawLine (WINDOW_WIDTH - 1) (WINDOW_HEIGHT - 1) tx ty beamColor
              else DrawLine 0 (WINDOW_HEIGHT - 1) tx ty beamColor]))
      else (s, []))"

definition player_input :: "(pin \<Rightarrow> bool) \<Rightarrow> game \<Rightarrow> game" where
  "player_input digitalRead s =
     (if game_state s = GAME_RUNNING
      then fire_cannon digitalRead (speed_controls digitalRead (move_crosshair digitalRead s))
      else s)"

definition crosshair_screen :: "game \<Rightarrow> game" where
  "crosshair_screen s =
     s\<lparr>cross_x_screen := float_to_int (of_int (WINDOW_WIDTH div 2) + cross_x s),
       cross_y_screen := float_to_int (of_int (WINDOW_HEIGHT div 2) - cross_y s)\<rparr>"

definition draw_game_over :: "game \<Rightarrow> event list" where
  "draw_game_over s =
     (if game_state s = GAME_OVER
      then [DrawText ''G A M E  O V E R'' (RGB16Bit 255 255 255) 20 128] else [])"

definition game_state_switch :: "game \<Rightarrow> game" where
  "game_state_switch s =
     (if TIES_MISSED_END_GAME < sint (misses s) then s\<lparr>game_state := GAME_OVER\<rparr> else s)"

definition Game_Main :: "(nat \<Rightarrow> nat) \<Rightarrow> (pin \<Rightarrow> bool) \<Rightarrow> game \<Rightarrow> game \<times> event list" where
  "Game_Main rnd digitalRead s0 =
     (let s1 = player_input digitalRead s0;
          s2 = process_cannon s1;
          s3 = Move_Starfield s2;
          s4 = Process_Ties rnd s3;
          s5 = Process_Explosions s4;
          stars_out = Draw_Starfield s5
      in case Draw_Ties rnd s5 of (s6, ties_out) \<Rightarrow>
         let expl_out = Draw_Explosions s6;
             s7 = crosshair_screen s6;
             cross_out = draw_crosshair s7
         in case draw_laser rnd s7 of (s8, laser_out) \<Rightarrow>
            (game_state_switch s8,
             FillScreen ST77XX_BLACK # stars_out @ ties_out @ expl_out @ cross_out
               @ laser_out @ draw_game_over s8))"

text \<open>
  \<^verbatim>\<open>loop()\<close> calls \<^verbatim>\<open>Game_Main\<close> for ever; \<open>run rnd pins n s\<close> is the state after
  \<open>n\<close> calls, where \<open>pins k\<close> are the pin levels during call \<open>k\<close> (counted from 0).
\<close>

fun run :: "(nat \<Rightarrow> nat) \<Rightarrow> (nat \<Rightarrow> pin \<Rightarrow> bool) \<Rightarrow> nat \<Rightarrow> game \<Rightarrow> game" where
  "run rnd pins 0 s = s"
| "run rnd pins (Suc n) s = fst (Game_Main rnd (pins n) (run rnd pins n s))"

text \<open>
  The globals as the C start-up code and the initialisers leave them (lines
  167-210), and \<^verbatim>\<open>Game_Init\<close> (line 270): the stars take three calls of
  \<^verbatim>\<open>rand()\<close> each, then every tie fighter is initialised.
\<close>

definition zero_point :: POINT3D where
  "zero_point = \<lparr>p_color = 0, p_x = 0, p_y = 0, p_z = 0\<rparr>"

definition zero_expl :: EXPL where
  "zero_expl = \<lparr>e_state = 0, e_counter = 0, e_color = 0,
                e_p1 = replicate NUM_TIE_EDGES zero_point,
                e_p2 = replicate NUM_TIE_EDGES zero_point,
                e_vel = replicate NUM_TIE_EDGES \<lparr>v_x = 0, v_y = 0, v_z = 0\<rparr>\<rparr>"

definition globals :: game where
  "globals =
     \<lparr>ties = replicate NUM_TIES \<lparr>t_state = 0, t_x = 0, t_y = 0, t_z = 0, t_xv = 0, t_yv = 0, t_zv = 0\<rparr>,
      stars = replicate NUM_STARS zero_point,
      explosions = replicate NUM_EXPLOSIONS zero_expl,
      cross_x = 0, cross_y = 0,
      cross_x_screen = WINDOW_WIDTH div 2, cross_y_screen = WINDOW_HEIGHT div 2,
      target_x_screen = WINDOW_WIDTH div 2, target_y_screen = WINDOW_HEIGHT div 2,
      player_z_vel = 8, cannon_state = 0, cannon_count = 0,
      misses = 0, hits = 0, score = 0, game_state = GAME_RUNNING, rand_calls = 0\<rparr>"

definition Init_Star :: "(nat \<Rightarrow> nat) \<Rightarrow> nat \<Rightarrow> game \<Rightarrow> game" where
  "Init_Star rnd index s =
     (let n = rand_calls s;
          st = (stars s ! index)
                 \<lparr>p_x := of_int (- 2 * WINDOW_WIDTH + int (rnd n) mod (WINDOW_WIDTH * 4)),
                  p_y := of_int (- 2 * WINDOW_HEIGHT + int (rnd (n + 1)) mod (WINDOW_HEIGHT * 4)),
                  p_z := of_int (NEAR_Z + int (rnd (n + 2)) mod (FAR_Z div 2 - NEAR_Z)),
                  p_color := rgb_white\<rparr>
      in s\<lparr>stars := (stars s)[index := st], rand_calls := n + 3\<rparr>)"

definition Game_Init :: "(nat \<Rightarrow> nat) \<Rightarrow> game \<Rightarrow> game" where
  "Game_Init rnd s =
     fold (Init_Tie rnd) [0..<NUM_TIES] (fold (Init_Star rnd) [0..<NUM_STARS] s)"

section \<open>Observations, predicates and sample inputs\<close>

text \<open>
  Nothing below is part of the sketch: these are the observations and
  predicates in which the properties are stated, and the states and button
  sequences at which they are instantiated.
\<close>

text \<open>The cannon as one value: its state, its counter and the latched target.\<close>

definition cannon :: "game \<Rightarrow> 8 word \<times> 8 word \<times> int \<times> int" where
  "cannon s = (cannon_state s, cannon_count s, target_x_screen s, target_y_screen s)"

text \<open>Shorthands and sample inputs used in the statements below.\<close>

definition escapes :: "TIE \<Rightarrow> bool" where
  "escapes t \<longleftrightarrow> t_state t \<noteq> 0 \<and> t_z t + t_zv t \<le> of_int NEAR_Z"

definition about_to_lose :: game where
  "about_to_lose =
     globals\<lparr>ties := [\<lparr>t_state = 1, t_x = 0, t_y = 0, t_z = 20, t_xv = 0, t_yv = 0, t_zv = - 10\<rparr>,
                       \<lparr>t_state = 1, t_x = 0, t_y = 0, t_z = 500, t_xv = 0, t_yv = 0, t_zv = - 10\<rparr>],
             misses := 16\<rparr>"

definition fire_once :: "nat \<Rightarrow> pin \<Rightarrow> bool" where
  "fire_once k pin \<longleftrightarrow> \<not> (k = 0 \<and> pin = BUTTON_FIRE_PIN)"

definition all_pressed :: "pin \<Rightarrow> bool" where
  "all_pressed pin \<longleftrightarrow> False"

definition released :: "pin \<Rightarrow> bool" where
  "released pin \<longleftrightarrow> True"

definition firing_3 :: game where
  "firing_3 = globals\<lparr>cannon_state := 1, cannon_count := 3, target_x_screen := 70, target_y_screen := 92\<rparr>"

definition only_pressed :: "pin \<Rightarrow> pin \<Rightarrow> bool" where
  "only_pressed b pin \<longleftrightarrow> pin \<noteq> b"

definition cross_at :: "rat \<Rightarrow> rat \<Rightarrow> game" where
  "cross_at a b = globals\<lparr>cross_x := a, cross_y := b\<rparr>"

definition tie_bbox :: "TIE \<Rightarrow> bbox" where
  "tie_bbox t =
     fst (fold (Draw_Tie_edge t 0) [0..<NUM_TIE_EDGES] ((4000, 4000, - 4000, - 4000), []))"

definition tie_hit :: "game \<Rightarrow> nat \<Rightarrow> bool" where
  "tie_hit s index \<longleftrightarrow>
     t_state (ties s ! index) \<noteq> 0 \<and> cannon_state s = 1 \<and>
     (case tie_bbox (ties s ! index) of (bmin_x, bmin_y, bmax_x, bmax_y) \<Rightarrow>
        target_x_screen s > bmin_x \<and> target_x_screen s < bmax_x \<and>
        target_y_screen s > bmin_y \<and> target_y_screen s < bmax_y)"

definition pool_full :: "game \<Rightarrow> bool" where
  "pool_full s \<longleftrightarrow> (\<forall>index < NUM_EXPLOSIONS. e_state (explosions s ! index) \<noteq> 0)"

definition first_free :: "game \<Rightarrow> nat \<Rightarrow> bool" where
  "first_free s index \<longleftrightarrow>
     index < NUM_EXPLOSIONS \<and> e_state (explosions s ! index) = 0 \<and>
     (\<forall>j < index. e_state (explosions s ! j) \<noteq> 0)"

definition ahead :: TIE where
  "ahead = \<lparr>t_state = 1, t_x = 0, t_y = 0, t_z = 100, t_xv = 0, t_yv = 0, t_zv = - 10\<rparr>"

definition aside :: TIE where
  "aside = \<lparr>t_state = 1, t_x = 100, t_y = 100, t_z = 1000, t_xv = 0, t_yv = 0, t_zv = - 10\<rparr>"

definition under_fire :: game where
  "under_fire =
     globals\<lparr>ties := [ahead, aside], cannon_state := 1, cannon_count := 3,
             explosions := [zero_expl\<lparr>e_state := 1\<rparr>, zero_expl\<lparr>e_state := 1\<rparr>]\<rparr>"

definition one_free :: game where
  "one_free = under_fire\<lparr>explosions := [zero_expl\<lparr>e_state := 1\<rparr>, zero_expl]\<rparr>"


definition depths_paired :: "EXPL \<Rightarrow> bool" where
  "depths_paired e \<longleftrightarrow>
     length (e_p1 e) = NUM_TIE_EDGES \<and> length (e_p2 e) = NUM_TIE_EDGES \<and>
     length (e_vel e) = NUM_TIE_EDGES \<and>
     (\<forall>edge < NUM_TIE_EDGES. p_z (e_p1 e ! edge) = p_z (e_p2 e ! edge))"

definition pool_paired :: "game \<Rightarrow> bool" where
  "pool_paired s \<longleftrightarrow>
     length (explosions s) = NUM_EXPLOSIONS \<and>
     (\<forall>index < NUM_EXPLOSIONS. depths_paired (explosions s ! index))"

definition well_formed :: "game \<Rightarrow> bool" where
  "well_formed s \<longleftrightarrow>
     length (ties s) = NUM_TIES \<and> length (stars s) = NUM_STARS \<and> pool_paired s"

definition ties_in_front :: "game \<Rightarrow> bool" where
  "ties_in_front s \<longleftrightarrow>
     (\<forall>index < NUM_TIES. t_state (ties s ! index) \<noteq> 0 \<longrightarrow> of_int NEAR_Z < t_z (ties s ! index))"

definition safe_divisions :: "event list \<Rightarrow> bool" where
  "safe_divisions out \<longleftrightarrow>
     (\<forall>k z. Divide k z \<in> set out \<longrightarrow>
        of_int NEAR_Z \<le> z \<and> (k \<noteq> ExplosionVertex \<longrightarrow> of_int NEAR_Z < z))"

text \<open>
  A sample state: two explosions whose edges are at depth 11 and drift by
  \<open>-1\<close> per frame, one frame away from the near plane.
\<close>

definition pt :: "rat \<Rightarrow> rat \<Rightarrow> rat \<Rightarrow> POINT3D" where
  "pt a b c = \<lparr>p_color = 0, p_x = a, p_y = b, p_z = c\<rparr>"

definition shrapnel :: EXPL where
  "shrapnel =
     \<lparr>e_state = 1, e_counter = 5, e_color = rgb_green,
      e_p1 = [pt (- 10) 38 11, pt (- 10) (- 2) 11, pt 20 (- 2) 11, pt 30 18 11,
              pt 40 (- 2) 11, pt 30 (- 22) 11, pt 40 (- 2) 11, pt 70 38 11],
      e_p2 = [pt (- 10) (- 42) 11, pt 20 (- 2) 11, pt 30 18 11, pt 40 (- 2) 11,
              pt 30 (- 22) 11, pt 20 (- 2) 11, pt 70 (- 2) 11, pt 70 (- 42) 11],
      e_vel = replicate NUM_TIE_EDGES \<lparr>v_x = 8, v_y = 8, v_z = - 1\<rparr>\<rparr>"

definition drifting :: game where
  "drifting =
     \<lparr>ties = replicate NUM_TIES
               \<lparr>t_state = 1, t_x = - 64, t_y = - 96, t_z = 1690, t_xv = 2, t_yv = 2, t_zv = - 62\<rparr>,
      stars = replicate NUM_STARS \<lparr>p_color = rgb_white, p_x = - 202, p_y = - 266, p_z = 760\<rparr>,
      explosions = [shrapnel, shrapnel],
      cross_x = 0, cross_y = - 12, cross_x_screen = 64, cross_y_screen = 92,
      target_x_screen = 64, target_y_screen = 92,
      player_z_vel = 8, cannon_state = 1, cannon_count = 6,
      misses = 0, hits = 2, score = 32, game_state = GAME_RUNNING, rand_calls = 164\<rparr>"

text \<open>
  A sample run: with \<^verbatim>\<open>rand()\<close> constantly 54, \<open>Game_Init\<close> places both tie
  fighters at \<open>approach 0\<close>, and \<open>approach k\<close> is where they are \<open>k\<close> frames later
  (\<open>coast\<close> is one frame of that motion). Under \<open>shoot\<close> the down button is
  held in frames 1 and 2 and the fire button is pressed in frame 32 only.
\<close>

definition coast :: "TIE \<Rightarrow> TIE" where
  "coast t = t\<lparr>t_z := t_z t + t_zv t, t_x := t_x t + t_xv t, t_y := t_y t + t_yv t\<rparr>"

definition shoot :: "nat \<Rightarrow> pin \<Rightarrow> bool" where
  "shoot k pin \<longleftrightarrow>
     (if pin = BUTTON_DOWN_PIN then 2 \<le> k else if pin = BUTTON_FIRE_PIN then k \<noteq> 31 else True)"

definition approach :: "nat \<Rightarrow> TIE" where
  "approach k =
     \<lparr>t_state = 1, t_x = - 74 + 2 * of_nat k, t_y = - 106 + 2 * of_nat k, t_z = 2000 - 62 * of_nat k,
      t_xv = 2, t_yv = 2, t_zv = - 62\<rparr>"

text \<open>Two buttons held at once.\<close>

definition two_pressed :: "pin \<Rightarrow> pin \<Rightarrow> pin \<Rightarrow> bool" where
  "two_pressed a b pin \<longleftrightarrow> pin \<noteq> a \<and> pin \<noteq> b"

text \<open>
  The hit test of a frame, seen from the state \<open>s\<close> the frame starts in.
  \<open>moved rnd s index\<close> is tie fighter \<open>index\<close> after \<open>Process_Ties\<close>;
  \<open>in_sights s t\<close> says that the cannon is firing once \<open>process_cannon\<close> has
  run and that the latched target lies inside the bounding box of \<open>t\<close>, which
  is the test of \<open>Draw_Ties\<close>; \<open>tally\<close> is the score after that test.
  \<open>aged e e'\<close> says that \<open>e'\<close> is the explosion \<open>e\<close> one frame later, and
  \<open>started_from t e\<close> that \<open>e\<close> is a fresh explosion of the tie fighter \<open>t\<close>.
  A slot is \<open>vacant\<close> when it is free once the pool has aged: it was inactive,
  or its counter passes 100 in this frame.
\<close>

definition moved :: "(nat \<Rightarrow> nat) \<Rightarrow> game \<Rightarrow> nat \<Rightarrow> TIE" where
  "moved rnd s index = ties (Process_Ties rnd s) ! index"










section \<open>Auxiliary facts\<close>

lemma fold_preserves: "(\<And>x s. P s \<Longrightarrow> P (f x s)) \<Longrightarrow> P s \<Longrightarrow> P (fold f xs s)"
  by (induction xs arbitrary: s) auto

lemma fold_observe: "(\<And>x s. g (f x s) = g s) \<Longrightarrow> g (fold f xs s) = g s"
  by (induction xs arbitrary: s) auto

subsection \<open>What each function leaves alone\<close>

text \<open>
  A frame rule per function: an observer \<open>g\<close> of the state that ignores the
  fields the function assigns sees no change.
\<close>

lemma Init_Tie_frame:
  assumes "\<And>s a. g (s\<lparr>ties := a\<rparr>) = g s" "\<And>s c. g (s\<lparr>rand_calls := c\<rparr>) = g s"
  shows "g (Init_Tie rnd index s) = g s"
  by (simp add: Init_Tie_def Let_def assms)

lemma Move_Starfield_frame:
  assumes "\<And>s a. g (s\<lparr>stars := a\<rparr>) = g s"
  shows "g (Move_Starfield s) = g s"
  unfolding Move_Starfield_def by (rule fold_observe) (simp add: assms)

lemma Process_Tie_frame:
  assumes "\<And>s a. g (s\<lparr>ties := a\<rparr>) = g s" "\<And>s c. g (s\<lparr>rand_calls := c\<rparr>) = g s"
    "\<And>s b. g (s\<lparr>misses := b\<rparr>) = g s"
  shows "g (Process_Tie rnd index s) = g s"
  by (simp add: Process_Tie_def Let_def assms Init_Tie_frame [where g = g])

lemma Process_Ties_frame:
  assumes "\<And>s a. g (s\<lparr>ties := a\<rparr>) = g s" "\<And>s c. g (s\<lparr>rand_calls := c\<rparr>) = g s"
    "\<And>s b. g (s\<lparr>misses := b\<rparr>) = g s"
  shows "g (Process_Ties rnd s) = g s"
  unfolding Process_Ties_def by (rule fold_observe) (rule Process_Tie_frame [where g = g], fact+)

lemma Process_Explosions_frame:
  assumes "\<And>s a. g (s\<lparr>explosions := a\<rparr>) = g s"
  shows "g (Process_Explosions s) = g s"
  unfolding Process_Explosions_def by (rule fold_observe) (simp add: assms)

lemma Start_Explosion_frame:
  assumes e: "\<And>s a. g (s\<lparr>explosions := a\<rparr>) = g s" and r: "\<And>s c. g (s\<lparr>rand_calls := c\<rparr>) = g s"
  shows "g (Start_Explosion rnd tie s) = g s"
proof -
  have edge: "g (Start_Explosion_edge rnd tie index edge s) = g s" for index edge s
    by (simp add: Start_Explosion_edge_def Let_def e r)
  have at: "g (Start_Explosion_at rnd tie index s) = g s" for index s
    unfolding Start_Explosion_at_def
    by (subst fold_observe [where g = g], rule edge) (rule e)
  have "g (Start_Explosion_from rnd tie js s) = g s" for js
    by (induction js) (simp_all add: at)
  then show ?thesis by (simp add: Start_Explosion_def)
qed

lemma Draw_Tie_frame:
  assumes t: "\<And>s a. g (s\<lparr>ties := a\<rparr>) = g s" and e: "\<And>s a. g (s\<lparr>explosions := a\<rparr>) = g s"
    and r: "\<And>s c. g (s\<lparr>rand_calls := c\<rparr>) = g s"
    and sc: "\<And>s c. g (s\<lparr>score := c\<rparr>) = g s" and h: "\<And>s c. g (s\<lparr>hits := c\<rparr>) = g s"
  shows "g (fst (Draw_Tie rnd index acc)) = g (fst acc)"
  by (cases acc)
    (simp add: Draw_Tie_def Let_def Init_Tie_frame [where g = g] Start_Explosion_frame [where g = g]
      t e r sc h split: prod.splits)

lemma Draw_Ties_frame:
  assumes t: "\<And>s a. g (s\<lparr>ties := a\<rparr>) = g s" and e: "\<And>s a. g (s\<lparr>explosions := a\<rparr>) = g s"
    and r: "\<And>s c. g (s\<lparr>rand_calls := c\<rparr>) = g s"
    and sc: "\<And>s c. g (s\<lparr>score := c\<rparr>) = g s" and h: "\<And>s c. g (s\<lparr>hits := c\<rparr>) = g s"
  shows "g (fst (Draw_Ties rnd s)) = g s"
proof -
  have "g (fst (fold (Draw_Tie rnd) js acc)) = g (fst acc)" for js acc
    by (rule fold_observe [where g = "\<lambda>acc. g (fst acc)"])
      (rule Draw_Tie_frame [where g = g], fact+)
  then show ?thesis by (simp add: Draw_Ties_def)
qed

lemma draw_laser_frame:
  assumes "\<And>s c. g (s\<lparr>rand_calls := c\<rparr>) = g s"
  shows "g (fst (draw_laser rnd s)) = g s"
  by (simp add: draw_laser_def Let_def assms)


subsection \<open>The frame as a composition\<close>

lemma Game_Main_state:
  "fst (Game_Main rnd p s) =
     game_state_switch (fst (draw_laser rnd (crosshair_screen (fst (Draw_Ties rnd
       (Process_Explosions (Process_Ties rnd (Move_Starfield (process_cannon (player_input p s))))))))))"
  by (simp add: Game_Main_def Let_def split: prod.splits)

lemma Game_Main_trace:
  "snd (Game_Main rnd p s) =
     (let s5 = Process_Explosions (Process_Ties rnd (Move_Starfield (process_cannon (player_input p s))));
          s6 = fst (Draw_Ties rnd s5);
          s7 = crosshair_screen s6
      in FillScreen ST77XX_BLACK # Draw_Starfield s5 @ snd (Draw_Ties rnd s5) @ Draw_Explosions s6
           @ draw_crosshair s7 @ snd (draw_laser rnd s7) @ draw_game_over (fst (draw_laser rnd s7)))"
  by (simp add: Game_Main_def Let_def split: prod.splits)

lemma Game_Main_controls:
  assumes "\<And>s a. g (s\<lparr>ties := a\<rparr>) = g s" "\<And>s a. g (s\<lparr>stars := a\<rparr>) = g s"
    "\<And>s a. g (s\<lparr>explosions := a\<rparr>) = g s" "\<And>s a. g (s\<lparr>misses := a\<rparr>) = g s"
    "\<And>s a. g (s\<lparr>hits := a\<rparr>) = g s" "\<And>s a. g (s\<lparr>score := a\<rparr>) = g s"
    "\<And>s a. g (s\<lparr>rand_calls := a\<rparr>) = g s" "\<And>s a. g (s\<lparr>cross_x_screen := a\<rparr>) = g s"
    "\<And>s a. g (s\<lparr>cross_y_screen := a\<rparr>) = g s" "\<And>s a. g (s\<lparr>game_state := a\<rparr>) = g s"
  shows "g (fst (Game_Main rnd p s)) = g (process_cannon (player_input p s))"
proof -
  have "g (game_state_switch s') = g s'" for s'
    by (simp add: game_state_switch_def assms)
  moreover have "g (crosshair_screen s') = g s'" for s'
    by (simp add: crosshair_screen_def assms)
  moreover note draw_laser_frame [where g = g] Draw_Ties_frame [where g = g]
    Process_Explosions_frame [where g = g] Process_Ties_frame [where g = g]
    Move_Starfield_frame [where g = g]
  ultimately show ?thesis
    unfolding Game_Main_state by (simp add: assms)
qed

lemma Game_Main_misses:
  "misses (fst (Game_Main rnd p s)) = misses (Process_Ties rnd (Move_Starfield (process_cannon (player_input p s))))"
proof -
  have "misses (game_state_switch s') = misses s'" for s'
    by (simp add: game_state_switch_def)
  moreover have "misses (crosshair_screen s') = misses s'" for s'
    by (simp add: crosshair_screen_def)
  moreover note draw_laser_frame [where g = misses] Draw_Ties_frame [where g = misses]
    Process_Explosions_frame [where g = misses]
  ultimately show ?thesis
    unfolding Game_Main_state by simp
qed

lemma player_input_game_state: "game_state (player_input p s) = game_state s"
  by (simp add: player_input_def fire_cannon_def speed_controls_def move_crosshair_def Let_def)

lemma process_cannon_game_state: "game_state (process_cannon s) = game_state s"
  by (simp add: process_cannon_def Let_def)

lemma Game_Main_game_state:
  "game_state (fst (Game_Main rnd p s)) =
     (if TIES_MISSED_END_GAME < sint (misses (fst (Game_Main rnd p s))) then GAME_OVER else game_state s)"
proof -
  let ?s8 = "fst (draw_laser rnd (crosshair_screen (fst (Draw_Ties rnd
       (Process_Explosions (Process_Ties rnd (Move_Starfield (process_cannon (player_input p s)))))))))"
  have "game_state (crosshair_screen s') = game_state s'" for s'
    by (simp add: crosshair_screen_def)
  moreover note draw_laser_frame [where g = game_state] Draw_Ties_frame [where g = game_state]
    Process_Explosions_frame [where g = game_state] Process_Ties_frame [where g = game_state]
    Move_Starfield_frame [where g = game_state]
  ultimately have g: "game_state ?s8 = game_state s"
    by (simp add: player_input_game_state process_cannon_game_state)
  have "misses (game_state_switch s') = misses s'" for s'
    by (simp add: game_state_switch_def)
  then have m: "misses (fst (Game_Main rnd p s)) = misses ?s8"
    unfolding Game_Main_state by simp
  show ?thesis
    unfolding m unfolding Game_Main_state using g by (simp add: game_state_switch_def)
qed

subsection \<open>Stars\<close>

lemma fold_update_map:
  "n \<le> length xs \<Longrightarrow> fold (\<lambda>i ys. ys[i := g (ys ! i)]) [0..<n] xs = map g (take n xs) @ drop n xs"
proof (induction n)
  case 0
  then show ?case by simp
next
  case (Suc n)
  then have n: "n < length xs" by simp
  have "fold (\<lambda>i ys. ys[i := g (ys ! i)]) [0..<Suc n] xs
        = (map g (take n xs) @ drop n xs)[n := g ((map g (take n xs) @ drop n xs) ! n)]"
    using Suc by simp
  also have "\<dots> = map g (take n xs) @ (drop n xs)[0 := g (xs ! n)]"
    using n by (simp add: list_update_append nth_append)
  also have "drop n xs = xs ! n # drop (Suc n) xs"
    using n by (simp add: Cons_nth_drop_Suc)
  finally show ?case using n by (simp add: take_Suc_conv_app_nth)
qed

lemma fold_update_map_all:
  "length xs = n \<Longrightarrow> fold (\<lambda>i ys. ys[i := g (ys ! i)]) [0..<n] xs = map g xs"
  using fold_update_map [of n xs g] by simp

lemma Move_Starfield_fold:
  "fold (\<lambda>index s. s\<lparr>stars := (stars s)[index := Move_Star (player_z_vel s) (stars s ! index)]\<rparr>) js s
   = s\<lparr>stars := fold (\<lambda>i ys. ys[i := Move_Star (player_z_vel s) (ys ! i)]) js (stars s)\<rparr>"
  by (induction js arbitrary: s) simp_all

lemma Move_Starfield_map:
  "length (stars s) = NUM_STARS \<Longrightarrow>
   Move_Starfield s = s\<lparr>stars := map (Move_Star (player_z_vel s)) (stars s)\<rparr>"
  unfolding Move_Starfield_def Move_Starfield_fold by (simp add: fold_update_map_all)

lemma Move_Star_fields:
  "p_x (Move_Star v st) = p_x st" "p_y (Move_Star v st) = p_y st" "p_color (Move_Star v st) = p_color st"
  "p_z (Move_Star v st) = (if p_z st - of_int (sint v) \<le> of_int NEAR_Z then of_int FAR_Z else p_z st - of_int (sint v))"
  by (simp_all add: Move_Star_def Let_def)

lemma player_input_stars: "stars (player_input p s) = stars s"
  by (simp add: player_input_def fire_cannon_def speed_controls_def move_crosshair_def Let_def)

lemma process_cannon_stars: "stars (process_cannon s) = stars s"
  by (simp add: process_cannon_def Let_def)

lemma process_cannon_player_z_vel: "player_z_vel (process_cannon s) = player_z_vel s"
  by (simp add: process_cannon_def Let_def)

lemma Game_Main_stars:
  assumes "length (stars s) = NUM_STARS"
  shows "stars (fst (Game_Main rnd p s)) = map (Move_Star (player_z_vel (player_input p s))) (stars s)"
proof -
  let ?s2 = "process_cannon (player_input p s)"
  have "stars (game_state_switch s') = stars s'" for s'
    by (simp add: game_state_switch_def)
  moreover have "stars (crosshair_screen s') = stars s'" for s'
    by (simp add: crosshair_screen_def)
  moreover note draw_laser_frame [where g = stars] Draw_Ties_frame [where g = stars]
    Process_Explosions_frame [where g = stars] Process_Ties_frame [where g = stars]
  ultimately have "stars (fst (Game_Main rnd p s)) = stars (Move_Starfield ?s2)"
    unfolding Game_Main_state by simp
  moreover have "length (stars ?s2) = NUM_STARS"
    using assms by (simp add: process_cannon_stars player_input_stars)
  ultimately show ?thesis
    by (simp add: Move_Starfield_map process_cannon_stars player_input_stars process_cannon_player_z_vel)
qed

lemma Init_Tie_ties: "index < length (ties s) \<Longrightarrow>
  ties (Init_Tie rnd index s) ! index =
    \<lparr>t_state = 1,
     t_x = of_int (- WINDOW_WIDTH + int (rnd (rand_calls s)) mod (2 * WINDOW_WIDTH)),
     t_y = of_int (- WINDOW_HEIGHT + int (rnd (rand_calls s + 1)) mod (2 * WINDOW_HEIGHT)),
     t_z = of_int (2 * FAR_Z),
     t_xv = of_int (- 4 + int (rnd (rand_calls s + 2)) mod 8),
     t_yv = of_int (- 4 + int (rnd (rand_calls s + 3)) mod 8),
     t_zv = of_int (- 8 - int (rnd (rand_calls s + 4)) mod 64)\<rparr>"
  by (simp add: Init_Tie_def Let_def)

lemma rand_mod_bounds:
  "0 \<le> int r mod 8" "int r mod 8 \<le> 7" "0 \<le> int r mod 64" "int r mod 64 \<le> 63"
  using pos_mod_bound [of 8 "int r"] pos_mod_bound [of 64 "int r"] by simp_all

subsection \<open>The game-state flag over a run\<close>

lemma run_over_stays:
  "game_state (run rnd pins n s) = GAME_OVER \<Longrightarrow> game_state (run rnd pins (n + m) s) = GAME_OVER"
  by (induction m) (simp_all add: Game_Main_game_state)

lemma run_game_state_cases:
  "game_state s = GAME_RUNNING \<or> game_state s = GAME_OVER \<Longrightarrow>
   game_state (run rnd pins n s) = GAME_RUNNING \<or> game_state (run rnd pins n s) = GAME_OVER"
  by (induction n) (simp_all add: Game_Main_game_state)

lemma run_over_iff:
  assumes "game_state s = GAME_RUNNING"
  shows "game_state (run rnd pins n s) = GAME_OVER \<longleftrightarrow>
         (\<exists>k. 1 \<le> k \<and> k \<le> n \<and> TIES_MISSED_END_GAME < sint (misses (run rnd pins k s)))"
proof (induction n)
  case 0
  then show ?case using assms by simp
next
  case (Suc n)
  let ?P = "\<lambda>k. TIES_MISSED_END_GAME < sint (misses (run rnd pins k s))"
  have "game_state (run rnd pins (Suc n) s) = GAME_OVER \<longleftrightarrow>
        ?P (Suc n) \<or> game_state (run rnd pins n s) = GAME_OVER"
    by (simp add: Game_Main_game_state)
  also have "\<dots> \<longleftrightarrow> ?P (Suc n) \<or> (\<exists>k. 1 \<le> k \<and> k \<le> n \<and> ?P k)"
    using Suc.IH by simp
  also have "\<dots> \<longleftrightarrow> (\<exists>k. 1 \<le> k \<and> k \<le> Suc n \<and> ?P k)"
    by (auto simp: le_Suc_eq)
  finally show ?case .
qed

lemma upt_2: "[0..<2] = [0, 1]"
  by (simp add: upt_rec)

lemma Process_Tie_misses:
  "misses (Process_Tie rnd index s) = (if escapes (ties s ! index) then misses s + 1 else misses s)"
  by (simp add: Process_Tie_def escapes_def Let_def Init_Tie_frame [where g = misses])

lemma Process_Tie_other:
  "j \<noteq> index \<Longrightarrow> ties (Process_Tie rnd index s) ! j = ties s ! j"
  by (simp add: Process_Tie_def Let_def Init_Tie_def)

lemma Process_Ties_misses:
  "misses (Process_Ties rnd s) =
     misses s + (if escapes (ties s ! 0) then 1 else 0) + (if escapes (ties s ! 1) then 1 else 0)"
  by (simp add: Process_Ties_def upt_2 Process_Tie_misses Process_Tie_other)

lemma player_input_pools:
  "ties (player_input p s) = ties s" "misses (player_input p s) = misses s"
  "explosions (player_input p s) = explosions s" "rand_calls (player_input p s) = rand_calls s"
  by (simp_all add: player_input_def fire_cannon_def speed_controls_def move_crosshair_def Let_def)

lemma process_cannon_pools:
  "ties (process_cannon s) = ties s" "misses (process_cannon s) = misses s"
  "explosions (process_cannon s) = explosions s" "rand_calls (process_cannon s) = rand_calls s"
  by (simp_all add: process_cannon_def Let_def)

lemma Game_Main_misses_count:
  "misses (fst (Game_Main rnd p s)) =
     misses s + (if escapes (ties s ! 0) then 1 else 0) + (if escapes (ties s ! 1) then 1 else 0)"
  by (simp add: Game_Main_misses Process_Ties_misses Move_Starfield_frame [where g = ties]
      Move_Starfield_frame [where g = misses] player_input_pools process_cannon_pools)

subsection \<open>The cannon\<close>

lemma Game_Main_cannon:
  "cannon (fst (Game_Main rnd p s)) = cannon (process_cannon (player_input p s))"
  by (rule Game_Main_controls) (simp_all add: cannon_def)

lemma player_input_busy:
  "cannon_state s \<noteq> 0 \<Longrightarrow> cannon (player_input p s) = cannon s"
  by (simp add: cannon_def player_input_def fire_cannon_def speed_controls_def move_crosshair_def Let_def)

lemma player_input_idle:
  "game_state s \<noteq> GAME_RUNNING \<or> p BUTTON_FIRE_PIN \<Longrightarrow> cannon (player_input p s) = cannon s"
  by (auto simp add: cannon_def player_input_def fire_cannon_def speed_controls_def move_crosshair_def Let_def)

lemma player_input_fire:
  "cannon_state s = 0 \<Longrightarrow> game_state s = GAME_RUNNING \<Longrightarrow> \<not> p BUTTON_FIRE_PIN \<Longrightarrow>
   cannon (player_input p s) = (1, 0, cross_x_screen s, cross_y_screen s)"
  by (simp add: cannon_def player_input_def fire_cannon_def speed_controls_def move_crosshair_def Let_def)

lemma process_cannon_step:
  "cannon (process_cannon s) =
     (case cannon s of (st, c, t) \<Rightarrow>
        if st = 1 then
          (if 10 < sint (c + 1)
           then (if 15 < sint (c + 2) then (0, c + 2, t) else (2, c + 2, t))
           else (1, c + 1, t))
        else if st = 2 then (if 15 < sint (c + 1) then (0, c + 1, t) else (2, c + 1, t))
        else (st, c, t))"
  by (simp add: cannon_def process_cannon_def Let_def add.assoc)

lemma cannon_busy_step:
  assumes "cannon s = (st, c, t)" "st \<noteq> 0"
  shows "cannon (fst (Game_Main rnd p s)) =
     (if st = 1 then
          (if 10 < sint (c + 1)
           then (if 15 < sint (c + 2) then (0, c + 2, t) else (2, c + 2, t))
           else (1, c + 1, t))
        else if st = 2 then (if 15 < sint (c + 1) then (0, c + 1, t) else (2, c + 1, t))
        else (st, c, t))"
proof -
  have "cannon_state s \<noteq> 0" using assms by (simp add: cannon_def)
  then have "cannon (player_input p s) = (st, c, t)"
    using assms by (simp add: player_input_busy)
  then show ?thesis
    unfolding Game_Main_cannon process_cannon_step by simp
qed

lemma cannon_fire_step:
  assumes "cannon_state s = 0" "game_state s = GAME_RUNNING" "\<not> p BUTTON_FIRE_PIN"
  shows "cannon (fst (Game_Main rnd p s)) = (1, 1, cross_x_screen s, cross_y_screen s)"
  unfolding Game_Main_cannon process_cannon_step using player_input_fire [of s p] assms by simp

lemma cannon_idle_step:
  assumes "cannon_state s = 0" "game_state s \<noteq> GAME_RUNNING \<or> p BUTTON_FIRE_PIN"
  shows "cannon (fst (Game_Main rnd p s)) = cannon s"
proof -
  obtain c t where "cannon s = (0, c, t)"
    using assms(1) by (cases "cannon s") (simp add: cannon_def)
  then show ?thesis
    unfolding Game_Main_cannon process_cannon_step using player_input_idle [of s p] assms(2) by simp
qed

lemma run_cannon_busy:
  assumes "cannon (run rnd pins n s) = (st, c, t)" "st \<noteq> 0"
  shows "cannon (run rnd pins (n + 1) s) =
     (if st = 1 then
          (if 10 < sint (c + 1)
           then (if 15 < sint (c + 2) then (0, c + 2, t) else (2, c + 2, t))
           else (1, c + 1, t))
        else if st = 2 then (if 15 < sint (c + 1) then (0, c + 1, t) else (2, c + 1, t))
        else (st, c, t))"
  using cannon_busy_step [OF assms] by simp

lemma cannon_cycle:
  assumes "cannon_state s = 0" "game_state s = GAME_RUNNING" "\<not> pins 0 BUTTON_FIRE_PIN"
  defines "t \<equiv> (cross_x_screen s, cross_y_screen s)"
  shows "map (\<lambda>k. cannon (run rnd pins k s)) [1, 2, 3, 4, 5, 6, 7, 8, 9, 10, 11, 12, 13, 14, 15] =
         [(1, 1, t), (1, 2, t), (1, 3, t), (1, 4, t), (1, 5, t), (1, 6, t), (1, 7, t), (1, 8, t),
          (1, 9, t), (1, 10, t), (2, 12, t), (2, 13, t), (2, 14, t), (2, 15, t), (0, 16, t)]"
proof -
  have r1: "cannon (run rnd pins 1 s) = (1, 1, t)"
    using cannon_fire_step [of s "pins 0" rnd] assms(1-3) by (simp add: t_def)
  have r2: "cannon (run rnd pins 2 s) = (1, 2, t)"
    using run_cannon_busy [OF r1] by (simp add: eval_nat_numeral del: run.simps)
  have r3: "cannon (run rnd pins 3 s) = (1, 3, t)"
    using run_cannon_busy [OF r2] by (simp add: eval_nat_numeral del: run.simps)
  have r4: "cannon (run rnd pins 4 s) = (1, 4, t)"
    using run_cannon_busy [OF r3] by (simp add: eval_nat_numeral del: run.simps)
  have r5: "cannon (run rnd pins 5 s) = (1, 5, t)"
    using run_cannon_busy [OF r4] by (simp add: eval_nat_numeral del: run.simps)
  have r6: "cannon (run rnd pins 6 s) = (1, 6, t)"
    using run_cannon_busy [OF r5] by (simp add: eval_nat_numeral del: run.simps)
  have r7: "cannon (run rnd pins 7 s) = (1, 7, t)"
    using run_cannon_busy [OF r6] by (simp add: eval_nat_numeral del: run.simps)
  have r8: "cannon (run rnd pins 8 s) = (1, 8, t)"
    using run_cannon_busy [OF r7] by (simp add: eval_nat_numeral del: run.simps)
  have r9: "cannon (run rnd pins 9 s) = (1, 9, t)"
    using run_cannon_busy [OF r8] by (simp add: eval_nat_numeral del: run.simps)
  have r10: "cannon (run rnd pins 10 s) = (1, 10, t)"
    using run_cannon_busy [OF r9] by (simp add: eval_nat_numeral del: run.simps)
  have r11: "cannon (run rnd pins 11 s) = (2, 12, t)"
    using run_cannon_busy [OF r10] by (simp add: eval_nat_numeral del: run.simps)
  have r12: "cannon (run rnd pins 12 s) = (2, 13, t)"
    using run_cannon_busy [OF r11] by (simp add: eval_nat_numeral del: run.simps)
  have r13: "cannon (run rnd pins 13 s) = (2, 14, t)"
    using run_cannon_busy [OF r12] by (simp add: eval_nat_numeral del: run.simps)
  have r14: "cannon (run rnd pins 14 s) = (2, 15, t)"
    using run_cannon_busy [OF r13] by (simp add: eval_nat_numeral del: run.simps)
  have r15: "cannon (run rnd pins 15 s) = (0, 16, t)"
    using run_cannon_busy [OF r14] by (simp add: eval_nat_numeral del: run.simps)
  show ?thesis
    by (simp only: list.map r1 r2 r3 r4 r5 r6 r7 r8 r9 r10 r11 r12 r13 r14 r15)
qed

lemma cannon_fields:
  "cannon_state s = fst (cannon s)" "cannon_count s = fst (snd (cannon s))"
  "(target_x_screen s, target_y_screen s) = snd (snd (cannon s))"
  by (simp_all add: cannon_def)

lemma cannon_cycle_states:
  assumes "cannon_state s = 0" "game_state s = GAME_RUNNING" "\<not> pins 0 BUTTON_FIRE_PIN"
  shows "map (\<lambda>k. cannon_state (run rnd pins k s)) [1, 2, 3, 4, 5, 6, 7, 8, 9, 10, 11, 12, 13, 14, 15] =
         [1, 1, 1, 1, 1, 1, 1, 1, 1, 1, 2, 2, 2, 2, 0]"
proof -
  have "map (\<lambda>k. cannon_state (run rnd pins k s)) [1, 2, 3, 4, 5, 6, 7, 8, 9, 10, 11, 12, 13, 14, 15] =
        map fst (map (\<lambda>k. cannon (run rnd pins k s)) [1, 2, 3, 4, 5, 6, 7, 8, 9, 10, 11, 12, 13, 14, 15])"
    unfolding cannon_fields by (simp only: list.map)
  then show ?thesis
    unfolding cannon_cycle [where s = s and pins = pins, OF assms] by simp
qed

lemma cannon_cycle_target:
  assumes "cannon_state s = 0" "game_state s = GAME_RUNNING" "\<not> pins 0 BUTTON_FIRE_PIN"
  shows "map (\<lambda>k. (target_x_screen (run rnd pins k s), target_y_screen (run rnd pins k s)))
             [1, 2, 3, 4, 5, 6, 7, 8, 9, 10, 11, 12, 13, 14, 15] =
         replicate 15 (cross_x_screen s, cross_y_screen s)"
proof -
  have "map (\<lambda>k. (target_x_screen (run rnd pins k s), target_y_screen (run rnd pins k s)))
             [1, 2, 3, 4, 5, 6, 7, 8, 9, 10, 11, 12, 13, 14, 15] =
        map (\<lambda>c. snd (snd c)) (map (\<lambda>k. cannon (run rnd pins k s)) [1, 2, 3, 4, 5, 6, 7, 8, 9, 10, 11, 12, 13, 14, 15])"
    unfolding cannon_fields by (simp only: list.map)
  then show ?thesis
    unfolding cannon_cycle [where s = s and pins = pins, OF assms] by (simp add: eval_nat_numeral)
qed

lemma cannon_busy_ignores_fire:
  assumes "cannon_state s \<noteq> 0"
  shows "cannon (fst (Game_Main rnd p s)) = cannon (process_cannon s)"
    and "target_x_screen (fst (Game_Main rnd p s)) = target_x_screen s"
    and "target_y_screen (fst (Game_Main rnd p s)) = target_y_screen s"
proof -
  show c: "cannon (fst (Game_Main rnd p s)) = cannon (process_cannon s)"
    unfolding Game_Main_cannon process_cannon_step player_input_busy [OF assms] ..
  have "snd (snd (cannon (process_cannon s))) = snd (snd (cannon s))"
    unfolding process_cannon_step by (simp split: prod.splits)
  then have "snd (snd (cannon (fst (Game_Main rnd p s)))) = snd (snd (cannon s))"
    unfolding c .
  then show "target_x_screen (fst (Game_Main rnd p s)) = target_x_screen s"
    and "target_y_screen (fst (Game_Main rnd p s)) = target_y_screen s"
    by (simp_all add: cannon_def)
qed

subsection \<open>The crosshair\<close>

lemma Game_Main_cross:
  "cross_x (fst (Game_Main rnd p s)) = cross_x (player_input p s)"
  "cross_y (fst (Game_Main rnd p s)) = cross_y (player_input p s)"
  "player_z_vel (fst (Game_Main rnd p s)) = player_z_vel (player_input p s)"
proof -
  have c: "cross_x (process_cannon s') = cross_x s'" "cross_y (process_cannon s') = cross_y s'"
    "player_z_vel (process_cannon s') = player_z_vel s'" for s'
    by (simp_all add: process_cannon_def Let_def)
  show "cross_x (fst (Game_Main rnd p s)) = cross_x (player_input p s)"
    by (subst Game_Main_controls [where g = cross_x]) (simp_all add: c)
  show "cross_y (fst (Game_Main rnd p s)) = cross_y (player_input p s)"
    by (subst Game_Main_controls [where g = cross_y]) (simp_all add: c)
  show "player_z_vel (fst (Game_Main rnd p s)) = player_z_vel (player_input p s)"
    by (subst Game_Main_controls [where g = player_z_vel]) (simp_all add: c)
qed

lemma player_input_cross_x:
  "game_state s = GAME_RUNNING \<Longrightarrow>
   cross_x (player_input p s) =
     (if \<not> p BUTTON_RIGHT_PIN then
        (if cross_x s + of_int CROSS_VEL > of_int (WINDOW_WIDTH div 2)
         then of_int (- WINDOW_WIDTH div 2) else cross_x s + of_int CROSS_VEL)
      else if \<not> p BUTTON_LEFT_PIN then
        (if cross_x s - of_int CROSS_VEL < of_int (- WINDOW_WIDTH div 2)
         then of_int (WINDOW_WIDTH div 2) else cross_x s - of_int CROSS_VEL)
      else cross_x s)"
  by (simp add: player_input_def fire_cannon_def speed_controls_def move_crosshair_def Let_def)

lemma player_input_cross_y:
  "game_state s = GAME_RUNNING \<Longrightarrow>
   cross_y (player_input p s) =
     (if \<not> p BUTTON_DOWN_PIN then
        (if cross_y s - of_int CROSS_VEL < of_int (- WINDOW_HEIGHT div 2)
         then of_int (WINDOW_HEIGHT div 2) else cross_y s - of_int CROSS_VEL)
      else if \<not> p BUTTON_UP_PIN then
        (if cross_y s + of_int CROSS_VEL > of_int (WINDOW_HEIGHT div 2)
         then of_int (- WINDOW_HEIGHT div 2) else cross_y s + of_int CROSS_VEL)
      else cross_y s)"
  by (simp add: player_input_def fire_cannon_def speed_controls_def move_crosshair_def Let_def)

subsection \<open>A frame after the game is over\<close>


lemma process_cannon_controls:
  "cross_x (process_cannon s) = cross_x s" "cross_y (process_cannon s) = cross_y s"
  "target_x_screen (process_cannon s) = target_x_screen s"
  "target_y_screen (process_cannon s) = target_y_screen s"
  by (simp_all add: process_cannon_def Let_def)

subsection \<open>Explosions\<close>

lemma Start_Explosion_from_none:
  "\<forall>j \<in> set js. e_state (explosions s ! j) \<noteq> 0 \<Longrightarrow> Start_Explosion_from rnd tie js s = s"
  by (induction js) simp_all

lemma Start_Explosion_from_first:
  "\<forall>j \<in> set js. e_state (explosions s ! j) \<noteq> 0 \<Longrightarrow> e_state (explosions s ! index) = 0 \<Longrightarrow>
   Start_Explosion_from rnd tie (js @ index # ks) s = Start_Explosion_at rnd tie index s"
  by (induction js) simp_all

lemma Start_Explosion_full: "pool_full s \<Longrightarrow> Start_Explosion rnd tie s = s"
  unfolding Start_Explosion_def pool_full_def by (rule Start_Explosion_from_none) simp

lemma Start_Explosion_first:
  assumes "first_free s index"
  shows "Start_Explosion rnd tie s = Start_Explosion_at rnd tie index s"
proof -
  have i: "index < NUM_EXPLOSIONS" using assms by (simp add: first_free_def)
  then have "[0..<NUM_EXPLOSIONS] = [0..<index] @ index # [Suc index..<NUM_EXPLOSIONS]"
    by (metis upt_conv_Cons upt_add_eq_append le_add_diff_inverse less_imp_le_nat zero_le)
  then show ?thesis
    unfolding Start_Explosion_def using assms
    by (simp add: first_free_def Start_Explosion_from_first)
qed

text \<open>The edge loop of \<open>Start_Explosion\<close>, after \<open>n\<close> edges.\<close>

lemma Start_Explosion_edges:
  fixes rnd :: "nat \<Rightarrow> nat" and tie :: nat
  assumes i: "index < length (explosions s)"
    and l: "length (e_p1 (explosions s ! index)) = NUM_TIE_EDGES"
           "length (e_p2 (explosions s ! index)) = NUM_TIE_EDGES"
           "length (e_vel (explosions s ! index)) = NUM_TIE_EDGES"
    and n: "n \<le> NUM_TIE_EDGES"
  defines "s' \<equiv> fold (Start_Explosion_edge rnd tie index) [0..<n] s"
  defines "e \<equiv> explosions s ! index" and "e' \<equiv> explosions s' ! index" and "t \<equiv> ties s ! tie"
  shows "ties s' = ties s \<and> rand_calls s' = rand_calls s + 3 * n \<and>
         length (explosions s') = length (explosions s) \<and>
         (\<forall>j. j \<noteq> index \<longrightarrow> explosions s' ! j = explosions s ! j) \<and>
         e_state e' = e_state e \<and> e_counter e' = e_counter e \<and> e_color e' = e_color e \<and>
         length (e_p1 e') = NUM_TIE_EDGES \<and> length (e_p2 e') = NUM_TIE_EDGES \<and>
         length (e_vel e') = NUM_TIE_EDGES \<and>
         (\<forall>edge < n.
            e_p1 e' ! edge = (e_p1 e ! edge)
              \<lparr>p_x := t_x t + p_x (tie_vlist ! l_v1 (tie_shape ! edge)),
               p_y := t_y t + p_y (tie_vlist ! l_v1 (tie_shape ! edge)),
               p_z := t_z t + p_z (tie_vlist ! l_v1 (tie_shape ! edge))\<rparr> \<and>
            e_p2 e' ! edge = (e_p2 e ! edge)
              \<lparr>p_x := t_x t + p_x (tie_vlist ! l_v2 (tie_shape ! edge)),
               p_y := t_y t + p_y (tie_vlist ! l_v2 (tie_shape ! edge)),
               p_z := t_z t + p_z (tie_vlist ! l_v2 (tie_shape ! edge))\<rparr> \<and>
            e_vel e' ! edge =
              \<lparr>v_x = t_xv t - 16 + of_int (int (rnd (rand_calls s + 3 * edge)) mod 32),
               v_y = t_yv t - 16 + of_int (int (rnd (rand_calls s + 3 * edge + 1)) mod 32),
               v_z = of_int (- 7 + int (rnd (rand_calls s + 3 * edge + 2)) mod 8)\<rparr>) \<and>
         (\<forall>edge \<ge> n. e_p1 e' ! edge = e_p1 e ! edge \<and> e_p2 e' ! edge = e_p2 e ! edge \<and>
            e_vel e' ! edge = e_vel e ! edge)"
  using n unfolding s'_def e'_def
proof (induction n)
  case 0
  then show ?case using l by (simp add: e_def)
next
  case (Suc n)
  let ?s = "fold (Start_Explosion_edge rnd tie index) [0..<n] s"
  have IH: "ties ?s = ties s" "rand_calls ?s = rand_calls s + 3 * n"
    "length (explosions ?s) = length (explosions s)"
    "\<And>j. j \<noteq> index \<Longrightarrow> explosions ?s ! j = explosions s ! j"
    "e_state (explosions ?s ! index) = e_state e" "e_counter (explosions ?s ! index) = e_counter e"
    "e_color (explosions ?s ! index) = e_color e"
    "length (e_p1 (explosions ?s ! index)) = NUM_TIE_EDGES"
    "length (e_p2 (explosions ?s ! index)) = NUM_TIE_EDGES"
    "length (e_vel (explosions ?s ! index)) = NUM_TIE_EDGES"
    using Suc by simp_all
  have before: "\<And>edge. edge < n \<Longrightarrow>
            e_p1 (explosions ?s ! index) ! edge = (e_p1 e ! edge)
              \<lparr>p_x := t_x t + p_x (tie_vlist ! l_v1 (tie_shape ! edge)),
               p_y := t_y t + p_y (tie_vlist ! l_v1 (tie_shape ! edge)),
               p_z := t_z t + p_z (tie_vlist ! l_v1 (tie_shape ! edge))\<rparr> \<and>
            e_p2 (explosions ?s ! index) ! edge = (e_p2 e ! edge)
              \<lparr>p_x := t_x t + p_x (tie_vlist ! l_v2 (tie_shape ! edge)),
               p_y := t_y t + p_y (tie_vlist ! l_v2 (tie_shape ! edge)),
               p_z := t_z t + p_z (tie_vlist ! l_v2 (tie_shape ! edge))\<rparr> \<and>
            e_vel (explosions ?s ! index) ! edge =
              \<lparr>v_x = t_xv t - 16 + of_int (int (rnd (rand_calls s + 3 * edge)) mod 32),
               v_y = t_yv t - 16 + of_int (int (rnd (rand_calls s + 3 * edge + 1)) mod 32),
               v_z = of_int (- 7 + int (rnd (rand_calls s + 3 * edge + 2)) mod 8)\<rparr>"
    using Suc by simp
  have later: "\<And>edge. n \<le> edge \<Longrightarrow> e_p1 (explosions ?s ! index) ! edge = e_p1 e ! edge \<and>
            e_p2 (explosions ?s ! index) ! edge = e_p2 e ! edge \<and>
            e_vel (explosions ?s ! index) ! edge = e_vel e ! edge"
    using Suc by simp
  have n: "n < NUM_TIE_EDGES" using Suc.prems by simp
  have step: "fold (Start_Explosion_edge rnd tie index) [0..<Suc n] s = Start_Explosion_edge rnd tie index n ?s"
    by simp
  show ?case
    unfolding step
    using i n IH before later
    by (simp add: Start_Explosion_edge_def Let_def nth_list_update t_def less_Suc_eq add.commute add.left_commute)
qed

lemma Start_Explosion_at_result:
  fixes rnd :: "nat \<Rightarrow> nat" and tie :: nat
  assumes i: "index < length (explosions s)"
    and l: "length (e_p1 (explosions s ! index)) = NUM_TIE_EDGES"
           "length (e_p2 (explosions s ! index)) = NUM_TIE_EDGES"
           "length (e_vel (explosions s ! index)) = NUM_TIE_EDGES"
  defines "s' \<equiv> Start_Explosion_at rnd tie index s"
  defines "e \<equiv> explosions s ! index" and "e' \<equiv> explosions s' ! index" and "t \<equiv> ties s ! tie"
  shows "e_state e' = 1 \<and> e_counter e' = 0 \<and> e_color e' = rgb_green \<and>
         length (e_p1 e') = NUM_TIE_EDGES \<and> length (e_p2 e') = NUM_TIE_EDGES \<and>
         length (e_vel e') = NUM_TIE_EDGES \<and>
         (\<forall>edge < NUM_TIE_EDGES.
            e_p1 e' ! edge = (e_p1 e ! edge)
              \<lparr>p_x := t_x t + p_x (tie_vlist ! l_v1 (tie_shape ! edge)),
               p_y := t_y t + p_y (tie_vlist ! l_v1 (tie_shape ! edge)),
               p_z := t_z t + p_z (tie_vlist ! l_v1 (tie_shape ! edge))\<rparr> \<and>
            e_p2 e' ! edge = (e_p2 e ! edge)
              \<lparr>p_x := t_x t + p_x (tie_vlist ! l_v2 (tie_shape ! edge)),
               p_y := t_y t + p_y (tie_vlist ! l_v2 (tie_shape ! edge)),
               p_z := t_z t + p_z (tie_vlist ! l_v2 (tie_shape ! edge))\<rparr> \<and>
            e_vel e' ! edge =
              \<lparr>v_x = t_xv t - 16 + of_int (int (rnd (rand_calls s + 3 * edge)) mod 32),
               v_y = t_yv t - 16 + of_int (int (rnd (rand_calls s + 3 * edge + 1)) mod 32),
               v_z = of_int (- 7 + int (rnd (rand_calls s + 3 * edge + 2)) mod 8)\<rparr>) \<and>
         (\<forall>j. j \<noteq> index \<longrightarrow> explosions s' ! j = explosions s ! j) \<and>
         length (explosions s') = length (explosions s) \<and>
         rand_calls s' = rand_calls s + 24"
proof -
  let ?s0 = "s\<lparr>explosions := (explosions s)[index :=
             (explosions s ! index)\<lparr>e_state := 1, e_counter := 0, e_color := rgb_green\<rparr>]\<rparr>"
  have i0: "index < length (explosions ?s0)" using i by simp
  have l0: "length (e_p1 (explosions ?s0 ! index)) = NUM_TIE_EDGES"
    "length (e_p2 (explosions ?s0 ! index)) = NUM_TIE_EDGES"
    "length (e_vel (explosions ?s0 ! index)) = NUM_TIE_EDGES"
    using i l by simp_all
  have s': "s' = fold (Start_Explosion_edge rnd tie index) [0..<NUM_TIE_EDGES] ?s0"
    by (simp add: s'_def Start_Explosion_at_def)
  show ?thesis
    using Start_Explosion_edges [OF i0 l0 order_refl, of rnd tie] i
    unfolding s' e'_def e_def t_def by simp
qed

subsection \<open>The hit test of \<open>Draw_Ties\<close>\<close>

lemma Draw_Tie_edge_bbox:
  "fst (fold (Draw_Tie_edge t c) es (bb, out)) = fst (fold (Draw_Tie_edge t c') es (bb, out'))"
proof (induction es arbitrary: bb out out')
  case Nil
  show ?case by simp
next
  case (Cons edge es)
  obtain bb1 o1 where 1: "Draw_Tie_edge t c edge (bb, out) = (bb1, o1)" by (cases "Draw_Tie_edge t c edge (bb, out)")
  obtain bb2 o2 where 2: "Draw_Tie_edge t c' edge (bb, out') = (bb2, o2)" by (cases "Draw_Tie_edge t c' edge (bb, out')")
  have "bb1 = bb2"
    using 1 2 by (cases bb) (auto simp: Draw_Tie_edge_def Let_def)
  then show ?case
    using Cons.IH [of bb1 o1 o2] by (simp add: 1 2)
qed

lemma Draw_Tie_result:
  "fst (Draw_Tie rnd index (s, out)) =
     (if tie_hit s index
      then Init_Tie rnd index
             ((Start_Explosion rnd index s)
                \<lparr>score := word_of_int (float_to_int (of_int (sint (score s)) + t_z (ties s ! index))),
                 hits := hits s + 1\<rparr>)
      else s)"
proof -
  let ?t = "ties s ! index"
  let ?c = "RGB16Bit 0 (ucast (tieIntensity ?t)) 0"
  obtain bb out1 where f: "fold (Draw_Tie_edge ?t ?c) [0..<NUM_TIE_EDGES] ((4000, 4000, - 4000, - 4000), out) = (bb, out1)"
    by (cases "fold (Draw_Tie_edge ?t ?c) [0..<NUM_TIE_EDGES] ((4000, 4000, - 4000, - 4000), out)")
  have bb: "tie_bbox ?t = bb"
    unfolding tie_bbox_def using Draw_Tie_edge_bbox [of ?t 0 "[0..<NUM_TIE_EDGES]" _ "[]" ?c out] f
    by simp
  note fr = Start_Explosion_frame [where g = score] Start_Explosion_frame [where g = ties]
    Start_Explosion_frame [where g = hits]
  show ?thesis
    by (cases bb) (simp add: Draw_Tie_def f Let_def tie_hit_def bb fr)
qed

text \<open>The bounding box only grows, and it covers both end points of every edge drawn.\<close>

lemma Draw_Tie_edge_covers:
  assumes "fst (fold (Draw_Tie_edge t c) es ((a, b, c', d), out)) = (bmin_x, bmin_y, bmax_x, bmax_y)"
  shows "bmin_x \<le> a \<and> bmin_y \<le> b \<and> c' \<le> bmax_x \<and> d \<le> bmax_y \<and>
         (\<forall>edge \<in> set es.
            bmin_x \<le> screen_x (perspective (t_x t + p_x (tie_vlist ! l_v1 (tie_shape ! edge)))
                                             (p_z (tie_vlist ! l_v1 (tie_shape ! edge)) + t_z t)) \<and>
            bmin_y \<le> screen_y (perspective (t_y t + p_y (tie_vlist ! l_v1 (tie_shape ! edge)))
                                             (p_z (tie_vlist ! l_v1 (tie_shape ! edge)) + t_z t)) \<and>
            screen_x (perspective (t_x t + p_x (tie_vlist ! l_v2 (tie_shape ! edge)))
                                  (p_z (tie_vlist ! l_v2 (tie_shape ! edge)) + t_z t)) \<le> bmax_x \<and>
            screen_y (perspective (t_y t + p_y (tie_vlist ! l_v2 (tie_shape ! edge)))
                                  (p_z (tie_vlist ! l_v2 (tie_shape ! edge)) + t_z t)) \<le> bmax_y)"
  using assms
proof (induction es arbitrary: a b c' d out)
  case Nil
  then show ?case by simp
next
  case (Cons edge es)
  define x1 where "x1 = screen_x (perspective (t_x t + p_x (tie_vlist ! l_v1 (tie_shape ! edge)))
                                             (p_z (tie_vlist ! l_v1 (tie_shape ! edge)) + t_z t))"
  define y1 where "y1 = screen_y (perspective (t_y t + p_y (tie_vlist ! l_v1 (tie_shape ! edge)))
                                             (p_z (tie_vlist ! l_v1 (tie_shape ! edge)) + t_z t))"
  define x2 where "x2 = screen_x (perspective (t_x t + p_x (tie_vlist ! l_v2 (tie_shape ! edge)))
                                  (p_z (tie_vlist ! l_v2 (tie_shape ! edge)) + t_z t))"
  define y2 where "y2 = screen_y (perspective (t_y t + p_y (tie_vlist ! l_v2 (tie_shape ! edge)))
                                  (p_z (tie_vlist ! l_v2 (tie_shape ! edge)) + t_z t))"
  define a1 where "a1 = min a (min x1 x2)"
  define b1 where "b1 = min b (min y1 y2)"
  define c1 where "c1 = max c' (max x1 x2)"
  define d1 where "d1 = max d (max y1 y2)"
  have "\<exists>o1. Draw_Tie_edge t c edge ((a, b, c', d), out) = ((a1, b1, c1, d1), o1)"
    unfolding Draw_Tie_edge_def Let_def prod.case a1_def b1_def c1_def d1_def x1_def x2_def y1_def y2_def
    by blast
  then obtain o1 where 1: "Draw_Tie_edge t c edge ((a, b, c', d), out) = ((a1, b1, c1, d1), o1)" ..
  from Cons.prems have "fst (fold (Draw_Tie_edge t c) es ((a1, b1, c1, d1), o1)) = (bmin_x, bmin_y, bmax_x, bmax_y)"
    by (simp add: 1)
  note IH = Cons.IH [OF this]
  have "a1 \<le> a" "a1 \<le> x1" "b1 \<le> b" "b1 \<le> y1" "c' \<le> c1" "x2 \<le> c1" "d \<le> d1" "y2 \<le> d1"
    unfolding a1_def b1_def c1_def d1_def by simp_all
  with IH have "bmin_x \<le> a" "bmin_x \<le> x1" "bmin_y \<le> b" "bmin_y \<le> y1"
     "c' \<le> bmax_x" "x2 \<le> bmax_x" "d \<le> bmax_y" "y2 \<le> bmax_y"
    by linarith+
  with IH show ?case
    unfolding x1_def y1_def x2_def y2_def by simp
qed

lemma tie_hit_corners:
  assumes "t_state (ties s ! index) \<noteq> 0" "cannon_state s = 1"
    and "screen_x (perspective (t_x (ties s ! index) - 40) (t_z (ties s ! index))) < target_x_screen s"
    and "target_x_screen s < screen_x (perspective (t_x (ties s ! index) + 40) (t_z (ties s ! index)))"
    and "screen_y (perspective (t_y (ties s ! index) + 40) (t_z (ties s ! index))) < target_y_screen s"
    and "target_y_screen s < screen_y (perspective (t_y (ties s ! index) - 40) (t_z (ties s ! index)))"
  shows "tie_hit s index"
proof -
  let ?t = "ties s ! index"
  obtain bmin_x bmin_y bmax_x bmax_y where bb: "tie_bbox ?t = (bmin_x, bmin_y, bmax_x, bmax_y)"
    by (metis prod_cases4)
  note c = Draw_Tie_edge_covers [OF bb [unfolded tie_bbox_def]]
  have "(0::nat) \<in> set [0..<NUM_TIE_EDGES]" "(7::nat) \<in> set [0..<NUM_TIE_EDGES]" by simp_all
  with c have
    "bmin_x \<le> screen_x (perspective (t_x ?t + p_x (tie_vlist ! l_v1 (tie_shape ! 0)))
                                       (p_z (tie_vlist ! l_v1 (tie_shape ! 0)) + t_z ?t))"
    "bmin_y \<le> screen_y (perspective (t_y ?t + p_y (tie_vlist ! l_v1 (tie_shape ! 0)))
                                       (p_z (tie_vlist ! l_v1 (tie_shape ! 0)) + t_z ?t))"
    "screen_x (perspective (t_x ?t + p_x (tie_vlist ! l_v2 (tie_shape ! 7)))
                            (p_z (tie_vlist ! l_v2 (tie_shape ! 7)) + t_z ?t)) \<le> bmax_x"
    "screen_y (perspective (t_y ?t + p_y (tie_vlist ! l_v2 (tie_shape ! 7)))
                            (p_z (tie_vlist ! l_v2 (tie_shape ! 7)) + t_z ?t)) \<le> bmax_y"
    by blast+
  then have "bmin_x \<le> screen_x (perspective (t_x ?t - 40) (t_z ?t))"
    "bmin_y \<le> screen_y (perspective (t_y ?t + 40) (t_z ?t))"
    "screen_x (perspective (t_x ?t + 40) (t_z ?t)) \<le> bmax_x"
    "screen_y (perspective (t_y ?t - 40) (t_z ?t)) \<le> bmax_y"
    by (simp_all add: tie_vlist_def tie_shape_def line_def vertex_def)
  with assms show ?thesis
    by (simp add: tie_hit_def bb)
qed

subsection \<open>Evaluating the conversion to \<open>int\<close>\<close>

lemma floor_rat_numeral: "\<lfloor>numeral a / numeral b :: rat\<rfloor> = numeral a div numeral b"
  by (metis floor_divide_of_int_eq of_int_numeral)

lemma floor_rat_neg_numeral: "\<lfloor>- (numeral a / numeral b) :: rat\<rfloor> = - numeral a div numeral b"
  by (metis floor_divide_of_int_eq of_int_numeral of_int_neg_numeral divide_minus_left)

lemma ceiling_rat_numeral: "\<lceil>numeral a / numeral b :: rat\<rceil> = - (- numeral a div numeral b)"
  unfolding ceiling_def by (simp add: floor_rat_neg_numeral)

lemma ceiling_rat_neg_numeral: "\<lceil>- (numeral a / numeral b) :: rat\<rceil> = - (numeral a div numeral b)"
  unfolding ceiling_def by (simp add: floor_rat_numeral)

lemmas float_to_int_eval = float_to_int_def floor_rat_numeral floor_rat_neg_numeral
  ceiling_rat_numeral ceiling_rat_neg_numeral

lemma tie_hit_under_fire: "tie_hit under_fire 0" "tie_hit one_free 0"
  by (rule tie_hit_corners;
      simp add: under_fire_def one_free_def globals_def ahead_def perspective_def screen_x_def screen_y_def
        float_to_int_eval)+


subsection \<open>Safe divisions\<close>

lemma safe_divisions_append [simp]:
  "safe_divisions (xs @ ys) \<longleftrightarrow> safe_divisions xs \<and> safe_divisions ys"
  by (auto simp: safe_divisions_def)

lemma safe_divisions_Nil [simp]: "safe_divisions []"
  by (simp add: safe_divisions_def)

lemma safe_divisions_concat:
  "(\<And>x. x \<in> set xs \<Longrightarrow> safe_divisions (f x)) \<Longrightarrow> safe_divisions (concat (map f xs))"
  by (induction xs) simp_all

lemma upt_8: "[0..<8] = [0, 1, 2, 3, 4, 5, 6, 7]"
  by (simp add: upt_rec)

lemma model_depth:
  "edge < NUM_TIE_EDGES \<Longrightarrow> p_z (tie_vlist ! l_v1 (tie_shape ! edge)) = 0"
  "edge < NUM_TIE_EDGES \<Longrightarrow> p_z (tie_vlist ! l_v2 (tie_shape ! edge)) = 0"
proof -
  have "\<forall>edge \<in> set [0..<NUM_TIE_EDGES]. p_z (tie_vlist ! l_v1 (tie_shape ! edge)) = 0 \<and>
          p_z (tie_vlist ! l_v2 (tie_shape ! edge)) = 0"
    unfolding upt_8 by (simp add: tie_vlist_def tie_shape_def line_def vertex_def)
  then show "edge < NUM_TIE_EDGES \<Longrightarrow> p_z (tie_vlist ! l_v1 (tie_shape ! edge)) = 0"
    "edge < NUM_TIE_EDGES \<Longrightarrow> p_z (tie_vlist ! l_v2 (tie_shape ! edge)) = 0"
    by simp_all
qed

text \<open>Stars.\<close>

lemma Move_Star_depth: "of_int NEAR_Z < p_z (Move_Star v st)"
  by (simp add: Move_Star_def Let_def)

lemma Draw_Star_safe: "of_int NEAR_Z < p_z st \<Longrightarrow> safe_divisions (Draw_Star st)"
  by (simp add: Draw_Star_def Let_def safe_divisions_def)

lemma Draw_Starfield_safe:
  assumes "\<forall>index < NUM_STARS. of_int NEAR_Z < p_z (stars s ! index)"
  shows "safe_divisions (Draw_Starfield s)"
  unfolding Draw_Starfield_def
  by (rule safe_divisions_concat) (use assms in \<open>auto intro: Draw_Star_safe\<close>)

text \<open>Explosions.\<close>

lemma Draw_Explosion_safe:
  assumes "depths_paired e"
  shows "safe_divisions (Draw_Explosion e)"
proof -
  have "safe_divisions (Draw_Explosion_edge e edge)" if "edge < NUM_TIE_EDGES" for edge
    using assms that by (auto simp: Draw_Explosion_edge_def Let_def safe_divisions_def depths_paired_def)
  then have "safe_divisions (concat (map (Draw_Explosion_edge e) [0..<NUM_TIE_EDGES]))"
    by (intro safe_divisions_concat) simp
  then show ?thesis
    unfolding Draw_Explosion_def by simp
qed

lemma Draw_Explosions_safe:
  assumes "\<forall>index < NUM_EXPLOSIONS. depths_paired (explosions s ! index)"
  shows "safe_divisions (Draw_Explosions s)"
  unfolding Draw_Explosions_def
  by (rule safe_divisions_concat) (use assms in \<open>auto intro: Draw_Explosion_safe\<close>)

text \<open>Tie fighters.\<close>

lemma fold_preserves_set:
  "(\<And>x s. x \<in> set xs \<Longrightarrow> P s \<Longrightarrow> P (f x s)) \<Longrightarrow> P s \<Longrightarrow> P (fold f xs s)"
  by (induction xs arbitrary: s) auto

lemma Draw_Tie_edge_safe:
  assumes "of_int NEAR_Z < t_z t" "edge < NUM_TIE_EDGES" "safe_divisions (snd acc)"
  shows "safe_divisions (snd (Draw_Tie_edge t c edge acc))"
  using assms
  by (cases acc) (auto simp: Draw_Tie_edge_def Let_def safe_divisions_def model_depth)

lemma Draw_Tie_edges_safe:
  assumes "of_int NEAR_Z < t_z t" "safe_divisions out"
  shows "safe_divisions (snd (fold (Draw_Tie_edge t c) [0..<NUM_TIE_EDGES] (bb, out)))"
  by (rule fold_preserves_set [where P = "\<lambda>acc. safe_divisions (snd acc)"])
    (use assms in \<open>auto intro: Draw_Tie_edge_safe\<close>)

lemma Draw_Tie_out:
  "snd (Draw_Tie rnd index (s, out)) =
     (if t_state (ties s ! index) = 0 then out
      else snd (fold (Draw_Tie_edge (ties s ! index) (RGB16Bit 0 (ucast (tieIntensity (ties s ! index))) 0))
                  [0..<NUM_TIE_EDGES] ((4000, 4000, - 4000, - 4000), out)))"
  by (simp add: Draw_Tie_def Let_def split: prod.splits)

lemma Draw_Tie_safe:
  assumes "ties_in_front s" "index < NUM_TIES" "safe_divisions out"
  shows "safe_divisions (snd (Draw_Tie rnd index (s, out)))"
  unfolding Draw_Tie_out using assms
  by (simp add: Draw_Tie_edges_safe ties_in_front_def)

lemma Init_Tie_length: "length (ties (Init_Tie rnd index s)) = length (ties s)"
  by (simp add: Init_Tie_def Let_def)

lemma Init_Tie_in_front:
  assumes "ties_in_front s" "length (ties s) = NUM_TIES"
  shows "ties_in_front (Init_Tie rnd index s)"
  using assms
  by (cases "index < length (ties s)")
    (auto simp: ties_in_front_def Init_Tie_def Let_def nth_list_update)

lemma ties_in_front_cong: "ties s' = ties s \<Longrightarrow> ties_in_front s' = ties_in_front s"
  by (simp add: ties_in_front_def)

lemma Draw_Tie_in_front:
  assumes "ties_in_front s" "length (ties s) = NUM_TIES"
  shows "ties_in_front (fst (Draw_Tie rnd index (s, out))) \<and>
         length (ties (fst (Draw_Tie rnd index (s, out)))) = NUM_TIES"
proof (cases "tie_hit s index")
  case True
  let ?s1 = "(Start_Explosion rnd index s)
                \<lparr>score := word_of_int (float_to_int (of_int (sint (score s)) + t_z (ties s ! index))),
                 hits := hits s + 1\<rparr>"
  have t: "ties ?s1 = ties s"
    by (simp add: Start_Explosion_frame [where g = ties])
  have "ties_in_front ?s1" "length (ties ?s1) = NUM_TIES"
    using assms unfolding ties_in_front_def t by simp_all
  then show ?thesis
    unfolding Draw_Tie_result using True by (simp add: Init_Tie_in_front Init_Tie_length)
next
  case False
  then show ?thesis
    unfolding Draw_Tie_result using assms by simp
qed

lemma Draw_Ties_safe:
  assumes "ties_in_front s" "length (ties s) = NUM_TIES"
  shows "safe_divisions (snd (Draw_Ties rnd s))" "length (ties (fst (Draw_Ties rnd s))) = NUM_TIES"
proof -
  let ?P = "\<lambda>acc. ties_in_front (fst acc) \<and> length (ties (fst acc)) = NUM_TIES \<and> safe_divisions (snd acc)"
  have "?P (fold (Draw_Tie rnd) [0..<NUM_TIES] (s, []))"
  proof (rule fold_preserves_set [where P = ?P])
    show "?P (s, [])" using assms by simp
  next
    fix x acc
    assume x: "x \<in> set [0..<NUM_TIES]" and P: "?P acc"
    obtain s' out where acc: "acc = (s', out)" by (cases acc)
    show "?P (Draw_Tie rnd x acc)"
      using x P Draw_Tie_in_front [of s' rnd x out] Draw_Tie_safe [of s' x out rnd]
      by (simp add: acc)
  qed
  then show "safe_divisions (snd (Draw_Ties rnd s))" "length (ties (fst (Draw_Ties rnd s))) = NUM_TIES"
    by (simp_all add: Draw_Ties_def)
qed

lemma Process_Tie_length: "length (ties (Process_Tie rnd index s)) = length (ties s)"
  by (simp add: Process_Tie_def Let_def Init_Tie_def)

lemma Process_Tie_in_front:
  assumes "index < length (ties s)"
  shows "t_state (ties (Process_Tie rnd index s) ! index) \<noteq> 0 \<longrightarrow>
         of_int NEAR_Z < t_z (ties (Process_Tie rnd index s) ! index)"
  using assms by (simp add: Process_Tie_def Let_def Init_Tie_def)

lemma Process_Ties_in_front:
  assumes "length (ties s) = NUM_TIES"
  shows "ties_in_front (Process_Ties rnd s)" "length (ties (Process_Ties rnd s)) = NUM_TIES"
proof -
  let ?s1 = "Process_Tie rnd 0 s"
  have l1: "length (ties ?s1) = 2" using assms by (simp add: Process_Tie_length)
  have p: "Process_Ties rnd s = Process_Tie rnd 1 ?s1"
    by (simp add: Process_Ties_def upt_2)
  have 0: "t_state (ties ?s1 ! 0) \<noteq> 0 \<longrightarrow> of_int NEAR_Z < t_z (ties ?s1 ! 0)"
    using assms by (intro Process_Tie_in_front) simp
  have 1: "t_state (ties (Process_Tie rnd 1 ?s1) ! 1) \<noteq> 0 \<longrightarrow>
           of_int NEAR_Z < t_z (ties (Process_Tie rnd 1 ?s1) ! 1)"
    using l1 by (intro Process_Tie_in_front) simp
  have k: "ties (Process_Tie rnd 1 ?s1) ! 0 = ties ?s1 ! 0"
    by (rule Process_Tie_other) simp
  show "ties_in_front (Process_Ties rnd s)"
    unfolding p ties_in_front_def using 0 1 k by (auto simp: less_Suc_eq numeral_2_eq_2)
  show "length (ties (Process_Ties rnd s)) = NUM_TIES"
    unfolding p using l1 by (simp add: Process_Tie_length)
qed

text \<open>The pool of explosions keeps the two end points of every edge at one depth.\<close>

lemma pool_paired_cong: "explosions s' = explosions s \<Longrightarrow> pool_paired s' = pool_paired s"
  by (simp add: pool_paired_def)

lemma Process_Explosion_edge_paired:
  assumes "depths_paired e"
  shows "depths_paired (Process_Explosion_edge edge e)"
  using assms
  by (cases "edge < NUM_TIE_EDGES")
    (auto simp: depths_paired_def Process_Explosion_edge_def Let_def advance_def nth_list_update)

lemma Process_Explosion_paired:
  assumes "depths_paired e"
  shows "depths_paired (Process_Explosion e)"
proof -
  have "depths_paired (fold Process_Explosion_edge [0..<NUM_TIE_EDGES] e)"
    by (rule fold_preserves [where P = depths_paired]) (simp_all add: assms Process_Explosion_edge_paired)
  then show ?thesis
    using assms by (simp add: Process_Explosion_def Let_def depths_paired_def)
qed

lemma Process_Explosions_fold:
  "fold (\<lambda>index s. s\<lparr>explosions := (explosions s)[index := Process_Explosion (explosions s ! index)]\<rparr>) js s
   = s\<lparr>explosions := fold (\<lambda>i ys. ys[i := Process_Explosion (ys ! i)]) js (explosions s)\<rparr>"
  by (induction js arbitrary: s) simp_all

lemma Process_Explosions_map:
  "length (explosions s) = NUM_EXPLOSIONS \<Longrightarrow>
   Process_Explosions s = s\<lparr>explosions := map Process_Explosion (explosions s)\<rparr>"
  unfolding Process_Explosions_def Process_Explosions_fold by (simp add: fold_update_map_all)

lemma Process_Explosions_paired:
  assumes "pool_paired s"
  shows "pool_paired (Process_Explosions s)"
  using assms by (simp add: pool_paired_def Process_Explosions_map Process_Explosion_paired)

lemma first_free_exists: "\<not> pool_full s \<Longrightarrow> \<exists>index. first_free s index"
proof -
  assume "\<not> pool_full s"
  then consider "e_state (explosions s ! 0) = 0"
    | "e_state (explosions s ! 0) \<noteq> 0" "e_state (explosions s ! 1) = 0"
    by (auto simp: pool_full_def less_Suc_eq numeral_2_eq_2)
  then show ?thesis
  proof cases
    case 1
    then have "first_free s 0" by (simp add: first_free_def)
    then show ?thesis ..
  next
    case 2
    then have "first_free s 1" by (simp add: first_free_def)
    then show ?thesis ..
  qed
qed

lemma Start_Explosion_paired:
  assumes "pool_paired s"
  shows "pool_paired (Start_Explosion rnd tie s)"
proof (cases "pool_full s")
  case True
  then show ?thesis using assms by (simp add: Start_Explosion_full)
next
  case False
  then obtain index where f: "first_free s index" using first_free_exists by blast
  then have i: "index < length (explosions s)"
    using assms by (simp add: first_free_def pool_paired_def)
  have l: "length (e_p1 (explosions s ! index)) = NUM_TIE_EDGES"
    "length (e_p2 (explosions s ! index)) = NUM_TIE_EDGES"
    "length (e_vel (explosions s ! index)) = NUM_TIE_EDGES"
    using assms i by (simp_all add: pool_paired_def depths_paired_def)
  let ?s' = "Start_Explosion_at rnd tie index s"
  note r = Start_Explosion_at_result [OF i l, of rnd tie]
  have "depths_paired (explosions ?s' ! index)"
    using r by (simp add: depths_paired_def model_depth)
  moreover have "depths_paired (explosions ?s' ! j)" if "j < NUM_EXPLOSIONS" "j \<noteq> index" for j
    using r that assms by (simp add: pool_paired_def)
  moreover have "length (explosions ?s') = NUM_EXPLOSIONS"
    using r assms by (simp add: pool_paired_def)
  ultimately show ?thesis
    unfolding Start_Explosion_first [OF f] pool_paired_def by blast
qed

lemma Draw_Tie_paired:
  assumes "pool_paired s"
  shows "pool_paired (fst (Draw_Tie rnd index (s, out)))"
proof -
  let ?s1 = "(Start_Explosion rnd index s)
                \<lparr>score := word_of_int (float_to_int (of_int (sint (score s)) + t_z (ties s ! index))),
                 hits := hits s + 1\<rparr>"
  have "explosions (Init_Tie rnd index ?s1) = explosions (Start_Explosion rnd index s)"
    by (simp add: Init_Tie_frame [where g = explosions])
  then have "pool_paired (Init_Tie rnd index ?s1)"
    using Start_Explosion_paired [OF assms, of rnd index] by (simp add: pool_paired_def)
  then show ?thesis
    unfolding Draw_Tie_result using assms by simp
qed

lemma Draw_Ties_paired:
  assumes "pool_paired s"
  shows "pool_paired (fst (Draw_Ties rnd s))"
proof -
  have "pool_paired (fst (fold (Draw_Tie rnd) js (s, [])))" for js
  proof (rule fold_preserves [where P = "\<lambda>acc. pool_paired (fst acc)"])
    show "pool_paired (fst (s, []))" using assms by simp
  next
    fix x and acc :: "game \<times> event list"
    assume "pool_paired (fst acc)"
    then show "pool_paired (fst (Draw_Tie rnd x acc))"
      using Draw_Tie_paired [of "fst acc" rnd x "snd acc"] by simp
  qed
  then show ?thesis by (simp add: Draw_Ties_def)
qed

text \<open>The whole frame.\<close>

lemma well_formed_pools:
  "ties (player_input p s) = ties s" "stars (player_input p s) = stars s"
  "explosions (player_input p s) = explosions s"
  "ties (process_cannon s) = ties s" "stars (process_cannon s) = stars s"
  "explosions (process_cannon s) = explosions s"
  "ties (crosshair_screen s) = ties s" "stars (crosshair_screen s) = stars s"
  "explosions (crosshair_screen s) = explosions s"
  "ties (game_state_switch s) = ties s" "stars (game_state_switch s) = stars s"
  "explosions (game_state_switch s) = explosions s"
  by (simp_all add: player_input_def fire_cannon_def speed_controls_def move_crosshair_def
      process_cannon_def crosshair_screen_def game_state_switch_def Let_def)

lemma no_divisions:
  "safe_divisions (draw_crosshair s)" "safe_divisions (snd (draw_laser rnd s))"
  "safe_divisions (draw_game_over s)" "safe_divisions (FillScreen c # out) = safe_divisions out"
  by (simp_all add: draw_crosshair_def draw_laser_def draw_game_over_def safe_divisions_def Let_def)

lemma Game_Main_safe:
  assumes "well_formed s"
  shows "safe_divisions (snd (Game_Main rnd p s))" "well_formed (fst (Game_Main rnd p s))"
proof -
  let ?s2 = "process_cannon (player_input p s)"
  let ?s3 = "Move_Starfield ?s2"
  let ?s4 = "Process_Ties rnd ?s3"
  let ?s5 = "Process_Explosions ?s4"
  let ?s6 = "fst (Draw_Ties rnd ?s5)"
  have l: "length (ties s) = NUM_TIES" "length (stars s) = NUM_STARS" "pool_paired s"
    using assms by (simp_all add: well_formed_def)
  have stars3: "stars ?s3 = map (Move_Star (player_z_vel ?s2)) (stars s)"
    using l by (simp add: Move_Starfield_map well_formed_pools)
  have stars5: "stars ?s5 = stars ?s3"
    by (simp add: Process_Explosions_frame [where g = stars] Process_Ties_frame [where g = stars])
  have "\<forall>index < NUM_STARS. of_int NEAR_Z < p_z (stars ?s5 ! index)"
    unfolding stars5 stars3 using l Move_Star_depth by simp
  then have a: "safe_divisions (Draw_Starfield ?s5)"
    by (rule Draw_Starfield_safe)
  have "length (ties ?s3) = NUM_TIES"
    using l by (simp add: Move_Starfield_frame [where g = ties] well_formed_pools)
  then have "ties_in_front ?s4" "length (ties ?s4) = NUM_TIES"
    by (rule Process_Ties_in_front)+
  moreover have t5: "ties ?s5 = ties ?s4"
    by (simp add: Process_Explosions_frame [where g = ties])
  ultimately have "ties_in_front ?s5" "length (ties ?s5) = NUM_TIES"
    by (simp_all add: ties_in_front_def)
  then have b: "safe_divisions (snd (Draw_Ties rnd ?s5))" "length (ties ?s6) = NUM_TIES"
    by (rule Draw_Ties_safe)+
  have "explosions ?s4 = explosions s"
    by (simp add: Process_Ties_frame [where g = explosions] Move_Starfield_frame [where g = explosions]
        well_formed_pools)
  then have "pool_paired ?s4" using l by (simp add: pool_paired_def)
  then have "pool_paired ?s5" by (rule Process_Explosions_paired)
  then have p6: "pool_paired ?s6" by (rule Draw_Ties_paired)
  then have c: "safe_divisions (Draw_Explosions ?s6)"
    by (intro Draw_Explosions_safe) (simp add: pool_paired_def)
  show "safe_divisions (snd (Game_Main rnd p s))"
    unfolding Game_Main_trace Let_def using a b c by (simp add: no_divisions)
  have "stars ?s6 = stars ?s5"
    by (simp add: Draw_Ties_frame [where g = stars])
  then have s6: "length (stars ?s6) = NUM_STARS"
    unfolding stars5 stars3 using l by simp
  show "well_formed (fst (Game_Main rnd p s))"
    unfolding Game_Main_state well_formed_def pool_paired_def
    using b(2) s6 p6
    by (simp add: well_formed_pools draw_laser_frame [where g = ties] draw_laser_frame [where g = stars]
        draw_laser_frame [where g = explosions] pool_paired_def)
qed

lemma Game_Init_well_formed: "well_formed (Game_Init rnd globals)"
proof -
  let ?s1 = "fold (Init_Star rnd) [0..<NUM_STARS] globals"
  have "length (stars ?s1) = NUM_STARS \<and> ties ?s1 = ties globals \<and> explosions ?s1 = explosions globals"
    by (rule fold_preserves) (simp_all add: Init_Star_def Let_def globals_def)
  moreover have "length (ties (Game_Init rnd globals)) = length (ties ?s1) \<and>
     stars (Game_Init rnd globals) = stars ?s1 \<and> explosions (Game_Init rnd globals) = explosions ?s1"
    unfolding Game_Init_def
    by (rule fold_preserves) (simp_all add: Init_Tie_def Let_def)
  moreover have "depths_paired zero_expl"
    by (simp add: depths_paired_def zero_expl_def)
  ultimately show ?thesis
    by (simp add: well_formed_def pool_paired_def globals_def less_Suc_eq numeral_2_eq_2)
qed

lemma run_well_formed: "well_formed s \<Longrightarrow> well_formed (run rnd pins n s)"
  by (induction n) (simp_all add: Game_Main_safe)

text \<open>One frame in the life of an active explosion, edge by edge.\<close>

lemma Process_Explosion_edges:
  assumes l: "length (e_p1 e) = NUM_TIE_EDGES" "length (e_p2 e) = NUM_TIE_EDGES"
    and n: "n \<le> NUM_TIE_EDGES"
  defines "e' \<equiv> fold Process_Explosion_edge [0..<n] e"
  shows "e_state e' = e_state e \<and> e_counter e' = e_counter e \<and> e_color e' = e_color e \<and>
         e_vel e' = e_vel e \<and>
         length (e_p1 e') = NUM_TIE_EDGES \<and> length (e_p2 e') = NUM_TIE_EDGES \<and>
         (\<forall>edge < n. e_p1 e' ! edge = advance (e_vel e ! edge) (e_p1 e ! edge) \<and>
                      e_p2 e' ! edge = advance (e_vel e ! edge) (e_p2 e ! edge)) \<and>
         (\<forall>edge \<ge> n. e_p1 e' ! edge = e_p1 e ! edge \<and> e_p2 e' ! edge = e_p2 e ! edge)"
  using n unfolding e'_def
proof (induction n)
  case 0
  then show ?case using l by simp
next
  case (Suc n)
  let ?e = "fold Process_Explosion_edge [0..<n] e"
  have IH: "e_state ?e = e_state e" "e_counter ?e = e_counter e" "e_color ?e = e_color e"
    "e_vel ?e = e_vel e" "length (e_p1 ?e) = NUM_TIE_EDGES" "length (e_p2 ?e) = NUM_TIE_EDGES"
    "\<And>edge. edge < n \<Longrightarrow> e_p1 ?e ! edge = advance (e_vel e ! edge) (e_p1 e ! edge) \<and>
                      e_p2 ?e ! edge = advance (e_vel e ! edge) (e_p2 e ! edge)"
    "\<And>edge. n \<le> edge \<Longrightarrow> e_p1 ?e ! edge = e_p1 e ! edge \<and> e_p2 ?e ! edge = e_p2 e ! edge"
    using Suc by simp_all
  have n: "n < NUM_TIE_EDGES" using Suc.prems by simp
  have step: "fold Process_Explosion_edge [0..<Suc n] e = Process_Explosion_edge n ?e"
    by simp
  show ?case
    unfolding step using n IH
    by (simp add: Process_Explosion_edge_def Let_def nth_list_update less_Suc_eq)
qed

lemma Process_Explosion_active:
  assumes "e_state e \<noteq> 0" "sint (e_counter e + 1) \<le> 100"
    and l: "length (e_p1 e) = NUM_TIE_EDGES" "length (e_p2 e) = NUM_TIE_EDGES"
    and "edge < NUM_TIE_EDGES"
  shows "e_state (Process_Explosion e) = e_state e"
    and "e_p1 (Process_Explosion e) ! edge = advance (e_vel e ! edge) (e_p1 e ! edge)"
    and "e_p2 (Process_Explosion e) ! edge = advance (e_vel e ! edge) (e_p2 e ! edge)"
  using assms Process_Explosion_edges [OF l order_refl]
  by (simp_all add: Process_Explosion_def Let_def)

lemma Draw_Explosions_divides:
  assumes "index < NUM_EXPLOSIONS" "e_state (explosions s ! index) \<noteq> 0" "edge < NUM_TIE_EDGES"
    and "\<not> (p_z (e_p1 (explosions s ! index) ! edge) < of_int NEAR_Z \<and>
             p_z (e_p2 (explosions s ! index) ! edge) < of_int NEAR_Z)"
  shows "Divide ExplosionVertex (p_z (e_p1 (explosions s ! index) ! edge)) \<in> set (Draw_Explosions s)"
proof -
  let ?e = "explosions s ! index"
  have "Divide ExplosionVertex (p_z (e_p1 ?e ! edge)) \<in> set (Draw_Explosion_edge ?e edge)"
    using assms(4) by (simp add: Draw_Explosion_edge_def Let_def)
  then have "Divide ExplosionVertex (p_z (e_p1 ?e ! edge)) \<in> set (Draw_Explosion ?e)"
    using assms(2,3) by (auto simp: Draw_Explosion_def)
  then show ?thesis
    using assms(1) by (auto simp: Draw_Explosions_def)
qed

lemma pool_full_cong: "explosions s' = explosions s \<Longrightarrow> pool_full s' = pool_full s"
  by (simp add: pool_full_def)

lemma Draw_Ties_pool_full:
  assumes "pool_full s"
  shows "explosions (fst (Draw_Ties rnd s)) = explosions s"
proof -
  have "explosions (fst (fold (Draw_Tie rnd) js (s, []))) = explosions s" for js
  proof (rule fold_preserves [where P = "\<lambda>acc. explosions (fst acc) = explosions s"])
    show "explosions (fst (s, [])) = explosions s" by simp
  next
    fix x and acc :: "game \<times> event list"
    assume a: "explosions (fst acc) = explosions s"
    then have "pool_full (fst acc)" using assms by (simp add: pool_full_def)
    then have "explosions (fst (Draw_Tie rnd x (fst acc, snd acc))) = explosions (fst acc)"
      unfolding Draw_Tie_result
      by (simp add: Start_Explosion_full Init_Tie_frame [where g = explosions])
    then show "explosions (fst (Draw_Tie rnd x acc)) = explosions s"
      using a by simp
  qed
  then show ?thesis by (simp add: Draw_Ties_def)
qed

lemma Draw_Starfield_divides:
  "index < NUM_STARS \<Longrightarrow> Divide StarPoint (p_z (stars s ! index)) \<in> set (Draw_Starfield s)"
  by (auto simp: Draw_Starfield_def Draw_Star_def Let_def)

lemma drifting_well_formed: "well_formed drifting"
  by (simp add: well_formed_def pool_paired_def depths_paired_def drifting_def shrapnel_def pt_def
      less_Suc_eq numeral_2_eq_2 eval_nat_numeral)

lemma drifting_divides:
  "Divide ExplosionVertex 10 \<in> set (snd (Game_Main rnd released drifting))"
  "Divide StarPoint 752 \<in> set (snd (Game_Main rnd released drifting))"
proof -
  let ?s4 = "Process_Ties rnd (Move_Starfield (process_cannon (player_input released drifting)))"
  let ?s5 = "Process_Explosions ?s4"
  let ?s6 = "fst (Draw_Ties rnd ?s5)"
  have e4: "explosions ?s4 = [shrapnel, shrapnel]"
    by (simp add: Process_Ties_frame [where g = explosions] Move_Starfield_frame [where g = explosions]
        well_formed_pools, simp add: drifting_def)
  then have e5: "explosions ?s5 = [Process_Explosion shrapnel, Process_Explosion shrapnel]"
    by (simp add: Process_Explosions_map)
  have a: "e_state shrapnel \<noteq> 0" "sint (e_counter shrapnel + 1) \<le> 100"
    "length (e_p1 shrapnel) = NUM_TIE_EDGES" "length (e_p2 shrapnel) = NUM_TIE_EDGES"
    "(0::nat) < NUM_TIE_EDGES"
    by (simp_all add: shrapnel_def)
  note pe = Process_Explosion_active [OF a]
  have st: "e_state (Process_Explosion shrapnel) \<noteq> 0"
    unfolding pe by (simp add: shrapnel_def)
  have z: "p_z (e_p1 (Process_Explosion shrapnel) ! 0) = 10" "p_z (e_p2 (Process_Explosion shrapnel) ! 0) = 10"
    unfolding pe by (simp_all add: shrapnel_def advance_def pt_def)
  have "pool_full ?s5"
    unfolding pool_full_def e5 using st by (simp add: less_Suc_eq numeral_2_eq_2)
  then have e6: "explosions ?s6 = [Process_Explosion shrapnel, Process_Explosion shrapnel]"
    unfolding e5 [symmetric] by (rule Draw_Ties_pool_full)
  have "Divide ExplosionVertex (p_z (e_p1 (explosions ?s6 ! 0) ! 0)) \<in> set (Draw_Explosions ?s6)"
    by (rule Draw_Explosions_divides) (simp_all add: e6 st z)
  then have "Divide ExplosionVertex 10 \<in> set (Draw_Explosions ?s6)"
    by (simp add: e6 z)
  then show "Divide ExplosionVertex 10 \<in> set (snd (Game_Main rnd released drifting))"
    unfolding Game_Main_trace Let_def by simp
  have i: "player_input released drifting = drifting"
    by (simp add: player_input_def fire_cannon_def speed_controls_def move_crosshair_def released_def)
  have "length (stars (process_cannon drifting)) = NUM_STARS"
    "player_z_vel (process_cannon drifting) = 8"
    by (simp_all add: well_formed_pools process_cannon_player_z_vel, simp_all add: drifting_def)
  then have "stars (Move_Starfield (process_cannon drifting)) = map (Move_Star 8) (stars drifting)"
    by (simp add: Move_Starfield_map well_formed_pools)
  then have "stars ?s5 = map (Move_Star 8) (stars drifting)"
    unfolding i
    by (simp add: Process_Explosions_frame [where g = stars] Process_Ties_frame [where g = stars])
  then have "p_z (stars ?s5 ! 0) = 752"
    by (simp add: drifting_def Move_Star_def Let_def)
  then have "Divide StarPoint 752 \<in> set (Draw_Starfield ?s5)"
    using Draw_Starfield_divides [of 0 ?s5] by simp
  then show "Divide StarPoint 752 \<in> set (snd (Game_Main rnd released drifting))"
    unfolding Game_Main_trace Let_def by simp
qed

subsection \<open>Projection\<close>

lemma float_to_int_near: "\<bar>of_int (float_to_int q) - q\<bar> < 1"
  unfolding float_to_int_def by (simp split: if_splits) linarith

lemma Draw_Tie_edge_line:
  "snd (Draw_Tie_edge t c edge (bb, out)) =
     out @ [Divide TieVertex (p_z (tie_vlist ! l_v1 (tie_shape ! edge)) + t_z t),
            Divide TieVertex (p_z (tie_vlist ! l_v1 (tie_shape ! edge)) + t_z t),
            Divide TieVertex (p_z (tie_vlist ! l_v2 (tie_shape ! edge)) + t_z t),
            Divide TieVertex (p_z (tie_vlist ! l_v2 (tie_shape ! edge)) + t_z t),
            DrawLine
              (screen_x (perspective (t_x t + p_x (tie_vlist ! l_v1 (tie_shape ! edge)))
                                     (p_z (tie_vlist ! l_v1 (tie_shape ! edge)) + t_z t)))
              (screen_y (perspective (t_y t + p_y (tie_vlist ! l_v1 (tie_shape ! edge)))
                                     (p_z (tie_vlist ! l_v1 (tie_shape ! edge)) + t_z t)))
              (screen_x (perspective (t_x t + p_x (tie_vlist ! l_v2 (tie_shape ! edge)))
                                     (p_z (tie_vlist ! l_v2 (tie_shape ! edge)) + t_z t)))
              (screen_y (perspective (t_y t + p_y (tie_vlist ! l_v2 (tie_shape ! edge)))
                                     (p_z (tie_vlist ! l_v2 (tie_shape ! edge)) + t_z t)))
              c]"
  by (cases bb) (simp add: Draw_Tie_edge_def Let_def)

subsection \<open>Frames in which nothing is hit and nothing escapes\<close>

lemma Process_Tie_coast:
  assumes "index < length (ties s)" "t_state (ties s ! index) \<noteq> 0" "\<not> escapes (ties s ! index)"
  shows "Process_Tie rnd index s = s\<lparr>ties := (ties s)[index := coast (ties s ! index)]\<rparr>"
  using assms by (simp add: Process_Tie_def escapes_def coast_def Let_def)

lemma Process_Ties_first:
  assumes "length (ties s) = NUM_TIES" "t_state (ties s ! 0) \<noteq> 0" "\<not> escapes (ties s ! 0)"
  shows "ties (Process_Ties rnd s) ! 0 = coast (ties s ! 0)"
proof -
  have "ties (Process_Ties rnd s) ! 0 = ties (Process_Tie rnd 0 s) ! 0"
    unfolding Process_Ties_def upt_2 by (simp add: Process_Tie_other)
  then show ?thesis
    using assms by (simp add: Process_Tie_coast)
qed

lemma Process_Ties_coast:
  assumes "length (ties s) = NUM_TIES"
    and "t_state (ties s ! 0) \<noteq> 0" "\<not> escapes (ties s ! 0)"
    and "t_state (ties s ! 1) \<noteq> 0" "\<not> escapes (ties s ! 1)"
  shows "Process_Ties rnd s = s\<lparr>ties := map coast (ties s)\<rparr>"
proof -
  obtain a b where ab: "ties s = [a, b]"
    using assms(1) by (auto simp: length_Suc_conv numeral_2_eq_2)
  have 0: "Process_Tie rnd 0 s = s\<lparr>ties := [coast a, b]\<rparr>"
    using assms ab by (simp add: Process_Tie_coast)
  have "Process_Tie rnd 1 (s\<lparr>ties := [coast a, b]\<rparr>) = s\<lparr>ties := [coast a, coast b]\<rparr>"
    using assms ab by (simp add: Process_Tie_coast)
  then show ?thesis
    unfolding Process_Ties_def upt_2 using 0 ab by simp
qed

lemma Draw_Ties_idle: "cannon_state s \<noteq> 1 \<Longrightarrow> fst (Draw_Ties rnd s) = s"
proof -
  assume c: "cannon_state s \<noteq> 1"
  have "fst (fold (Draw_Tie rnd) js (s, [])) = s" for js
  proof (rule fold_preserves [where P = "\<lambda>acc. fst acc = s"])
    show "fst (s, []) = s" by simp
  next
    fix x and acc :: "game \<times> event list"
    assume "fst acc = s"
    then have "fst (Draw_Tie rnd x (fst acc, snd acc)) = s"
      unfolding Draw_Tie_result using c by (simp add: tie_hit_def)
    then show "fst (Draw_Tie rnd x acc) = s" by simp
  qed
  then show ?thesis by (simp add: Draw_Ties_def)
qed

lemma Process_Explosion_inactive: "e_state e = 0 \<Longrightarrow> Process_Explosion e = e"
  by (simp add: Process_Explosion_def)

lemma Game_Main_cross_screen:
  "cross_x_screen (fst (Game_Main rnd p s)) =
     float_to_int (of_int (WINDOW_WIDTH div 2) + cross_x (player_input p s))"
  "cross_y_screen (fst (Game_Main rnd p s)) =
     float_to_int (of_int (WINDOW_HEIGHT div 2) - cross_y (player_input p s))"
proof -
  let ?s5 = "Process_Explosions (Process_Ties rnd (Move_Starfield (process_cannon (player_input p s))))"
  let ?s6 = "fst (Draw_Ties rnd ?s5)"
  have x: "cross_x ?s6 = cross_x (player_input p s)"
    by (simp add: Draw_Ties_frame [where g = cross_x] Process_Explosions_frame [where g = cross_x]
        Process_Ties_frame [where g = cross_x] Move_Starfield_frame [where g = cross_x]
        process_cannon_controls)
  have y: "cross_y ?s6 = cross_y (player_input p s)"
    by (simp add: Draw_Ties_frame [where g = cross_y] Process_Explosions_frame [where g = cross_y]
        Process_Ties_frame [where g = cross_y] Move_Starfield_frame [where g = cross_y]
        process_cannon_controls)
  have a: "cross_x_screen (game_state_switch s') = cross_x_screen s'"
    "cross_y_screen (game_state_switch s') = cross_y_screen s'" for s'
    by (simp_all add: game_state_switch_def)
  show "cross_x_screen (fst (Game_Main rnd p s)) =
     float_to_int (of_int (WINDOW_WIDTH div 2) + cross_x (player_input p s))"
    unfolding Game_Main_state a
    by (simp add: draw_laser_frame [where g = cross_x_screen], simp add: crosshair_screen_def x)
  show "cross_y_screen (fst (Game_Main rnd p s)) =
     float_to_int (of_int (WINDOW_HEIGHT div 2) - cross_y (player_input p s))"
    unfolding Game_Main_state a
    by (simp add: draw_laser_frame [where g = cross_y_screen], simp add: crosshair_screen_def y)
qed

lemma Game_Main_pools:
  "ties (fst (Game_Main rnd p s)) =
     ties (fst (Draw_Ties rnd (Process_Explosions (Process_Ties rnd (Move_Starfield (process_cannon (player_input p s)))))))"
  "explosions (fst (Game_Main rnd p s)) =
     explosions (fst (Draw_Ties rnd (Process_Explosions (Process_Ties rnd (Move_Starfield (process_cannon (player_input p s)))))))"
  unfolding Game_Main_state
  by (simp_all add: well_formed_pools draw_laser_frame [where g = ties]
      draw_laser_frame [where g = explosions])

lemma quiet_frame:
  assumes l: "length (ties s) = NUM_TIES" "length (explosions s) = NUM_EXPLOSIONS"
    and idle: "cannon_state s = 0" "game_state s \<noteq> GAME_RUNNING \<or> p BUTTON_FIRE_PIN"
    and t: "t_state (ties s ! 0) \<noteq> 0" "\<not> escapes (ties s ! 0)"
           "t_state (ties s ! 1) \<noteq> 0" "\<not> escapes (ties s ! 1)"
    and e: "\<forall>index < NUM_EXPLOSIONS. e_state (explosions s ! index) = 0"
  shows "ties (fst (Game_Main rnd p s)) = map coast (ties s)"
    and "explosions (fst (Game_Main rnd p s)) = explosions s"
    and "cannon (fst (Game_Main rnd p s)) = cannon s"
    and "misses (fst (Game_Main rnd p s)) = misses s"
proof -
  let ?s2 = "process_cannon (player_input p s)"
  let ?s3 = "Move_Starfield ?s2"
  let ?s4 = "Process_Ties rnd ?s3"
  let ?s5 = "Process_Explosions ?s4"
  show c: "cannon (fst (Game_Main rnd p s)) = cannon s"
    using idle by (intro cannon_idle_step)
  then have "cannon ?s2 = cannon s"
    by (simp add: Game_Main_cannon)
  then have "cannon_state ?s2 = 0"
    using idle(1) by (simp add: cannon_def)
  then have "cannon_state ?s5 \<noteq> 1"
    by (simp add: Process_Explosions_frame [where g = cannon_state]
        Process_Ties_frame [where g = cannon_state] Move_Starfield_frame [where g = cannon_state])
  then have d: "fst (Draw_Ties rnd ?s5) = ?s5"
    by (rule Draw_Ties_idle)
  have t3: "ties ?s3 = ties s"
    by (simp add: Move_Starfield_frame [where g = ties] well_formed_pools)
  have "Process_Ties rnd ?s3 = ?s3\<lparr>ties := map coast (ties ?s3)\<rparr>"
    by (rule Process_Ties_coast) (use t3 l t in simp_all)
  then have "ties ?s4 = map coast (ties s)"
    by (simp add: t3)
  then show "ties (fst (Game_Main rnd p s)) = map coast (ties s)"
    unfolding Game_Main_pools d by (simp add: Process_Explosions_frame [where g = ties])
  have e4: "explosions ?s4 = explosions s"
    by (simp add: Process_Ties_frame [where g = explosions] Move_Starfield_frame [where g = explosions]
        well_formed_pools)
  have "map Process_Explosion (explosions s) = explosions s"
    using e l(2) by (intro map_idI) (auto simp: in_set_conv_nth Process_Explosion_inactive)
  then show "explosions (fst (Game_Main rnd p s)) = explosions s"
    unfolding Game_Main_pools d using l(2) by (simp add: Process_Explosions_map e4)
  show "misses (fst (Game_Main rnd p s)) = misses s"
    using t by (simp add: Game_Main_misses_count)
qed

subsection \<open>Explosions across a frame\<close>

lemma Start_Explosion_keeps_active:
  assumes "pool_paired s" "e_state (explosions s ! j) \<noteq> 0"
  shows "explosions (Start_Explosion rnd tie s) ! j = explosions s ! j"
proof (cases "pool_full s")
  case True
  then show ?thesis by (simp add: Start_Explosion_full)
next
  case False
  then obtain index where f: "first_free s index" using first_free_exists by blast
  then have i: "index < length (explosions s)" and ne: "j \<noteq> index"
    using assms by (auto simp: first_free_def pool_paired_def)
  have l: "length (e_p1 (explosions s ! index)) = NUM_TIE_EDGES"
    "length (e_p2 (explosions s ! index)) = NUM_TIE_EDGES"
    "length (e_vel (explosions s ! index)) = NUM_TIE_EDGES"
    using assms i by (simp_all add: pool_paired_def depths_paired_def)
  show ?thesis
    unfolding Start_Explosion_first [OF f]
    using Start_Explosion_at_result [OF i l, of rnd tie] ne by simp
qed

lemma Draw_Tie_keeps_active:
  assumes "pool_paired s" "e_state (explosions s ! j) \<noteq> 0"
  shows "explosions (fst (Draw_Tie rnd index (s, out))) ! j = explosions s ! j"
  unfolding Draw_Tie_result
  using Start_Explosion_keeps_active [OF assms, of rnd index]
  by (simp add: Init_Tie_frame [where g = explosions])

lemma Draw_Ties_keeps_active:
  assumes "pool_paired s" "e_state (explosions s ! j) \<noteq> 0"
  shows "explosions (fst (Draw_Ties rnd s)) ! j = explosions s ! j"
proof -
  let ?P = "\<lambda>acc. pool_paired (fst acc) \<and> explosions (fst acc) ! j = explosions s ! j"
  have "?P (fold (Draw_Tie rnd) js (s, []))" for js
  proof (rule fold_preserves [where P = ?P])
    show "?P (s, [])" using assms by simp
  next
    fix x and acc :: "game \<times> event list"
    assume P: "?P acc"
    then have "e_state (explosions (fst acc) ! j) \<noteq> 0" using assms by simp
    with P have "explosions (fst (Draw_Tie rnd x (fst acc, snd acc))) ! j = explosions (fst acc) ! j"
      by (intro Draw_Tie_keeps_active) simp_all
    moreover have "pool_paired (fst (Draw_Tie rnd x (fst acc, snd acc)))"
      using P by (intro Draw_Tie_paired) simp
    ultimately show "?P (Draw_Tie rnd x acc)" using P by simp
  qed
  then show ?thesis by (simp add: Draw_Ties_def)
qed

lemma drift_frame:
  assumes w: "well_formed s" and j: "j < NUM_EXPLOSIONS"
    and a: "e_state (explosions s ! j) \<noteq> 0" "sint (e_counter (explosions s ! j) + 1) \<le> 100"
  shows "explosions (fst (Game_Main rnd p s)) ! j = Process_Explosion (explosions s ! j)"
proof -
  let ?s4 = "Process_Ties rnd (Move_Starfield (process_cannon (player_input p s)))"
  let ?s5 = "Process_Explosions ?s4"
  have pp: "pool_paired s" using w by (simp add: well_formed_def)
  have e4: "explosions ?s4 = explosions s"
    by (simp add: Process_Ties_frame [where g = explosions] Move_Starfield_frame [where g = explosions]
        well_formed_pools)
  then have p4: "pool_paired ?s4" using pp by (simp add: pool_paired_def)
  then have p5: "pool_paired ?s5" by (rule Process_Explosions_paired)
  have e5: "explosions ?s5 ! j = Process_Explosion (explosions s ! j)"
    using pp j by (simp add: Process_Explosions_map e4 pool_paired_def)
  have "depths_paired (explosions s ! j)" using pp j by (simp add: pool_paired_def)
  then have "e_state (Process_Explosion (explosions s ! j)) = e_state (explosions s ! j)"
    using a by (intro Process_Explosion_active(1) [where edge = 0]) (simp_all add: depths_paired_def)
  then have "e_state (explosions ?s5 ! j) \<noteq> 0"
    using a e5 by simp
  with p5 have "explosions (fst (Draw_Ties rnd ?s5)) ! j = explosions ?s5 ! j"
    by (rule Draw_Ties_keeps_active)
  then show ?thesis
    unfolding Game_Main_pools e5 .
qed

lemma drift_frame_divides:
  assumes w: "well_formed s" and j: "j < NUM_EXPLOSIONS" and edge: "edge < NUM_TIE_EDGES"
    and a: "e_state (explosions s ! j) \<noteq> 0" "sint (e_counter (explosions s ! j) + 1) \<le> 100"
    and z: "p_z (e_p1 (explosions s ! j) ! edge) + v_z (e_vel (explosions s ! j) ! edge) = z"
           "of_int NEAR_Z \<le> z"
  shows "Divide ExplosionVertex z \<in> set (snd (Game_Main rnd p s))"
proof -
  let ?s5 = "Process_Explosions (Process_Ties rnd (Move_Starfield (process_cannon (player_input p s))))"
  let ?s6 = "fst (Draw_Ties rnd ?s5)"
  let ?e = "explosions s ! j"
  have "explosions (fst (Game_Main rnd p s)) ! j = Process_Explosion ?e"
    using w j a by (rule drift_frame)
  then have e6: "explosions ?s6 ! j = Process_Explosion ?e"
    unfolding Game_Main_pools .
  have "depths_paired ?e" using w j by (simp add: well_formed_def pool_paired_def)
  then have l: "length (e_p1 ?e) = NUM_TIE_EDGES" "length (e_p2 ?e) = NUM_TIE_EDGES"
    by (simp_all add: depths_paired_def)
  note pe = Process_Explosion_active [OF a l edge]
  have z1: "p_z (e_p1 (explosions ?s6 ! j) ! edge) = z"
    unfolding e6 pe using z(1) by (simp add: advance_def)
  have "Divide ExplosionVertex (p_z (e_p1 (explosions ?s6 ! j) ! edge)) \<in> set (Draw_Explosions ?s6)"
  proof (rule Draw_Explosions_divides)
    show "j < NUM_EXPLOSIONS" "edge < NUM_TIE_EDGES" by fact+
    show "e_state (explosions ?s6 ! j) \<noteq> 0"
      unfolding e6 pe using a by simp
    show "\<not> (p_z (e_p1 (explosions ?s6 ! j) ! edge) < of_int NEAR_Z \<and>
             p_z (e_p2 (explosions ?s6 ! j) ! edge) < of_int NEAR_Z)"
      unfolding z1 using z(2) by simp
  qed
  then show ?thesis
    unfolding Game_Main_trace Let_def z1 by simp
qed

subsection \<open>The frame in which a tie fighter is shot\<close>

lemma process_cannon_fired:
  "cannon s = (1, 0, t) \<Longrightarrow> cannon (process_cannon s) = (1, 1, t)"
  by (simp add: process_cannon_step)

lemma fire_frame:
  assumes w: "well_formed s"
    and c: "cannon_state s = 0" "game_state s = GAME_RUNNING" "\<not> p BUTTON_FIRE_PIN"
    and t: "t_state (ties s ! 0) \<noteq> 0" "\<not> escapes (ties s ! 0)"
    and h: "screen_x (perspective (t_x (coast (ties s ! 0)) - 40) (t_z (coast (ties s ! 0)))) < cross_x_screen s"
           "cross_x_screen s < screen_x (perspective (t_x (coast (ties s ! 0)) + 40) (t_z (coast (ties s ! 0))))"
           "screen_y (perspective (t_y (coast (ties s ! 0)) + 40) (t_z (coast (ties s ! 0)))) < cross_y_screen s"
           "cross_y_screen s < screen_y (perspective (t_y (coast (ties s ! 0)) - 40) (t_z (coast (ties s ! 0))))"
    and e: "e_state (explosions s ! 0) = 0"
  shows "\<exists>e'. explosions (fst (Game_Main rnd p s)) ! 0 = e' \<and>
           e_state e' = 1 \<and> e_counter e' = 0 \<and>
           length (e_p1 e') = NUM_TIE_EDGES \<and> length (e_p2 e') = NUM_TIE_EDGES \<and>
           (\<forall>edge < NUM_TIE_EDGES.
              p_z (e_p1 e' ! edge) = t_z (coast (ties s ! 0)) \<and>
              (\<exists>r. v_z (e_vel e' ! edge) = of_int (- 7 + int (rnd r) mod 8)))"
proof -
  let ?s2 = "process_cannon (player_input p s)"
  let ?s3 = "Move_Starfield ?s2"
  let ?s4 = "Process_Ties rnd ?s3"
  let ?s5 = "Process_Explosions ?s4"
  let ?t = "coast (ties s ! 0)"
  have l: "length (ties s) = NUM_TIES" and pp: "pool_paired s"
    using w by (simp_all add: well_formed_def)
  have "cannon (player_input p s) = (1, 0, cross_x_screen s, cross_y_screen s)"
    using player_input_fire [of s p] c by simp
  then have "cannon ?s2 = (1, 1, cross_x_screen s, cross_y_screen s)"
    by (rule process_cannon_fired)
  then have c2: "cannon_state ?s2 = 1" "target_x_screen ?s2 = cross_x_screen s"
    "target_y_screen ?s2 = cross_y_screen s"
    by (simp_all add: cannon_def)
  have c5: "cannon_state ?s5 = 1" "target_x_screen ?s5 = cross_x_screen s"
    "target_y_screen ?s5 = cross_y_screen s"
    using c2
    by (simp_all add: Process_Explosions_frame [where g = cannon_state]
        Process_Ties_frame [where g = cannon_state] Move_Starfield_frame [where g = cannon_state]
        Process_Explosions_frame [where g = target_x_screen]
        Process_Ties_frame [where g = target_x_screen] Move_Starfield_frame [where g = target_x_screen]
        Process_Explosions_frame [where g = target_y_screen]
        Process_Ties_frame [where g = target_y_screen] Move_Starfield_frame [where g = target_y_screen])
  have t3: "ties ?s3 = ties s"
    by (simp add: Move_Starfield_frame [where g = ties] well_formed_pools)
  have "ties ?s4 ! 0 = coast (ties ?s3 ! 0)"
    by (rule Process_Ties_first) (use t3 l t in simp_all)
  then have t5: "ties ?s5 ! 0 = ?t"
    by (simp add: Process_Explosions_frame [where g = ties] t3)
  have hit: "tie_hit ?s5 0"
    by (rule tie_hit_corners) (use h t in \<open>simp_all add: t5 c5 coast_def\<close>)
  have e4: "explosions ?s4 = explosions s"
    by (simp add: Process_Ties_frame [where g = explosions] Move_Starfield_frame [where g = explosions]
        well_formed_pools)
  then have "pool_paired ?s4" using pp by (simp add: pool_paired_def)
  then have p5: "pool_paired ?s5" by (rule Process_Explosions_paired)
  have e5: "explosions ?s5 ! 0 = explosions s ! 0"
    using pp e by (simp add: Process_Explosions_map e4 pool_paired_def Process_Explosion_inactive)
  then have f: "first_free ?s5 0"
    using e by (simp add: first_free_def)
  have i5: "0 < length (explosions ?s5)" using p5 by (simp add: pool_paired_def)
  have "depths_paired (explosions ?s5 ! 0)" using p5 by (simp add: pool_paired_def)
  then have l5: "length (e_p1 (explosions ?s5 ! 0)) = NUM_TIE_EDGES"
    "length (e_p2 (explosions ?s5 ! 0)) = NUM_TIE_EDGES"
    "length (e_vel (explosions ?s5 ! 0)) = NUM_TIE_EDGES"
    by (simp_all add: depths_paired_def)
  let ?x = "Start_Explosion rnd 0 ?s5"
  let ?e = "explosions ?x ! 0"
  note r = Start_Explosion_at_result [OF i5 l5, of rnd 0, folded Start_Explosion_first [OF f]]
  have started: "e_state ?e = 1" "e_counter ?e = 0"
    "length (e_p1 ?e) = NUM_TIE_EDGES" "length (e_p2 ?e) = NUM_TIE_EDGES"
    "\<forall>edge < NUM_TIE_EDGES. p_z (e_p1 ?e ! edge) = t_z ?t \<and>
         (\<exists>r. v_z (e_vel ?e ! edge) = of_int (- 7 + int (rnd r) mod 8))"
    using r by (auto simp: t5 model_depth)
  let ?d0 = "fst (Draw_Tie rnd 0 (?s5, []))"
  have d0: "explosions ?d0 = explosions ?x"
    unfolding Draw_Tie_result using hit by (simp add: Init_Tie_frame [where g = explosions])
  have "pool_paired ?d0" using p5 by (rule Draw_Tie_paired)
  moreover have "e_state (explosions ?d0 ! 0) \<noteq> 0"
    unfolding d0 using started by simp
  ultimately have "explosions (fst (Draw_Tie rnd 1 (?d0, snd (Draw_Tie rnd 0 (?s5, []))))) ! 0 = explosions ?d0 ! 0"
    by (rule Draw_Tie_keeps_active)
  then have "explosions (fst (Draw_Ties rnd ?s5)) ! 0 = ?e"
    unfolding Draw_Ties_def upt_2 d0 by simp
  then show ?thesis
    unfolding Game_Main_pools using started by simp
qed

subsection \<open>A run that ends in a division by \<open>NEAR_Z\<close>\<close>

lemma Game_Init_frame:
  assumes "\<And>s a. g (s\<lparr>ties := a\<rparr>) = g s" "\<And>s a. g (s\<lparr>stars := a\<rparr>) = g s"
    "\<And>s a. g (s\<lparr>rand_calls := a\<rparr>) = g s"
  shows "g (Game_Init rnd s) = g s"
proof -
  have "g (fold (Init_Star rnd) js s) = g s" for js s
    by (rule fold_observe) (simp add: Init_Star_def Let_def assms)
  moreover have "g (fold (Init_Tie rnd) js s) = g s" for js s
    by (rule fold_observe) (simp add: Init_Tie_frame [where g = g] assms)
  ultimately show ?thesis by (simp add: Game_Init_def)
qed

lemma Game_Init_ties:
  "ties (Game_Init (\<lambda>n. 54) globals) = [approach 0, approach 0]"
proof -
  let ?s1 = "fold (Init_Star (\<lambda>n. 54)) [0..<NUM_STARS] globals"
  have "ties ?s1 = ties globals"
    by (rule fold_observe) (simp add: Init_Star_def Let_def)
  then have "length (ties ?s1) = 2"
    by (simp add: globals_def)
  then obtain a b where "ties ?s1 = [a, b]"
    by (auto simp: length_Suc_conv numeral_2_eq_2)
  then show ?thesis
    by (simp add: Game_Init_def upt_2 Init_Tie_def Let_def approach_def)
qed

lemma coast_approach: "coast (approach k) = approach (Suc k)"
  by (simp add: coast_def approach_def)

lemma approach_safe: "k \<le> 31 \<Longrightarrow> \<not> escapes (approach k)" "t_state (approach k) \<noteq> 0"
proof -
  assume "k \<le> 31"
  then have "(of_nat k :: rat) \<le> 31" by (metis of_nat_le_iff of_nat_numeral)
  then show "\<not> escapes (approach k)"
    by (simp add: escapes_def approach_def)
next
  show "t_state (approach k) \<noteq> 0" by (simp add: approach_def)
qed

lemma float_to_int_of_int [simp]: "float_to_int (of_int n) = n"
  by (simp add: float_to_int_def)

lemma shoot_quiet:
  assumes "k \<le> 31"
  defines "s \<equiv> run (\<lambda>n. 54) shoot k (Game_Init (\<lambda>n. 54) globals)"
  shows "ties s = [approach k, approach k] \<and> explosions s = [zero_expl, zero_expl] \<and>
         cannon_state s = 0 \<and> game_state s = GAME_RUNNING \<and> misses s = 0 \<and> cross_x s = 0 \<and>
         cross_y s = - of_int (if k = 0 then 0 else if k = 1 then 6 else 12) \<and>
         cross_x_screen s = 64 \<and>
         cross_y_screen s = 80 + (if k = 0 then 0 else if k = 1 then 6 else 12)"
  using assms(1) unfolding s_def
proof (induction k)
  case 0
  have "explosions (Game_Init (\<lambda>n. 54) globals) = explosions globals"
    "cannon_state (Game_Init (\<lambda>n. 54) globals) = cannon_state globals"
    "game_state (Game_Init (\<lambda>n. 54) globals) = game_state globals"
    "misses (Game_Init (\<lambda>n. 54) globals) = misses globals"
    "cross_x (Game_Init (\<lambda>n. 54) globals) = cross_x globals"
    "cross_y (Game_Init (\<lambda>n. 54) globals) = cross_y globals"
    "cross_x_screen (Game_Init (\<lambda>n. 54) globals) = cross_x_screen globals"
    "cross_y_screen (Game_Init (\<lambda>n. 54) globals) = cross_y_screen globals"
    by (rule Game_Init_frame; simp)+
  then show ?case
    by (simp add: Game_Init_ties) (simp add: globals_def numeral_2_eq_2)
next
  case (Suc k)
  let ?s = "run (\<lambda>n. 54) shoot k (Game_Init (\<lambda>n. 54) globals)"
  let ?y = "if k = 0 then 0 else if k = 1 then 6 else 12 :: int"
  from Suc have k: "k < 31" and
    IH: "ties ?s = [approach k, approach k]" "explosions ?s = [zero_expl, zero_expl]"
      "cannon_state ?s = 0" "game_state ?s = GAME_RUNNING" "misses ?s = 0" "cross_x ?s = 0"
      "cross_y ?s = - of_int ?y" "cross_x_screen ?s = 64" "cross_y_screen ?s = 80 + ?y"
    by simp_all
  have q: "ties (fst (Game_Main (\<lambda>n. 54) (shoot k) ?s)) = map coast (ties ?s)"
    "explosions (fst (Game_Main (\<lambda>n. 54) (shoot k) ?s)) = explosions ?s"
    "cannon (fst (Game_Main (\<lambda>n. 54) (shoot k) ?s)) = cannon ?s"
    "misses (fst (Game_Main (\<lambda>n. 54) (shoot k) ?s)) = misses ?s"
    by (rule quiet_frame;
        use k IH approach_safe [of k] in \<open>simp add: shoot_def zero_expl_def less_Suc_eq numeral_2_eq_2\<close>)+
  have x: "cross_x (player_input (shoot k) ?s) = 0"
    using IH by (simp add: player_input_cross_x shoot_def)
  have y: "cross_y (player_input (shoot k) ?s) =
      - of_int (if Suc k = 0 then 0 else if Suc k = 1 then 6 else 12)"
    using IH by (simp add: player_input_cross_y shoot_def)
  have g: "game_state (fst (Game_Main (\<lambda>n. 54) (shoot k) ?s)) = GAME_RUNNING"
    using IH q by (simp add: Game_Main_game_state)
  have c: "cannon_state (fst (Game_Main (\<lambda>n. 54) (shoot k) ?s)) = 0"
    using q(3) IH by (simp add: cannon_def)
  have ys: "cross_y_screen (fst (Game_Main (\<lambda>n. 54) (shoot k) ?s)) =
      80 + (if Suc k = 0 then 0 else if Suc k = 1 then 6 else 12)"
    unfolding Game_Main_cross_screen y by (simp add: float_to_int_def)
  have xs: "cross_x_screen (fst (Game_Main (\<lambda>n. 54) (shoot k) ?s)) = 64"
    unfolding Game_Main_cross_screen x by (simp add: float_to_int_def)
  show ?case
    unfolding run.simps
    using q(1,2,4) g c ys xs IH(1,2,5)
    by (simp add: Game_Main_cross x y coast_approach)
qed

lemma Process_Explosion_ages:
  assumes "e_state e \<noteq> 0" "sint (e_counter e + 1) \<le> 100"
    and l: "length (e_p1 e) = NUM_TIE_EDGES" "length (e_p2 e) = NUM_TIE_EDGES"
  shows "e_counter (Process_Explosion e) = e_counter e + 1"
    and "e_vel (Process_Explosion e) = e_vel e"
    and "length (e_p1 (Process_Explosion e)) = NUM_TIE_EDGES"
    and "length (e_p2 (Process_Explosion e)) = NUM_TIE_EDGES"
  using assms Process_Explosion_edges [OF l order_refl]
  by (simp_all add: Process_Explosion_def Let_def)

lemma drift_step:
  fixes rnd :: "nat \<Rightarrow> nat" and p :: "pin \<Rightarrow> bool"
  assumes w: "well_formed s"
    and e: "e_state (explosions s ! 0) = 1" "e_counter (explosions s ! 0) = c" "sint (c + 1) \<le> 100"
      "p_z (e_p1 (explosions s ! 0) ! 0) = z" "v_z (e_vel (explosions s ! 0) ! 0) = v"
  defines "e' \<equiv> explosions (fst (Game_Main rnd p s)) ! 0"
  shows "e_state e' = 1 \<and> e_counter e' = c + 1 \<and> p_z (e_p1 e' ! 0) = z + v \<and> v_z (e_vel e' ! 0) = v"
proof -
  let ?e = "explosions s ! 0"
  have a: "e_state ?e \<noteq> 0" "sint (e_counter ?e + 1) \<le> 100"
    using e by simp_all
  have "depths_paired ?e" using w by (simp add: well_formed_def pool_paired_def)
  then have l: "length (e_p1 ?e) = NUM_TIE_EDGES" "length (e_p2 ?e) = NUM_TIE_EDGES"
    by (simp_all add: depths_paired_def)
  have e': "e' = Process_Explosion ?e"
    unfolding e'_def using w _ a by (rule drift_frame) simp
  have 0: "(0::nat) < NUM_TIE_EDGES" by simp
  show ?thesis
    unfolding e' Process_Explosion_active [OF a l 0] Process_Explosion_ages [OF a l]
    using e by (simp add: advance_def)
qed

lemma shoot_well_formed: "well_formed (run (\<lambda>n. 54) shoot k (Game_Init (\<lambda>n. 54) globals))"
  by (intro run_well_formed Game_Init_well_formed)

lemma shoot_hit:
  defines "e \<equiv> explosions (run (\<lambda>n. 54) shoot 32 (Game_Init (\<lambda>n. 54) globals)) ! 0"
  shows "e_state e = 1 \<and> e_counter e = 0 \<and> p_z (e_p1 e ! 0) = 16 \<and> v_z (e_vel e ! 0) = - 1"
proof -
  let ?s = "run (\<lambda>n. 54) shoot 31 (Game_Init (\<lambda>n. 54) globals)"
  note q = shoot_quiet [of 31, simplified]
  have t: "ties ?s ! 0 = approach 31" using q by simp
  have h: "coast (ties ?s ! 0) = approach 32"
    unfolding t coast_approach by simp
  have p: "cannon_state ?s = 0" "game_state ?s = GAME_RUNNING" "\<not> shoot 31 BUTTON_FIRE_PIN"
    "t_state (ties ?s ! 0) \<noteq> 0" "\<not> escapes (ties ?s ! 0)"
    "e_state (explosions ?s ! 0) = 0"
    using q approach_safe [of 31] by (simp_all add: shoot_def t zero_expl_def approach_def)
  have c: "screen_x (perspective (t_x (coast (ties ?s ! 0)) - 40) (t_z (coast (ties ?s ! 0)))) < cross_x_screen ?s"
           "cross_x_screen ?s < screen_x (perspective (t_x (coast (ties ?s ! 0)) + 40) (t_z (coast (ties ?s ! 0))))"
           "screen_y (perspective (t_y (coast (ties ?s ! 0)) + 40) (t_z (coast (ties ?s ! 0)))) < cross_y_screen ?s"
           "cross_y_screen ?s < screen_y (perspective (t_y (coast (ties ?s ! 0)) - 40) (t_z (coast (ties ?s ! 0))))"
    unfolding h using q
    by (simp_all add: approach_def perspective_def screen_x_def screen_y_def float_to_int_eval)
  note fire_frame [where s = ?s and p = "shoot 31" and rnd = "\<lambda>n. 54",
        OF shoot_well_formed p(1-5) c p(6)]
  moreover have "run (\<lambda>n. 54) shoot 32 (Game_Init (\<lambda>n. 54) globals) =
      fst (Game_Main (\<lambda>n. 54) (shoot 31) ?s)"
    by (simp add: eval_nat_numeral)
  moreover have "(0::nat) < NUM_TIE_EDGES" by simp
  ultimately show ?thesis
    unfolding e_def h by (auto simp: approach_def)
qed

lemma shoot_drift:
  assumes "j \<le> 5"
  defines "e \<equiv> explosions (run (\<lambda>n. 54) shoot (32 + j) (Game_Init (\<lambda>n. 54) globals)) ! 0"
  shows "e_state e = 1 \<and> e_counter e = of_nat j \<and> p_z (e_p1 e ! 0) = 16 - of_nat j \<and>
         v_z (e_vel e ! 0) = - 1"
  using assms(1) unfolding e_def
proof (induction j)
  case 0
  show ?case using shoot_hit by simp
next
  case (Suc j)
  let ?s = "run (\<lambda>n. 54) shoot (32 + j) (Game_Init (\<lambda>n. 54) globals)"
  have j: "j \<in> {0, 1, 2, 3, 4}" using Suc.prems by auto
  then have c: "sint (of_nat j + 1 :: 8 word) \<le> 100" by auto
  have i: "e_state (explosions ?s ! 0) = 1" "e_counter (explosions ?s ! 0) = of_nat j"
    "p_z (e_p1 (explosions ?s ! 0) ! 0) = 16 - of_nat j" "v_z (e_vel (explosions ?s ! 0) ! 0) = - 1"
    using Suc by simp_all
  have r: "run (\<lambda>n. 54) shoot (32 + Suc j) (Game_Init (\<lambda>n. 54) globals) =
      fst (Game_Main (\<lambda>n. 54) (shoot (32 + j)) ?s)"
    by (simp only: add_Suc_right run.simps)
  from drift_step [OF shoot_well_formed i(1,2) c i(3,4), of "\<lambda>n. 54" "shoot (32 + j)"]
  show ?case unfolding r by (simp add: algebra_simps)
qed

lemma shoot_divides:
  "Divide ExplosionVertex (of_int NEAR_Z)
     \<in> set (snd (Game_Main (\<lambda>n. 54) (shoot 37) (run (\<lambda>n. 54) shoot 37 (Game_Init (\<lambda>n. 54) globals))))"
proof -
  let ?s = "run (\<lambda>n. 54) shoot 37 (Game_Init (\<lambda>n. 54) globals)"
  have e: "e_state (explosions ?s ! 0) = 1" "e_counter (explosions ?s ! 0) = 5"
    "p_z (e_p1 (explosions ?s ! 0) ! 0) = 11" "v_z (e_vel (explosions ?s ! 0) ! 0) = - 1"
    using shoot_drift [of 5] by simp_all
  show ?thesis
    by (rule drift_frame_divides [OF shoot_well_formed, where j = 0 and edge = 0])
      (simp_all add: e)
qed

subsection \<open>The crosshair when the game is over\<close>

lemma Game_Main_cross_over:
  assumes "game_state s \<noteq> GAME_RUNNING"
  shows "cross_x (fst (Game_Main rnd p s)) = cross_x s" "cross_y (fst (Game_Main rnd p s)) = cross_y s"
  unfolding Game_Main_cross using assms by (simp_all add: player_input_def)

subsection \<open>Tie fighters across a frame\<close>






subsection \<open>The hit test across the two tie fighters\<close>









subsection \<open>The pools in a frame after the game is over\<close>






subsection \<open>The cannon after the game is over\<close>









subsection \<open>A hit after the game is over\<close>








section \<open>The claims\<close>

text \<open>
  C9. For all 8-bit channel values, \<open>RGB16Bit r g b\<close> is the 5-6-5 packing
  \<open>(b>>3) | ((g>>2)<<5) | ((r>>3)<<11)\<close>: the sum the sketch computes equals the
  bitwise OR, because the three shifted fields occupy disjoint bits.
\<close>

theorem RGB16Bit_565:
  "RGB16Bit r g b =
     ucast (drop_bit 3 b) OR push_bit 5 (ucast (drop_bit 2 g)) OR push_bit 11 (ucast (drop_bit 3 r))"
proof -
  let ?B = "ucast (drop_bit 3 b) :: 16 word"
  let ?G = "push_bit 5 (ucast (drop_bit 2 g)) :: 16 word"
  let ?R = "push_bit 11 (ucast (drop_bit 3 r)) :: 16 word"
  have bg: "?B + ?G = ?B OR ?G"
    by (rule disjunctive_add_eq_or, rule bit_eqI) (auto simp add: bit_simps dest: bit_imp_le_length)
  have bgr: "(?B OR ?G) + ?R = (?B OR ?G) OR ?R"
    by (rule disjunctive_add_eq_or, rule bit_eqI) (auto simp add: bit_simps dest: bit_imp_le_length)
  have "RGB16Bit r g b = (?B OR ?G) OR ?R"
    unfolding RGB16Bit_def bg bgr ..
  then show ?thesis by (simp only: or.assoc)
qed

text \<open>
  C5. Whatever the state before (the slot dead or alive), \<open>Init_Tie\<close> leaves the
  tie fighter at a valid pool index with depth \<open>2 * FAR_Z\<close>, alive, with
  lateral velocities between \<open>-4\<close> and \<open>3\<close> (so within \<open>\<plusminus>4\<close>) and a depth velocity
  between \<open>-71\<close> and \<open>-8\<close>, hence strictly negative.
\<close>

theorem Init_Tie_respawn:
  assumes "index < length (ties s)"
  shows "(let t = ties (Init_Tie rnd index s) ! index in
           t_z t = of_int (2 * FAR_Z) \<and> t_state t = 1 \<and>
           - 4 \<le> t_xv t \<and> t_xv t \<le> 3 \<and> \<bar>t_xv t\<bar> \<le> 4 \<and>
           - 4 \<le> t_yv t \<and> t_yv t \<le> 3 \<and> \<bar>t_yv t\<bar> \<le> 4 \<and>
           - 71 \<le> t_zv t \<and> t_zv t \<le> - 8 \<and> t_zv t < 0)"
proof -
  define xv where "xv = - 4 + int (rnd (rand_calls s + 2)) mod 8"
  define yv where "yv = - 4 + int (rnd (rand_calls s + 3)) mod 8"
  define zv where "zv = - 8 - int (rnd (rand_calls s + 4)) mod 64"
  have b: "- 4 \<le> xv" "xv \<le> 3" "- 4 \<le> yv" "yv \<le> 3" "- 71 \<le> zv" "zv \<le> - 8"
    using rand_mod_bounds [of "rnd (rand_calls s + 2)"] rand_mod_bounds [of "rnd (rand_calls s + 3)"]
      rand_mod_bounds [of "rnd (rand_calls s + 4)"]
    unfolding xv_def yv_def zv_def by linarith+
  have v: "t_xv (ties (Init_Tie rnd index s) ! index) = of_int xv"
    "t_yv (ties (Init_Tie rnd index s) ! index) = of_int yv"
    "t_zv (ties (Init_Tie rnd index s) ! index) = of_int zv"
    "t_z (ties (Init_Tie rnd index s) ! index) = of_int (2 * FAR_Z)"
    "t_state (ties (Init_Tie rnd index s) ! index) = 1"
    unfolding Init_Tie_ties [OF assms] xv_def yv_def zv_def by simp_all
  have "\<bar>xv\<bar> \<le> 4" "\<bar>yv\<bar> \<le> 4" "zv < 0" using b by linarith+
  then have "\<bar>of_int xv :: rat\<bar> \<le> 4" "\<bar>of_int yv :: rat\<bar> \<le> 4" "(of_int zv :: rat) < 0"
    by (simp_all flip: of_int_abs)
  then show ?thesis
    using b unfolding Let_def v by simp
qed

theorem Init_Tie_respawn_witness:
  "0 < length (ties globals) \<and> t_state (ties globals ! 0) = 0 \<and>
   (let t = ties (Init_Tie (\<lambda>n. 54) 0 globals) ! 0 in
           t_z t = of_int (2 * FAR_Z) \<and> t_state t = 1 \<and>
           - 4 \<le> t_xv t \<and> t_xv t \<le> 3 \<and> \<bar>t_xv t\<bar> \<le> 4 \<and>
           - 4 \<le> t_yv t \<and> t_yv t \<le> 3 \<and> \<bar>t_yv t\<bar> \<le> 4 \<and>
           - 71 \<le> t_zv t \<and> t_zv t \<le> - 8 \<and> t_zv t < 0)"
proof -
  have h: "0 < length (ties globals)" by (simp add: globals_def)
  have d: "t_state (ties globals ! 0) = 0" by (simp add: globals_def)
  from h d Init_Tie_respawn [OF h] show ?thesis by blast
qed

text \<open>
  C4. One step of \<open>Move_Starfield\<close> keeps the number of stars and, for every
  star, its \<open>x\<close>, \<open>y\<close> and colour; its depth becomes exactly \<open>FAR_Z\<close> whenever the
  step brought it to \<open>NEAR_Z\<close> or below, and the moved depth otherwise. The
  same holds of a whole frame: no other part of \<open>Game_Main\<close> touches a star.
\<close>

theorem Move_Starfield_recycles:
  assumes "length (stars s) = NUM_STARS" and "index < NUM_STARS"
  shows "(let st = stars s ! index;
              st' = stars (Move_Starfield s) ! index;
              moved = p_z st - of_int (sint (player_z_vel s))
          in length (stars (Move_Starfield s)) = NUM_STARS \<and>
             p_x st' = p_x st \<and> p_y st' = p_y st \<and> p_color st' = p_color st \<and>
             p_z st' = (if moved \<le> of_int NEAR_Z then of_int FAR_Z else moved)) \<and>
         (let st = stars s ! index;
              st' = stars (fst (Game_Main rnd p s)) ! index
          in length (stars (fst (Game_Main rnd p s))) = NUM_STARS \<and>
             p_x st' = p_x st \<and> p_y st' = p_y st \<and> p_color st' = p_color st)"
  using assms by (simp add: Let_def Move_Starfield_map Game_Main_stars Move_Star_fields)

theorem Move_Starfield_recycles_witness:
  "length (stars globals) = NUM_STARS \<and> (0::nat) < NUM_STARS \<and>
   p_z (stars globals ! 0) - of_int (sint (player_z_vel globals)) \<le> of_int NEAR_Z \<and>
   p_z (stars (Move_Starfield globals) ! 0) = of_int FAR_Z \<and>
   p_x (stars (Move_Starfield globals) ! 0) = p_x (stars globals ! 0) \<and>
   p_y (stars (Move_Starfield globals) ! 0) = p_y (stars globals ! 0) \<and>
   length (stars (fst (Game_Main (\<lambda>n. 54) (\<lambda>pin. True) globals))) = NUM_STARS"
proof -
  have h: "length (stars globals) = NUM_STARS" by (simp add: globals_def)
  have i: "(0::nat) < NUM_STARS" by simp
  have m: "p_z (stars globals ! 0) - of_int (sint (player_z_vel globals)) \<le> of_int NEAR_Z"
    by (simp add: globals_def zero_point_def)
  from Move_Starfield_recycles [OF h i, of "\<lambda>n. 54" "\<lambda>pin. True"] m h show ?thesis
    by (simp add: Let_def)
qed

text \<open>
  C3. The flag \<open>game_state\<close> is written only at the end of \<open>Game_Main\<close>, and only
  with \<open>GAME_OVER\<close>. Hence, from a running state, the game is over after \<open>n\<close>
  frames if and only if the miss counter exceeded \<open>TIES_MISSED_END_GAME\<close> at
  the end of one of the frames \<open>1..n\<close> (so it turns over in the first such
  frame); once over it stays over in every later frame; and a single frame
  leaves the flag as it was unless the counter exceeds the threshold.
\<close>

theorem game_over_once:
  "(game_state s = GAME_RUNNING \<longrightarrow>
      (\<forall>n. game_state (run rnd pins n s) = GAME_OVER \<longleftrightarrow>
           (\<exists>k. 1 \<le> k \<and> k \<le> n \<and> TIES_MISSED_END_GAME < sint (misses (run rnd pins k s))))) \<and>
   (\<forall>n m. game_state (run rnd pins n s) = GAME_OVER \<longrightarrow>
           game_state (run rnd pins (n + m) s) = GAME_OVER) \<and>
   game_state (fst (Game_Main rnd p s)) =
     (if TIES_MISSED_END_GAME < sint (misses (fst (Game_Main rnd p s))) then GAME_OVER else game_state s)"
  using run_over_iff [of s rnd pins] run_over_stays [of rnd pins _ s] Game_Main_game_state [of rnd p s]
  by blast

theorem game_over_once_witness:
  "game_state about_to_lose = GAME_RUNNING \<and>
   game_state (run (\<lambda>n. 54) (\<lambda>k pin. True) 0 about_to_lose) = GAME_RUNNING \<and>
   sint (misses (run (\<lambda>n. 54) (\<lambda>k pin. True) 1 about_to_lose)) = 17 \<and>
   game_state (run (\<lambda>n. 54) (\<lambda>k pin. True) 1 about_to_lose) = GAME_OVER \<and>
   game_state (run (\<lambda>n. 54) (\<lambda>k pin. True) (1 + 5) about_to_lose) = GAME_OVER"
proof -
  let ?run = "run (\<lambda>n. 54) (\<lambda>k pin. True)"
  have r: "game_state about_to_lose = GAME_RUNNING"
    by (simp add: about_to_lose_def globals_def)
  have m: "misses (?run 1 about_to_lose) = 17"
    by (simp add: Game_Main_misses_count escapes_def about_to_lose_def globals_def)
  then have m17: "sint (misses (?run 1 about_to_lose)) = 17" by simp
  then have "\<exists>k. 1 \<le> k \<and> k \<le> 1 \<and> TIES_MISSED_END_GAME < sint (misses (?run k about_to_lose))"
    by (intro exI [of _ 1]) simp
  with r game_over_once [of about_to_lose "\<lambda>n. 54" "\<lambda>k pin. True"]
  have o: "game_state (?run 1 about_to_lose) = GAME_OVER" by blast
  with game_over_once [of about_to_lose "\<lambda>n. 54" "\<lambda>k pin. True"]
  have "game_state (?run (1 + 5) about_to_lose) = GAME_OVER" by blast
  with r m17 o show ?thesis by simp
qed

text \<open>
  C1, as amended. From \<open>ready\<close> (0), a frame in which the game is running and
  the fire pin is low makes the cannon \<open>firing\<close> (1) and latches the crosshair
  screen position as the target. Whatever the pins do afterwards, the cannon
  is firing at the end of frames 1 to 10, cooling down (2) at the end of
  frames 11 to 14 and ready again at the end of frame 15, with the target
  unchanged throughout: the one counter runs on from the firing phase, so the
  threshold 15 of the cool-down is cumulative and the cool-down lasts 4 frames,
  fewer than the 10 of the firing phase. A ready cannon stays as it is when the
  fire pin is high or the game is over, and a cannon that is not ready ignores
  the pins: its next state is that of \<open>process_cannon\<close> alone and its target
  stays.
\<close>

theorem cannon_state_machine:
  "(cannon_state s = 0 \<and> game_state s = GAME_RUNNING \<and> \<not> pins 0 BUTTON_FIRE_PIN \<longrightarrow>
      map (\<lambda>k. cannon_state (run rnd pins k s)) [1, 2, 3, 4, 5, 6, 7, 8, 9, 10, 11, 12, 13, 14, 15] =
        [1, 1, 1, 1, 1, 1, 1, 1, 1, 1, 2, 2, 2, 2, 0] \<and>
      map (\<lambda>k. (target_x_screen (run rnd pins k s), target_y_screen (run rnd pins k s)))
          [1, 2, 3, 4, 5, 6, 7, 8, 9, 10, 11, 12, 13, 14, 15] =
        replicate 15 (cross_x_screen s, cross_y_screen s)) \<and>
   (cannon_state s = 0 \<and> (p BUTTON_FIRE_PIN \<or> game_state s \<noteq> GAME_RUNNING) \<longrightarrow>
      cannon (fst (Game_Main rnd p s)) = cannon s) \<and>
   (cannon_state s \<noteq> 0 \<longrightarrow>
      cannon (fst (Game_Main rnd p s)) = cannon (process_cannon s) \<and>
      target_x_screen (fst (Game_Main rnd p s)) = target_x_screen s \<and>
      target_y_screen (fst (Game_Main rnd p s)) = target_y_screen s)"
  using cannon_cycle_states [of s pins rnd] cannon_cycle_target [of s pins rnd]
    cannon_idle_step [of s p rnd] cannon_busy_ignores_fire [of s rnd p]
  by blast

theorem cannon_state_machine_witness:
  "cannon_state globals = 0 \<and> game_state globals = GAME_RUNNING \<and> \<not> fire_once 0 BUTTON_FIRE_PIN \<and>
   map (\<lambda>k. cannon_state (run (\<lambda>n. 0) fire_once k globals))
       [1, 2, 3, 4, 5, 6, 7, 8, 9, 10, 11, 12, 13, 14, 15] =
     [1, 1, 1, 1, 1, 1, 1, 1, 1, 1, 2, 2, 2, 2, 0] \<and>
   map (\<lambda>k. (target_x_screen (run (\<lambda>n. 0) fire_once k globals),
              target_y_screen (run (\<lambda>n. 0) fire_once k globals)))
       [1, 2, 3, 4, 5, 6, 7, 8, 9, 10, 11, 12, 13, 14, 15] =
     replicate 15 (cross_x_screen globals, cross_y_screen globals) \<and>
   released BUTTON_FIRE_PIN \<and>
   cannon (fst (Game_Main (\<lambda>n. 0) released globals)) = cannon globals \<and>
   cannon_state firing_3 \<noteq> 0 \<and>
   cannon (fst (Game_Main (\<lambda>n. 0) all_pressed firing_3)) = cannon (process_cannon firing_3) \<and>
   target_x_screen (fst (Game_Main (\<lambda>n. 0) all_pressed firing_3)) = target_x_screen firing_3 \<and>
   target_y_screen (fst (Game_Main (\<lambda>n. 0) all_pressed firing_3)) = target_y_screen firing_3"
proof -
  have h: "cannon_state globals = 0" "game_state globals = GAME_RUNNING"
    "\<not> fire_once 0 BUTTON_FIRE_PIN" "released BUTTON_FIRE_PIN" "cannon_state firing_3 \<noteq> 0"
    by (simp_all add: globals_def fire_once_def released_def firing_3_def)
  show ?thesis
    using h cannon_state_machine [of globals fire_once "\<lambda>n. 0" released]
      cannon_state_machine [of firing_3 fire_once "\<lambda>n. 0" all_pressed]
    by blast
qed

text \<open>
  C1 as stated fails: the cool-down does not last longer than the firing
  phase. After one press of fire on the start-up state the cannon is firing
  for 10 frames and cooling down for 4.
\<close>

theorem cannon_cooldown_counterexample:
  "map (\<lambda>k. cannon_state (run (\<lambda>n. 0) fire_once k globals))
       [1, 2, 3, 4, 5, 6, 7, 8, 9, 10, 11, 12, 13, 14, 15] =
     [1, 1, 1, 1, 1, 1, 1, 1, 1, 1, 2, 2, 2, 2, 0] \<and>
   count_list (map (\<lambda>k. cannon_state (run (\<lambda>n. 0) fire_once k globals))
       [1, 2, 3, 4, 5, 6, 7, 8, 9, 10, 11, 12, 13, 14, 15]) 2 = 4 \<and>
   count_list (map (\<lambda>k. cannon_state (run (\<lambda>n. 0) fire_once k globals))
       [1, 2, 3, 4, 5, 6, 7, 8, 9, 10, 11, 12, 13, 14, 15]) 1 = 10"
proof -
  have h: "cannon_state globals = 0" "game_state globals = GAME_RUNNING"
    "\<not> fire_once 0 BUTTON_FIRE_PIN"
    by (simp_all add: globals_def fire_once_def)
  show ?thesis
    unfolding cannon_cycle_states [where s = globals and pins = fire_once, OF h] by simp
qed

text \<open>
  C8, as amended. In a frame of the running game the right button adds
  \<open>CROSS_VEL\<close> to the horizontal offset, and an offset that then exceeds half
  the screen width becomes exactly minus half the width. The left button is
  read only when the right one is not held; it subtracts \<open>CROSS_VEL\<close>, and an
  offset below minus half the width becomes exactly half the width. In the
  same way the down button subtracts from the vertical offset, wrapping from
  below minus half the height to half the height, and the up button, read only
  when down is not held, adds to it, wrapping from above half the height to
  minus half the height. So with both buttons of an axis held the offset moves
  as for right (or down) alone. In a frame after the game is over the offsets
  do not change.
\<close>

theorem crosshair_wraps:
  "(game_state s = GAME_RUNNING \<longrightarrow>
      (\<not> p BUTTON_RIGHT_PIN \<and> cross_x s + of_int CROSS_VEL > of_int (WINDOW_WIDTH div 2) \<longrightarrow>
         cross_x (fst (Game_Main rnd p s)) = - of_int (WINDOW_WIDTH div 2)) \<and>
      (p BUTTON_RIGHT_PIN \<and> \<not> p BUTTON_LEFT_PIN \<and>
         cross_x s - of_int CROSS_VEL < - of_int (WINDOW_WIDTH div 2) \<longrightarrow>
         cross_x (fst (Game_Main rnd p s)) = of_int (WINDOW_WIDTH div 2)) \<and>
      (\<not> p BUTTON_DOWN_PIN \<and> cross_y s - of_int CROSS_VEL < - of_int (WINDOW_HEIGHT div 2) \<longrightarrow>
         cross_y (fst (Game_Main rnd p s)) = of_int (WINDOW_HEIGHT div 2)) \<and>
      (p BUTTON_DOWN_PIN \<and> \<not> p BUTTON_UP_PIN \<and>
         cross_y s + of_int CROSS_VEL > of_int (WINDOW_HEIGHT div 2) \<longrightarrow>
         cross_y (fst (Game_Main rnd p s)) = - of_int (WINDOW_HEIGHT div 2)) \<and>
      cross_x (fst (Game_Main rnd p s)) =
        (if \<not> p BUTTON_RIGHT_PIN then
           (if cross_x s + of_int CROSS_VEL > of_int (WINDOW_WIDTH div 2)
            then - of_int (WINDOW_WIDTH div 2) else cross_x s + of_int CROSS_VEL)
         else if \<not> p BUTTON_LEFT_PIN then
           (if cross_x s - of_int CROSS_VEL < - of_int (WINDOW_WIDTH div 2)
            then of_int (WINDOW_WIDTH div 2) else cross_x s - of_int CROSS_VEL)
         else cross_x s) \<and>
      cross_y (fst (Game_Main rnd p s)) =
        (if \<not> p BUTTON_DOWN_PIN then
           (if cross_y s - of_int CROSS_VEL < - of_int (WINDOW_HEIGHT div 2)
            then of_int (WINDOW_HEIGHT div 2) else cross_y s - of_int CROSS_VEL)
         else if \<not> p BUTTON_UP_PIN then
           (if cross_y s + of_int CROSS_VEL > of_int (WINDOW_HEIGHT div 2)
            then - of_int (WINDOW_HEIGHT div 2) else cross_y s + of_int CROSS_VEL)
         else cross_y s)) \<and>
   (game_state s \<noteq> GAME_RUNNING \<longrightarrow>
      cross_x (fst (Game_Main rnd p s)) = cross_x s \<and> cross_y (fst (Game_Main rnd p s)) = cross_y s)"
proof (intro conjI impI)
  assume r: "game_state s = GAME_RUNNING"
  note x = player_input_cross_x [OF r, of p] and y = player_input_cross_y [OF r, of p]
  show "cross_x (fst (Game_Main rnd p s)) = - of_int (WINDOW_WIDTH div 2)"
    if "\<not> p BUTTON_RIGHT_PIN \<and> cross_x s + of_int CROSS_VEL > of_int (WINDOW_WIDTH div 2)"
    unfolding Game_Main_cross x using that by simp
  show "cross_x (fst (Game_Main rnd p s)) = of_int (WINDOW_WIDTH div 2)"
    if "p BUTTON_RIGHT_PIN \<and> \<not> p BUTTON_LEFT_PIN \<and>
         cross_x s - of_int CROSS_VEL < - of_int (WINDOW_WIDTH div 2)"
    unfolding Game_Main_cross x using that by simp
  show "cross_y (fst (Game_Main rnd p s)) = of_int (WINDOW_HEIGHT div 2)"
    if "\<not> p BUTTON_DOWN_PIN \<and> cross_y s - of_int CROSS_VEL < - of_int (WINDOW_HEIGHT div 2)"
    unfolding Game_Main_cross y using that by simp
  show "cross_y (fst (Game_Main rnd p s)) = - of_int (WINDOW_HEIGHT div 2)"
    if "p BUTTON_DOWN_PIN \<and> \<not> p BUTTON_UP_PIN \<and>
         cross_y s + of_int CROSS_VEL > of_int (WINDOW_HEIGHT div 2)"
    unfolding Game_Main_cross y using that by simp
  show "cross_x (fst (Game_Main rnd p s)) =
        (if \<not> p BUTTON_RIGHT_PIN then
           (if cross_x s + of_int CROSS_VEL > of_int (WINDOW_WIDTH div 2)
            then - of_int (WINDOW_WIDTH div 2) else cross_x s + of_int CROSS_VEL)
         else if \<not> p BUTTON_LEFT_PIN then
           (if cross_x s - of_int CROSS_VEL < - of_int (WINDOW_WIDTH div 2)
            then of_int (WINDOW_WIDTH div 2) else cross_x s - of_int CROSS_VEL)
         else cross_x s)"
    unfolding Game_Main_cross x by simp
  show "cross_y (fst (Game_Main rnd p s)) =
        (if \<not> p BUTTON_DOWN_PIN then
           (if cross_y s - of_int CROSS_VEL < - of_int (WINDOW_HEIGHT div 2)
            then of_int (WINDOW_HEIGHT div 2) else cross_y s - of_int CROSS_VEL)
         else if \<not> p BUTTON_UP_PIN then
           (if cross_y s + of_int CROSS_VEL > of_int (WINDOW_HEIGHT div 2)
            then - of_int (WINDOW_HEIGHT div 2) else cross_y s + of_int CROSS_VEL)
         else cross_y s)"
    unfolding Game_Main_cross y by simp
next
  assume "game_state s \<noteq> GAME_RUNNING"
  then show "cross_x (fst (Game_Main rnd p s)) = cross_x s" "cross_y (fst (Game_Main rnd p s)) = cross_y s"
    by (rule Game_Main_cross_over)+
qed

theorem crosshair_wraps_witness:
  "game_state (cross_at 60 78) = GAME_RUNNING \<and>
   \<not> only_pressed BUTTON_RIGHT_PIN BUTTON_RIGHT_PIN \<and>
   cross_x (cross_at 60 78) + of_int CROSS_VEL > of_int (WINDOW_WIDTH div 2) \<and>
   cross_x (fst (Game_Main (\<lambda>n. 0) (only_pressed BUTTON_RIGHT_PIN) (cross_at 60 78))) = - 64 \<and>
   only_pressed BUTTON_UP_PIN BUTTON_DOWN_PIN \<and> \<not> only_pressed BUTTON_UP_PIN BUTTON_UP_PIN \<and>
   cross_y (cross_at 60 78) + of_int CROSS_VEL > of_int (WINDOW_HEIGHT div 2) \<and>
   cross_y (fst (Game_Main (\<lambda>n. 0) (only_pressed BUTTON_UP_PIN) (cross_at 60 78))) = - 80 \<and>
   game_state (cross_at (- 60) (- 78)) = GAME_RUNNING \<and>
   only_pressed BUTTON_LEFT_PIN BUTTON_RIGHT_PIN \<and> \<not> only_pressed BUTTON_LEFT_PIN BUTTON_LEFT_PIN \<and>
   cross_x (cross_at (- 60) (- 78)) - of_int CROSS_VEL < - of_int (WINDOW_WIDTH div 2) \<and>
   cross_x (fst (Game_Main (\<lambda>n. 0) (only_pressed BUTTON_LEFT_PIN) (cross_at (- 60) (- 78)))) = 64 \<and>
   \<not> only_pressed BUTTON_DOWN_PIN BUTTON_DOWN_PIN \<and>
   cross_y (cross_at (- 60) (- 78)) - of_int CROSS_VEL < - of_int (WINDOW_HEIGHT div 2) \<and>
   cross_y (fst (Game_Main (\<lambda>n. 0) (only_pressed BUTTON_DOWN_PIN) (cross_at (- 60) (- 78)))) = 80 \<and>
   cross_x (fst (Game_Main (\<lambda>n. 0) (two_pressed BUTTON_LEFT_PIN BUTTON_RIGHT_PIN) (cross_at (- 60) (- 78)))) = - 54 \<and>
   cross_y (fst (Game_Main (\<lambda>n. 0) (two_pressed BUTTON_UP_PIN BUTTON_DOWN_PIN) (cross_at 60 78))) = 72 \<and>
   game_state ((cross_at 60 78)\<lparr>game_state := GAME_OVER\<rparr>) \<noteq> GAME_RUNNING \<and>
   cross_x (fst (Game_Main (\<lambda>n. 0) (only_pressed BUTTON_RIGHT_PIN) ((cross_at 60 78)\<lparr>game_state := GAME_OVER\<rparr>))) = 60"
proof -
  have r: "game_state (cross_at 60 78) = GAME_RUNNING" "game_state (cross_at (- 60) (- 78)) = GAME_RUNNING"
    "game_state ((cross_at 60 78)\<lparr>game_state := GAME_OVER\<rparr>) \<noteq> GAME_RUNNING"
    by (simp_all add: cross_at_def globals_def)
  have c: "cross_x (cross_at 60 78) = 60" "cross_y (cross_at 60 78) = 78"
    "cross_x (cross_at (- 60) (- 78)) = - 60" "cross_y (cross_at (- 60) (- 78)) = - 78"
    "cross_x ((cross_at 60 78)\<lparr>game_state := GAME_OVER\<rparr>) = 60"
    by (simp_all add: cross_at_def)
  show ?thesis
    using r crosshair_wraps [of "cross_at 60 78" "only_pressed BUTTON_RIGHT_PIN" "\<lambda>n. 0"]
      crosshair_wraps [of "cross_at 60 78" "only_pressed BUTTON_UP_PIN" "\<lambda>n. 0"]
      crosshair_wraps [of "cross_at (- 60) (- 78)" "only_pressed BUTTON_LEFT_PIN" "\<lambda>n. 0"]
      crosshair_wraps [of "cross_at (- 60) (- 78)" "only_pressed BUTTON_DOWN_PIN" "\<lambda>n. 0"]
      crosshair_wraps [of "cross_at (- 60) (- 78)" "two_pressed BUTTON_LEFT_PIN BUTTON_RIGHT_PIN" "\<lambda>n. 0"]
      crosshair_wraps [of "cross_at 60 78" "two_pressed BUTTON_UP_PIN BUTTON_DOWN_PIN" "\<lambda>n. 0"]
      crosshair_wraps [of "(cross_at 60 78)\<lparr>game_state := GAME_OVER\<rparr>" "only_pressed BUTTON_RIGHT_PIN" "\<lambda>n. 0"]
    by (simp add: c only_pressed_def two_pressed_def)
qed

text \<open>
  C8 as stated fails when both buttons of an axis are held. With left and
  right held at the horizontal offset \<open>-60\<close>, one step to the left would pass
  minus half the width, but the offset after the frame is \<open>-54\<close> and not \<open>64\<close>:
  only the right button is served. With up and down held at the vertical
  offset 78 the offset after the frame is 72 and not \<open>-80\<close>.
\<close>

theorem crosshair_both_held_counterexample:
  "game_state (cross_at (- 60) 78) = GAME_RUNNING \<and>
   \<not> two_pressed BUTTON_LEFT_PIN BUTTON_RIGHT_PIN BUTTON_LEFT_PIN \<and>
   cross_x (cross_at (- 60) 78) - of_int CROSS_VEL < - of_int (WINDOW_WIDTH div 2) \<and>
   cross_x (fst (Game_Main (\<lambda>n. 0) (two_pressed BUTTON_LEFT_PIN BUTTON_RIGHT_PIN) (cross_at (- 60) 78))) = - 54 \<and>
   cross_x (fst (Game_Main (\<lambda>n. 0) (two_pressed BUTTON_LEFT_PIN BUTTON_RIGHT_PIN) (cross_at (- 60) 78)))
     \<noteq> of_int (WINDOW_WIDTH div 2) \<and>
   \<not> two_pressed BUTTON_UP_PIN BUTTON_DOWN_PIN BUTTON_UP_PIN \<and>
   cross_y (cross_at (- 60) 78) + of_int CROSS_VEL > of_int (WINDOW_HEIGHT div 2) \<and>
   cross_y (fst (Game_Main (\<lambda>n. 0) (two_pressed BUTTON_UP_PIN BUTTON_DOWN_PIN) (cross_at (- 60) 78))) = 72 \<and>
   cross_y (fst (Game_Main (\<lambda>n. 0) (two_pressed BUTTON_UP_PIN BUTTON_DOWN_PIN) (cross_at (- 60) 78)))
     \<noteq> - of_int (WINDOW_HEIGHT div 2)"
proof -
  have r: "game_state (cross_at (- 60) 78) = GAME_RUNNING"
    by (simp add: cross_at_def globals_def)
  have c: "cross_x (cross_at (- 60) 78) = - 60" "cross_y (cross_at (- 60) 78) = 78"
    by (simp_all add: cross_at_def)
  show ?thesis
    unfolding Game_Main_cross player_input_cross_x [OF r] player_input_cross_y [OF r]
    using r by (simp add: c two_pressed_def)
qed



text \<open>
  C6. \<open>Start_Explosion\<close> does nothing at all when no slot of the pool is
  inactive. Otherwise it starts the first inactive slot and only that one: the
  slot becomes active with counter 0 and colour green, the two end points of
  each of its edges are the tie fighter's position plus the model's vertices,
  every other slot keeps its content, and nothing but the pool and the count
  of \<^verbatim>\<open>rand()\<close> calls changes. In \<open>Draw_Ties\<close> a tie fighter that is hit is
  scored, counted and respawned after the call, whatever the call did: with the
  pool full the state after the hit is \<open>Init_Tie\<close> of the state with the score
  and the hit count raised.
\<close>

theorem Start_Explosion_first_free:
  "(pool_full s \<longrightarrow> Start_Explosion rnd tie s = s) \<and>
   (first_free s index \<and> length (explosions s) = NUM_EXPLOSIONS \<and>
    length (e_p1 (explosions s ! index)) = NUM_TIE_EDGES \<and>
    length (e_p2 (explosions s ! index)) = NUM_TIE_EDGES \<and>
    length (e_vel (explosions s ! index)) = NUM_TIE_EDGES \<longrightarrow>
      (let s' = Start_Explosion rnd tie s; e' = explosions s' ! index; t = ties s ! tie in
         e_state e' = 1 \<and> e_counter e' = 0 \<and> e_color e' = rgb_green \<and>
         (\<forall>edge < NUM_TIE_EDGES.
            p_x (e_p1 e' ! edge) = t_x t + p_x (tie_vlist ! l_v1 (tie_shape ! edge)) \<and>
            p_y (e_p1 e' ! edge) = t_y t + p_y (tie_vlist ! l_v1 (tie_shape ! edge)) \<and>
            p_z (e_p1 e' ! edge) = t_z t + p_z (tie_vlist ! l_v1 (tie_shape ! edge)) \<and>
            p_x (e_p2 e' ! edge) = t_x t + p_x (tie_vlist ! l_v2 (tie_shape ! edge)) \<and>
            p_y (e_p2 e' ! edge) = t_y t + p_y (tie_vlist ! l_v2 (tie_shape ! edge)) \<and>
            p_z (e_p2 e' ! edge) = t_z t + p_z (tie_vlist ! l_v2 (tie_shape ! edge))) \<and>
         (\<forall>j. j \<noteq> index \<longrightarrow> explosions s' ! j = explosions s ! j) \<and>
         length (explosions s') = NUM_EXPLOSIONS \<and>
         s'\<lparr>explosions := explosions s, rand_calls := rand_calls s\<rparr> = s)) \<and>
   (tie_hit s tie \<longrightarrow>
      fst (Draw_Tie rnd tie (s, out)) =
        Init_Tie rnd tie
          ((Start_Explosion rnd tie s)
             \<lparr>score := word_of_int (float_to_int (of_int (sint (score s)) + t_z (ties s ! tie))),
              hits := hits s + 1\<rparr>)) \<and>
   (tie_hit s tie \<and> pool_full s \<longrightarrow>
      fst (Draw_Tie rnd tie (s, out)) =
        Init_Tie rnd tie
          (s\<lparr>score := word_of_int (float_to_int (of_int (sint (score s)) + t_z (ties s ! tie))),
             hits := hits s + 1\<rparr>))"
proof -
  have full: "Start_Explosion rnd tie s = s" if "pool_full s"
    using that by (rule Start_Explosion_full)
  have free: "(let s' = Start_Explosion rnd tie s; e' = explosions s' ! index; t = ties s ! tie in
         e_state e' = 1 \<and> e_counter e' = 0 \<and> e_color e' = rgb_green \<and>
         (\<forall>edge < NUM_TIE_EDGES.
            p_x (e_p1 e' ! edge) = t_x t + p_x (tie_vlist ! l_v1 (tie_shape ! edge)) \<and>
            p_y (e_p1 e' ! edge) = t_y t + p_y (tie_vlist ! l_v1 (tie_shape ! edge)) \<and>
            p_z (e_p1 e' ! edge) = t_z t + p_z (tie_vlist ! l_v1 (tie_shape ! edge)) \<and>
            p_x (e_p2 e' ! edge) = t_x t + p_x (tie_vlist ! l_v2 (tie_shape ! edge)) \<and>
            p_y (e_p2 e' ! edge) = t_y t + p_y (tie_vlist ! l_v2 (tie_shape ! edge)) \<and>
            p_z (e_p2 e' ! edge) = t_z t + p_z (tie_vlist ! l_v2 (tie_shape ! edge))) \<and>
         (\<forall>j. j \<noteq> index \<longrightarrow> explosions s' ! j = explosions s ! j) \<and>
         length (explosions s') = NUM_EXPLOSIONS \<and>
         s'\<lparr>explosions := explosions s, rand_calls := rand_calls s\<rparr> = s)"
    if f: "first_free s index" and n: "length (explosions s) = NUM_EXPLOSIONS"
      and l: "length (e_p1 (explosions s ! index)) = NUM_TIE_EDGES"
        "length (e_p2 (explosions s ! index)) = NUM_TIE_EDGES"
        "length (e_vel (explosions s ! index)) = NUM_TIE_EDGES"
  proof -
    have i: "index < length (explosions s)" using f n by (simp add: first_free_def)
    have fr: "(Start_Explosion rnd tie s)\<lparr>explosions := explosions s, rand_calls := rand_calls s\<rparr> = s"
      by (rule Start_Explosion_frame [where g = "\<lambda>s'. s'\<lparr>explosions := explosions s, rand_calls := rand_calls s\<rparr>",
            THEN trans]) simp_all
    show ?thesis
      using Start_Explosion_at_result [OF i l, of rnd tie] n fr
      unfolding Start_Explosion_first [OF f] Let_def by simp
  qed
  show ?thesis
    using full free by (simp add: Draw_Tie_result)
qed

theorem Start_Explosion_first_free_witness:
  "pool_full under_fire \<and> Start_Explosion (\<lambda>n. 54) 0 under_fire = under_fire \<and>
   first_free one_free 1 \<and> length (explosions one_free) = NUM_EXPLOSIONS \<and>
   length (e_p1 (explosions one_free ! 1)) = NUM_TIE_EDGES \<and>
   length (e_p2 (explosions one_free ! 1)) = NUM_TIE_EDGES \<and>
   length (e_vel (explosions one_free ! 1)) = NUM_TIE_EDGES \<and>
   e_state (explosions (Start_Explosion (\<lambda>n. 54) 0 one_free) ! 1) = 1 \<and>
   p_z (e_p1 (explosions (Start_Explosion (\<lambda>n. 54) 0 one_free) ! 1) ! 0) = 100 \<and>
   explosions (Start_Explosion (\<lambda>n. 54) 0 one_free) ! 0 = explosions one_free ! 0 \<and>
   tie_hit one_free 0 \<and>
   fst (Draw_Tie (\<lambda>n. 54) 0 (one_free, [])) =
     Init_Tie (\<lambda>n. 54) 0
       ((Start_Explosion (\<lambda>n. 54) 0 one_free)
          \<lparr>score := word_of_int (float_to_int (of_int (sint (score one_free)) + t_z (ties one_free ! 0))),
           hits := hits one_free + 1\<rparr>) \<and>
   tie_hit under_fire 0 \<and>
   fst (Draw_Tie (\<lambda>n. 54) 0 (under_fire, [])) =
     Init_Tie (\<lambda>n. 54) 0
       (under_fire\<lparr>score := word_of_int (float_to_int (of_int (sint (score under_fire)) + t_z (ties under_fire ! 0))),
                   hits := hits under_fire + 1\<rparr>)"
proof -
  have p: "pool_full under_fire"
    by (simp add: pool_full_def under_fire_def less_Suc_eq numeral_2_eq_2)
  have f: "first_free one_free 1"
    by (simp add: first_free_def one_free_def zero_expl_def)
  have l: "length (explosions one_free) = NUM_EXPLOSIONS"
    "length (e_p1 (explosions one_free ! 1)) = NUM_TIE_EDGES"
    "length (e_p2 (explosions one_free ! 1)) = NUM_TIE_EDGES"
    "length (e_vel (explosions one_free ! 1)) = NUM_TIE_EDGES"
    by (simp_all add: one_free_def zero_expl_def)
  note h = tie_hit_under_fire
  have t: "t_z (ties one_free ! 0) + p_z (tie_vlist ! l_v1 (tie_shape ! 0)) = 100"
    by (simp add: one_free_def under_fire_def ahead_def tie_vlist_def tie_shape_def line_def vertex_def)
  have "(0::nat) < NUM_TIE_EDGES" "(0::nat) \<noteq> 1" by simp_all
  with p f l h t
    Start_Explosion_first_free [of under_fire "\<lambda>n. 54" 0 _ "[]"]
    Start_Explosion_first_free [of one_free "\<lambda>n. 54" 0 1 "[]"]
  show ?thesis
    unfolding Let_def by metis
qed

text \<open>
  C2, as amended. In every frame from a well-formed state (pools of the
  configured sizes, the two end points of every explosion edge at one depth),
  and so in every frame of every run from \<open>Game_Init\<close>, no projection divides
  by zero or by a depth below the near plane: the divisor of a star or of a
  tie fighter vertex is greater than \<open>NEAR_Z\<close>, and the divisor of an explosion
  vertex is at least \<open>NEAR_Z\<close>. Stars and tie fighters are validated with
  \<open>\<le> NEAR_Z\<close> when they move; an explosion edge is skipped only when both its
  end points are below \<open>NEAR_Z\<close>, so a depth of exactly \<open>NEAR_Z\<close> is projected.
\<close>

theorem divisions_at_least_NEAR_Z:
  "(well_formed s \<longrightarrow>
      (\<forall>k z. Divide k z \<in> set (snd (Game_Main rnd p s)) \<longrightarrow>
         of_int NEAR_Z \<le> z \<and> (k \<noteq> ExplosionVertex \<longrightarrow> of_int NEAR_Z < z)) \<and>
      well_formed (fst (Game_Main rnd p s))) \<and>
   well_formed (Game_Init rnd globals) \<and>
   (\<forall>n k z. Divide k z \<in> set (snd (Game_Main rnd (pins n) (run rnd pins n (Game_Init rnd globals)))) \<longrightarrow>
      of_int NEAR_Z \<le> z \<and> (k \<noteq> ExplosionVertex \<longrightarrow> of_int NEAR_Z < z))"
proof -
  have "safe_divisions (snd (Game_Main rnd (pins n) (run rnd pins n (Game_Init rnd globals))))" for n
    by (intro Game_Main_safe run_well_formed Game_Init_well_formed)
  then show ?thesis
    using Game_Main_safe [of s rnd p] Game_Init_well_formed [of rnd]
    unfolding safe_divisions_def by blast
qed

theorem divisions_at_least_NEAR_Z_witness:
  "well_formed drifting \<and>
   Divide ExplosionVertex 10 \<in> set (snd (Game_Main (\<lambda>n. 54) released drifting)) \<and>
   (of_int NEAR_Z :: rat) \<le> 10 \<and>
   Divide StarPoint 752 \<in> set (snd (Game_Main (\<lambda>n. 54) released drifting)) \<and>
   StarPoint \<noteq> ExplosionVertex \<and> (of_int NEAR_Z :: rat) < 752 \<and>
   well_formed (fst (Game_Main (\<lambda>n. 54) released drifting)) \<and>
   well_formed (Game_Init (\<lambda>n. 54) globals) \<and>
   Divide ExplosionVertex 10
     \<in> set (snd (Game_Main (\<lambda>n. 54) (shoot 37) (run (\<lambda>n. 54) shoot 37 (Game_Init (\<lambda>n. 54) globals))))"
proof -
  note w = drifting_well_formed
  note d = drifting_divides [of "\<lambda>n. 54"]
  have k: "StarPoint \<noteq> ExplosionVertex" by simp
  have r: "Divide ExplosionVertex 10
     \<in> set (snd (Game_Main (\<lambda>n. 54) (shoot 37) (run (\<lambda>n. 54) shoot 37 (Game_Init (\<lambda>n. 54) globals))))"
    using shoot_divides by simp
  from w d k r divisions_at_least_NEAR_Z [of drifting "\<lambda>n. 54" released shoot]
  show ?thesis by blast
qed

text \<open>
  C2 as stated fails: a division by exactly \<open>NEAR_Z\<close>, in the 38th frame of a
  run from \<open>Game_Init\<close>. \<^verbatim>\<open>rand()\<close> returns 54 at every call, so both tie
  fighters start at depth 2000 and approach by 62 per frame; the down button
  is held during the first two frames and fire is pressed in frame 32, when
  the first tie fighter, at depth 16, covers the crosshair. The edges of its
  explosion start at depth 16 and drift by \<open>-1\<close> per frame. Six frames later
  they reach depth 10, the test \<open>z < NEAR_Z\<close> of \<open>Draw_Explosions\<close> lets them
  through, and their coordinates are divided by 10.
\<close>

theorem division_by_NEAR_Z_counterexample:
  "Divide ExplosionVertex (of_int NEAR_Z)
     \<in> set (snd (Game_Main (\<lambda>n. 54) (shoot 37) (run (\<lambda>n. 54) shoot 37 (Game_Init (\<lambda>n. 54) globals)))) \<and>
   \<not> (\<forall>k z. Divide k z
          \<in> set (snd (Game_Main (\<lambda>n. 54) (shoot 37) (run (\<lambda>n. 54) shoot 37 (Game_Init (\<lambda>n. 54) globals))))
        \<longrightarrow> of_int NEAR_Z < z)"
proof -
  let ?out = "snd (Game_Main (\<lambda>n. 54) (shoot 37) (run (\<lambda>n. 54) shoot 37 (Game_Init (\<lambda>n. 54) globals)))"
  have d: "Divide ExplosionVertex (of_int NEAR_Z) \<in> set ?out"
    by (rule shoot_divides)
  then have "\<exists>k z. Divide k z \<in> set ?out \<and> \<not> of_int NEAR_Z < z"
    by (intro exI [of _ ExplosionVertex] exI [of _ "of_int NEAR_Z"]) simp
  with d show ?thesis by blast
qed

text \<open>
  C7. A world point \<open>(x, y, z)\<close> is drawn at the screen coordinates
  \<open>WINDOW_WIDTH/2 + VIEW_DISTANCE*x/z\<close> and \<open>WINDOW_HEIGHT/2 - VIEW_DISTANCE*y/z\<close>
  (the y axis inverted), each converted to \<^verbatim>\<open>int\<close>, so within one pixel of the
  exact value: this is what \<open>Draw_Starfield\<close> plots for a star and what
  \<open>Draw_Ties\<close> draws for the two end points of a tie fighter edge, translated
  by the tie fighter's position. The point \<open>(0, 0, 100)\<close> projects to exactly
  \<open>(64, 80)\<close>.
\<close>

theorem perspective_projection:
  assumes "z \<noteq> 0"
  shows
   "screen_x (perspective x z) =
      float_to_int (of_int (WINDOW_WIDTH div 2) + of_int VIEW_DISTANCE * x / z) \<and>
    screen_y (perspective y z) =
      float_to_int (of_int (WINDOW_HEIGHT div 2) - of_int VIEW_DISTANCE * y / z) \<and>
    \<bar>of_int (screen_x (perspective x z)) - (of_int (WINDOW_WIDTH div 2) + of_int VIEW_DISTANCE * x / z)\<bar> < 1 \<and>
    \<bar>of_int (screen_y (perspective y z)) - (of_int (WINDOW_HEIGHT div 2) - of_int VIEW_DISTANCE * y / z)\<bar> < 1 \<and>
    Draw_Star \<lparr>p_color = c, p_x = x, p_y = y, p_z = z\<rparr> =
      [Divide StarPoint z, Divide StarPoint z] @
      (if screen_x (perspective x z) \<ge> WINDOW_WIDTH \<or> screen_x (perspective x z) < 0 \<or>
          screen_y (perspective y z) \<ge> WINDOW_HEIGHT \<or> screen_y (perspective y z) < 0
       then [] else [DrawPixel (screen_x (perspective x z)) (screen_y (perspective y z)) c]) \<and>
    (let a = tie_vlist ! l_v1 (tie_shape ! edge); b = tie_vlist ! l_v2 (tie_shape ! edge)
     in last (snd (Draw_Tie_edge t c edge (bb, out))) =
          DrawLine (screen_x (perspective (t_x t + p_x a) (p_z a + t_z t)))
                   (screen_y (perspective (t_y t + p_y a) (p_z a + t_z t)))
                   (screen_x (perspective (t_x t + p_x b) (p_z b + t_z t)))
                   (screen_y (perspective (t_y t + p_y b) (p_z b + t_z t))) c) \<and>
    screen_x (perspective 0 100) = 64 \<and> screen_y (perspective 0 100) = 80 \<and>
    Draw_Star \<lparr>p_color = c, p_x = 0, p_y = 0, p_z = 100\<rparr> =
      [Divide StarPoint 100, Divide StarPoint 100, DrawPixel 64 80 c]"
proof -
  have 6: "(let a = tie_vlist ! l_v1 (tie_shape ! edge); b = tie_vlist ! l_v2 (tie_shape ! edge)
     in last (snd (Draw_Tie_edge t c edge (bb, out))) =
          DrawLine (screen_x (perspective (t_x t + p_x a) (p_z a + t_z t)))
                   (screen_y (perspective (t_y t + p_y a) (p_z a + t_z t)))
                   (screen_x (perspective (t_x t + p_x b) (p_z b + t_z t)))
                   (screen_y (perspective (t_y t + p_y b) (p_z b + t_z t))) c)"
    unfolding Draw_Tie_edge_line Let_def by simp
  have 1: "screen_x (perspective x z) =
      float_to_int (of_int (WINDOW_WIDTH div 2) + of_int VIEW_DISTANCE * x / z)"
    "screen_y (perspective y z) =
      float_to_int (of_int (WINDOW_HEIGHT div 2) - of_int VIEW_DISTANCE * y / z)"
    by (simp_all add: screen_x_def screen_y_def perspective_def)
  have 2: "\<bar>of_int (screen_x (perspective x z)) - (of_int (WINDOW_WIDTH div 2) + of_int VIEW_DISTANCE * x / z)\<bar> < 1"
    "\<bar>of_int (screen_y (perspective y z)) - (of_int (WINDOW_HEIGHT div 2) - of_int VIEW_DISTANCE * y / z)\<bar> < 1"
    unfolding 1 by (rule float_to_int_near)+
  have 3: "screen_x (perspective 0 100) = 64" "screen_y (perspective 0 100) = 80"
    by (simp_all add: screen_x_def screen_y_def perspective_def float_to_int_def)
  have 4: "Draw_Star \<lparr>p_color = c, p_x = x, p_y = y, p_z = z\<rparr> =
      [Divide StarPoint z, Divide StarPoint z] @
      (if screen_x (perspective x z) \<ge> WINDOW_WIDTH \<or> screen_x (perspective x z) < 0 \<or>
          screen_y (perspective y z) \<ge> WINDOW_HEIGHT \<or> screen_y (perspective y z) < 0
       then [] else [DrawPixel (screen_x (perspective x z)) (screen_y (perspective y z)) c])" for x y z
    by (simp add: Draw_Star_def Let_def)
  have 5: "Draw_Star \<lparr>p_color = c, p_x = 0, p_y = 0, p_z = 100\<rparr> =
      [Divide StarPoint 100, Divide StarPoint 100, DrawPixel 64 80 c]"
    unfolding 4 3 by simp
  show ?thesis
    by (intro conjI 1 2 3 4 5 6)
qed

theorem perspective_projection_witness:
  "(100::rat) \<noteq> 0 \<and>
   screen_x (perspective 40 100) = float_to_int (of_int (WINDOW_WIDTH div 2) + of_int VIEW_DISTANCE * 40 / 100) \<and>
   screen_y (perspective 40 100) = float_to_int (of_int (WINDOW_HEIGHT div 2) - of_int VIEW_DISTANCE * 40 / 100) \<and>
   screen_x (perspective 40 100) = 89 \<and> screen_y (perspective 40 100) = 54 \<and>
   screen_x (perspective 0 100) = 64 \<and> screen_y (perspective 0 100) = 80"
proof -
  have h: "(100::rat) \<noteq> 0" by simp
  have e: "float_to_int (of_int (WINDOW_WIDTH div 2) + of_int VIEW_DISTANCE * 40 / 100) = 89"
    "float_to_int (of_int (WINDOW_HEIGHT div 2) - of_int VIEW_DISTANCE * 40 / 100) = 54"
    by (simp_all add: float_to_int_eval)
  from perspective_projection [OF h, of 40 40] e h show ?thesis
    by simp
qed

end
